theory Spec2Isabelle
  imports Complex_Main
begin

section \<open>Numeric values of the arrays\<close>

text \<open>
  The notebook \<^verbatim>\<open>forwards_traj_fast.ipynb\<close> works on numpy arrays of
  double-precision numbers. A value is a finite number, one of the two infinities, or
  not-a-number, and not-a-number and the infinities go through the arithmetic and the
  comparisons as IEEE 754 has it. Finite numbers are modelled as reals. The operations
  \<open>fadd\<close>, \<open>fsub\<close>, \<open>fmul\<close> and \<open>fdiv\<close> are exact; the sums whose rounding can
  change an integer or a comparison (the margin of the window, which is truncated, and
  the half cell of the staggered coordinates, which is compared with the grid) are
  rounded to the nearest double by \<open>add64\<close> and \<open>sub64\<close>. The sign of zero is left
  out.
\<close>

datatype fl = Fin real | PInf | NInf | NaN

datatype error =
  ValueError | OverflowError | IndexError | ZeroDivisionError | AttributeError | NameError

definition bind_e :: "error + 'a \<Rightarrow> ('a \<Rightarrow> error + 'b) \<Rightarrow> error + 'b" where
  "bind_e m f = (case m of Inl e \<Rightarrow> Inl e | Inr x \<Rightarrow> f x)"

fun fneg :: "fl \<Rightarrow> fl" where
  "fneg (Fin a) = Fin (- a)"
| "fneg PInf = NInf"
| "fneg NInf = PInf"
| "fneg NaN = NaN"

fun fadd :: "fl \<Rightarrow> fl \<Rightarrow> fl" where
  "fadd NaN y = NaN"
| "fadd x NaN = NaN"
| "fadd (Fin a) (Fin b) = Fin (a + b)"
| "fadd PInf NInf = NaN"
| "fadd NInf PInf = NaN"
| "fadd PInf y = PInf"
| "fadd x PInf = PInf"
| "fadd NInf y = NInf"
| "fadd x NInf = NInf"

definition fsub :: "fl \<Rightarrow> fl \<Rightarrow> fl" where
  "fsub x y = fadd x (fneg y)"

fun fmul :: "fl \<Rightarrow> fl \<Rightarrow> fl" where
  "fmul NaN y = NaN"
| "fmul x NaN = NaN"
| "fmul (Fin a) (Fin b) = Fin (a * b)"
| "fmul (Fin a) PInf = (if 0 < a then PInf else if a < 0 then NInf else NaN)"
| "fmul (Fin a) NInf = (if 0 < a then NInf else if a < 0 then PInf else NaN)"
| "fmul PInf (Fin b) = (if 0 < b then PInf else if b < 0 then NInf else NaN)"
| "fmul NInf (Fin b) = (if 0 < b then NInf else if b < 0 then PInf else NaN)"
| "fmul PInf PInf = PInf"
| "fmul PInf NInf = NInf"
| "fmul NInf PInf = NInf"
| "fmul NInf NInf = PInf"

text \<open>Division does not raise on arrays: a zero divisor gives an infinity or not-a-number.\<close>

fun fdiv :: "fl \<Rightarrow> fl \<Rightarrow> fl" where
  "fdiv NaN y = NaN"
| "fdiv x NaN = NaN"
| "fdiv (Fin a) (Fin b) =
     (if b \<noteq> 0 then Fin (a / b) else if 0 < a then PInf else if a < 0 then NInf else NaN)"
| "fdiv (Fin a) PInf = Fin 0"
| "fdiv (Fin a) NInf = Fin 0"
| "fdiv PInf (Fin b) = (if 0 \<le> b then PInf else NInf)"
| "fdiv NInf (Fin b) = (if 0 \<le> b then NInf else PInf)"
| "fdiv PInf y = NaN"
| "fdiv NInf y = NaN"

text \<open>
  Rounding to binary64, to nearest with ties to even. \<open>bexp n x\<close> is the binary
  exponent of a positive \<open>x\<close> (the \<open>e\<close> with \<open>2^e \<le> x < 2^(e+1)\<close>), found in at
  most \<open>n\<close> halvings or doublings; 1100 of them cover the exponents of the format. A
  double with exponent \<open>e\<close> is a multiple of \<open>2^(e - 52)\<close>, the exponent being at
  least -1022 (below, the numbers are subnormal); a result of magnitude \<open>2^1024\<close> or
  more overflows to an infinity.
\<close>

fun bexp :: "nat \<Rightarrow> real \<Rightarrow> int" where
  "bexp 0 x = 0"
| "bexp (Suc n) x =
     (if 2 \<le> x then bexp n (x / 2) + 1 else if x < 1 then bexp n (2 * x) - 1 else 0)"

definition round_even :: "real \<Rightarrow> int" where
  "round_even q =
     (let f = \<lfloor>q\<rfloor>; d = q - real_of_int f
      in if d < 1 / 2 then f else if 1 / 2 < d then f + 1 else if even f then f else f + 1)"

definition float64 :: "real \<Rightarrow> fl" where
  "float64 x =
     (let e = max (bexp 1100 \<bar>x\<bar>) (- 1022);
          u = 2 powi (e - 52);
          r = real_of_int (round_even (x / u)) * u
      in if 2 ^ 1024 \<le> \<bar>r\<bar> then (if 0 < x then PInf else NInf) else Fin r)"

definition add64 :: "fl \<Rightarrow> fl \<Rightarrow> fl" where
  "add64 x y = (case fadd x y of Fin a \<Rightarrow> float64 a | v \<Rightarrow> v)"

definition sub64 :: "fl \<Rightarrow> fl \<Rightarrow> fl" where
  "sub64 x y = add64 x (fneg y)"

text \<open>Comparisons: every comparison with not-a-number is false.\<close>

fun flt :: "fl \<Rightarrow> fl \<Rightarrow> bool" where
  "flt NaN y = False"
| "flt x NaN = False"
| "flt (Fin a) (Fin b) = (a < b)"
| "flt x NInf = False"
| "flt NInf y = True"
| "flt PInf y = False"
| "flt x PInf = True"

definition fgt :: "fl \<Rightarrow> fl \<Rightarrow> bool" where
  "fgt x y = flt y x"

fun fge :: "fl \<Rightarrow> fl \<Rightarrow> bool" where
  "fge NaN y = False"
| "fge x NaN = False"
| "fge (Fin a) (Fin b) = (b \<le> a)"
| "fge PInf y = True"
| "fge x NInf = True"
| "fge NInf y = False"
| "fge x PInf = False"

definition isnan :: "fl \<Rightarrow> bool" where
  "isnan x = (x = NaN)"

text \<open>
  \<^verbatim>\<open>np.int(v)\<close> is Python's \<^verbatim>\<open>int(v)\<close>: it truncates towards zero, raises
  ValueError on not-a-number and OverflowError on an infinity.
\<close>

definition trunc :: "real \<Rightarrow> int" where
  "trunc a = (if 0 \<le> a then \<lfloor>a\<rfloor> else \<lceil>a\<rceil>)"

fun np_int :: "fl \<Rightarrow> error + int" where
  "np_int (Fin a) = Inr (trunc a)"
| "np_int NaN = Inl ValueError"
| "np_int PInf = Inl OverflowError"
| "np_int NInf = Inl OverflowError"

text \<open>
  \<^verbatim>\<open>np.nanmin\<close> and \<^verbatim>\<open>np.nanmax\<close> reduce with \<^verbatim>\<open>fmin\<close> and \<^verbatim>\<open>fmax\<close>,
  which drop a not-a-number operand; a slice of not-a-numbers only gives not-a-number
  (with a warning), an empty one raises ValueError.
\<close>

definition fmin :: "fl \<Rightarrow> fl \<Rightarrow> fl" where
  "fmin x y = (if x = NaN then y else if y = NaN then x else if flt y x then y else x)"

definition fmax :: "fl \<Rightarrow> fl \<Rightarrow> fl" where
  "fmax x y = (if x = NaN then y else if y = NaN then x else if flt x y then y else x)"

definition nanmin :: "fl list \<Rightarrow> error + fl" where
  "nanmin xs = (case xs of [] \<Rightarrow> Inl ValueError | x # r \<Rightarrow> Inr (foldl fmin x r))"

definition nanmax :: "fl list \<Rightarrow> error + fl" where
  "nanmax xs = (case xs of [] \<Rightarrow> Inl ValueError | x # r \<Rightarrow> Inr (foldl fmax x r))"

text \<open>The finite entries of a row, in order: the positions of the parcels still tracked.\<close>

fun finite_values :: "fl list \<Rightarrow> real list" where
  "finite_values [] = []"
| "finite_values (Fin a # r) = a # finite_values r"
| "finite_values (x # r) = finite_values r"

section \<open>The field window\<close>

text \<open>
  The first statements of the loop body, for one axis:
  \<^verbatim>\<open>
    xmin = np.int(np.nanmin(xpos[t,:,:])-2)
    xmin = 0 if xmin < 0 else xmin
    xmax = np.int(np.nanmax(xpos[t,:,:])+2)
    xmax = ds.nx if xmax > ds.nx else xmax
  \<close>
  The row \<open>xpos[t,:,:]\<close> is given flattened, one entry per parcel. The sum and the
  difference are those of two doubles.
\<close>

definition window_min :: "fl list \<Rightarrow> error + int" where
  "window_min row =
     bind_e (nanmin row) (\<lambda>m.
     bind_e (np_int (sub64 m (Fin 2))) (\<lambda>v.
     Inr (if v < 0 then 0 else v)))"

definition window_max :: "nat \<Rightarrow> fl list \<Rightarrow> error + int" where
  "window_max dimn row =
     bind_e (nanmax row) (\<lambda>m.
     bind_e (np_int (add64 m (Fin 2))) (\<lambda>v.
     Inr (if v > int dimn then int dimn else v)))"

text \<open>The bounds as the specification words them, for comparison.\<close>

definition clamp :: "int \<Rightarrow> int \<Rightarrow> int \<Rightarrow> int" where
  "clamp v lo hi = max lo (min hi v)"

definition spec_window_lo :: "int \<Rightarrow> nat \<Rightarrow> real \<Rightarrow> int" where
  "spec_window_lo margin dimn mn = clamp (\<lfloor>mn\<rfloor> - margin) 0 (int dimn - 1)"

definition spec_window_hi :: "int \<Rightarrow> nat \<Rightarrow> real \<Rightarrow> int" where
  "spec_window_hi margin dimn mx = clamp (\<lceil>mx\<rceil> + margin) 0 (int dimn)"

section \<open>Arrays, indexing and slicing\<close>

text \<open>
  A three-dimensional numpy array is its shape and its elements in row-major order;
  the axes are (z, y, x), as in the model output. Surface fields have the axes (y, x).
\<close>

record arr3 =
  d0 :: nat
  d1 :: nat
  d2 :: nat
  elems3 :: "real list"

record arr2 =
  e0 :: nat
  e1 :: nat
  elems2 :: "real list"

definition get3 :: "arr3 \<Rightarrow> nat \<Rightarrow> nat \<Rightarrow> nat \<Rightarrow> real" where
  "get3 a k j i = elems3 a ! ((k * d1 a + j) * d2 a + i)"

definition get2 :: "arr2 \<Rightarrow> nat \<Rightarrow> nat \<Rightarrow> real" where
  "get2 a j i = elems2 a ! (j * e1 a + i)"

definition tabulate3 :: "nat \<Rightarrow> nat \<Rightarrow> nat \<Rightarrow> (nat \<Rightarrow> nat \<Rightarrow> nat \<Rightarrow> real) \<Rightarrow> arr3" where
  "tabulate3 n0 n1 n2 f =
     \<lparr>d0 = n0, d1 = n1, d2 = n2,
      elems3 = concat (map (\<lambda>k. concat (map (\<lambda>j. map (\<lambda>i. f k j i) [0..<n2]) [0..<n1])) [0..<n0])\<rparr>"

definition tabulate2 :: "nat \<Rightarrow> nat \<Rightarrow> (nat \<Rightarrow> nat \<Rightarrow> real) \<Rightarrow> arr2" where
  "tabulate2 n0 n1 f =
     \<lparr>e0 = n0, e1 = n1, elems2 = concat (map (\<lambda>j. map (\<lambda>i. f j i) [0..<n1]) [0..<n0])\<rparr>"

text \<open>Python indexing: a negative index counts from the end, out of range raises.\<close>

definition wrap_index :: "nat \<Rightarrow> int \<Rightarrow> nat" where
  "wrap_index n i = nat (if i < 0 then i + int n else i)"

definition py_index :: "'a list \<Rightarrow> int \<Rightarrow> error + 'a" where
  "py_index xs i =
     (let n = int (length xs); j = (if i < 0 then i + n else i)
      in if 0 \<le> j \<and> j < n then Inr (xs ! nat j) else Inl IndexError)"

text \<open>
  A Python slice \<^verbatim>\<open>lo:hi\<close> on an axis of length \<open>n\<close>: a negative bound counts from
  the end, both bounds are cut to the axis, and an empty range is an empty slice.
\<close>

definition slice_norm :: "nat \<Rightarrow> int \<Rightarrow> int" where
  "slice_norm n i = (if i < 0 then max 0 (i + int n) else min i (int n))"

definition slice_start :: "nat \<Rightarrow> int \<Rightarrow> nat" where
  "slice_start n lo = nat (slice_norm n lo)"

definition slice_len :: "nat \<Rightarrow> int \<Rightarrow> int \<Rightarrow> nat" where
  "slice_len n lo hi = nat (slice_norm n hi - slice_norm n lo)"

definition slice3 :: "arr3 \<Rightarrow> int \<Rightarrow> int \<Rightarrow> int \<Rightarrow> int \<Rightarrow> int \<Rightarrow> int \<Rightarrow> arr3" where
  "slice3 a zlo zhi ylo yhi xlo xhi =
     tabulate3 (slice_len (d0 a) zlo zhi) (slice_len (d1 a) ylo yhi) (slice_len (d2 a) xlo xhi)
       (\<lambda>k j i. get3 a (slice_start (d0 a) zlo + k) (slice_start (d1 a) ylo + j)
                        (slice_start (d2 a) xlo + i))"

section \<open>Smoothing\<close>

text \<open>
  \<^verbatim>\<open>scipy.ndimage.filters.uniform_filter(u, smooth)\<close> with the library's defaults
  (\<^verbatim>\<open>mode='reflect'\<close>, \<^verbatim>\<open>origin=0\<close>): a one-dimensional moving average of width
  \<open>width\<close> along axis 0, then axis 1, then axis 2. The window at position \<open>i\<close>
  covers \<open>i - width div 2, ..., i - width div 2 + width - 1\<close>, and an index outside
  the array is reflected about the edge of the array (d c b a | a b c d | d c b a).
\<close>

definition reflect_index :: "nat \<Rightarrow> int \<Rightarrow> nat" where
  "reflect_index n j =
     (let m = j mod (2 * int n) in nat (if m < int n then m else 2 * int n - 1 - m))"

definition window_mean :: "nat \<Rightarrow> nat \<Rightarrow> (nat \<Rightarrow> real) \<Rightarrow> nat \<Rightarrow> real" where
  "window_mean width n f i =
     (\<Sum>m\<leftarrow>[0..<width]. f (reflect_index n (int i - int (width div 2) + int m))) / real width"

definition uniform_filter_axis0 :: "nat \<Rightarrow> arr3 \<Rightarrow> arr3" where
  "uniform_filter_axis0 width a =
     tabulate3 (d0 a) (d1 a) (d2 a) (\<lambda>k j i. window_mean width (d0 a) (\<lambda>k'. get3 a k' j i) k)"

definition uniform_filter_axis1 :: "nat \<Rightarrow> arr3 \<Rightarrow> arr3" where
  "uniform_filter_axis1 width a =
     tabulate3 (d0 a) (d1 a) (d2 a) (\<lambda>k j i. window_mean width (d1 a) (\<lambda>j'. get3 a k j' i) j)"

definition uniform_filter_axis2 :: "nat \<Rightarrow> arr3 \<Rightarrow> arr3" where
  "uniform_filter_axis2 width a =
     tabulate3 (d0 a) (d1 a) (d2 a) (\<lambda>k j i. window_mean width (d2 a) (\<lambda>i'. get3 a k j i') i)"

definition uniform_filter :: "arr3 \<Rightarrow> nat \<Rightarrow> arr3" where
  "uniform_filter a width =
     (if 1 < width
      then uniform_filter_axis2 width (uniform_filter_axis1 width (uniform_filter_axis0 width a))
      else a)"

definition smooth :: nat where
  "smooth = 20"

section \<open>Interpolation\<close>

text \<open>
  \<^verbatim>\<open>interpolate.interpn(points, values, xi, method='linear', bounds_error=False,
  fill_value=...)\<close>, in the version whose frames the notebook's recorded traceback
  shows. Every axis the notebook passes is \<^verbatim>\<open>np.arange(0, n)\<close>, so an axis is given
  by its length \<open>n\<close>. Per axis, as in \<^verbatim>\<open>_find_indices\<close>:
  \<^verbatim>\<open>
    i = np.searchsorted(grid, x) - 1
    i[i < 0] = 0
    i[i > grid.size - 2] = grid.size - 2
    norm_distances.append((x - grid[i]) / (grid[i + 1] - grid[i]))
    out_of_bounds += x < grid[0]
    out_of_bounds += x > grid[-1]
  \<close>
  A not-a-number coordinate sorts after every grid point and is not out of bounds.
\<close>

definition searchsorted :: "nat \<Rightarrow> fl \<Rightarrow> int" where
  "searchsorted n x =
     (case x of
        Fin a \<Rightarrow> (if a \<le> 0 then 0 else if real n - 1 < a then int n else \<lceil>a\<rceil>)
      | PInf \<Rightarrow> int n
      | NInf \<Rightarrow> 0
      | NaN \<Rightarrow> int n)"

definition find_index :: "nat \<Rightarrow> fl \<Rightarrow> int" where
  "find_index n x =
     (let i = searchsorted n x - 1;
          i = (if i < 0 then 0 else i);
          i = (if i > int n - 2 then int n - 2 else i)
      in i)"

definition grid_at :: "nat \<Rightarrow> int \<Rightarrow> real" where
  "grid_at n i = real (wrap_index n i)"

definition norm_distance :: "nat \<Rightarrow> fl \<Rightarrow> fl" where
  "norm_distance n x =
     (let i = find_index n x
      in fdiv (fsub x (Fin (grid_at n i))) (Fin (grid_at n (i + 1) - grid_at n i)))"

definition out_of_bounds :: "nat \<Rightarrow> fl \<Rightarrow> bool" where
  "out_of_bounds n x = (flt x (Fin (grid_at n 0)) \<or> fgt x (Fin (grid_at n (- 1))))"

text \<open>
  \<^verbatim>\<open>_evaluate_linear\<close>: the sum over the corners of the cell, each corner's value
  times the product of its weights (\<open>1 - d\<close> at the lower index, \<open>d\<close> at the upper).
\<close>

definition edge_weight :: "fl \<Rightarrow> bool \<Rightarrow> fl" where
  "edge_weight d upper = (if upper then d else fsub (Fin 1) d)"

definition edge_index :: "nat \<Rightarrow> fl \<Rightarrow> bool \<Rightarrow> nat" where
  "edge_index n x upper = wrap_index n (find_index n x + (if upper then 1 else 0))"

definition evaluate_linear3 :: "nat \<times> nat \<times> nat \<Rightarrow> arr3 \<Rightarrow> fl \<times> fl \<times> fl \<Rightarrow> fl" where
  "evaluate_linear3 points a p =
     (case points of (n0, n1, n2) \<Rightarrow> case p of (z, y, x) \<Rightarrow>
        foldl (\<lambda>acc (bz, by, bx).
                 fadd acc
                   (fmul (Fin (get3 a (edge_index n0 z bz) (edge_index n1 y by) (edge_index n2 x bx)))
                      (fmul (fmul (fmul (Fin 1) (edge_weight (norm_distance n0 z) bz))
                                  (edge_weight (norm_distance n1 y) by))
                            (edge_weight (norm_distance n2 x) bx))))
          (Fin 0)
          [(False, False, False), (False, False, True), (False, True, False), (False, True, True),
           (True, False, False), (True, False, True), (True, True, False), (True, True, True)])"

definition evaluate_linear2 :: "nat \<times> nat \<Rightarrow> arr2 \<Rightarrow> fl \<times> fl \<Rightarrow> fl" where
  "evaluate_linear2 points a p =
     (case points of (n0, n1) \<Rightarrow> case p of (y, x) \<Rightarrow>
        foldl (\<lambda>acc (by, bx).
                 fadd acc
                   (fmul (Fin (get2 a (edge_index n0 y by) (edge_index n1 x bx)))
                      (fmul (fmul (Fin 1) (edge_weight (norm_distance n0 y) by))
                            (edge_weight (norm_distance n1 x) bx))))
          (Fin 0)
          [(False, False), (False, True), (True, False), (True, True)])"

text \<open>
  A query point is outside when it is out of bounds on some axis; it then gets the fill
  value (\<^verbatim>\<open>result[out_of_bounds] = self.fill_value\<close>).
\<close>

definition outside :: "nat \<times> nat \<times> nat \<Rightarrow> fl \<times> fl \<times> fl \<Rightarrow> bool" where
  "outside points p =
     (case points of (n0, n1, n2) \<Rightarrow> case p of (z, y, x) \<Rightarrow>
        out_of_bounds n0 z \<or> out_of_bounds n1 y \<or> out_of_bounds n2 x)"

definition outside2 :: "nat \<times> nat \<Rightarrow> fl \<times> fl \<Rightarrow> bool" where
  "outside2 points p =
     (case points of (n0, n1) \<Rightarrow> case p of (y, x) \<Rightarrow>
        out_of_bounds n0 y \<or> out_of_bounds n1 x)"

definition interp_point3 :: "nat \<times> nat \<times> nat \<Rightarrow> arr3 \<Rightarrow> fl \<Rightarrow> fl \<times> fl \<times> fl \<Rightarrow> fl" where
  "interp_point3 points a fill p =
     (if outside points p then fill else evaluate_linear3 points a p)"

definition interp_point2 :: "nat \<times> nat \<Rightarrow> arr2 \<Rightarrow> fl \<Rightarrow> fl \<times> fl \<Rightarrow> fl" where
  "interp_point2 points a fill p =
     (if outside2 points p then fill else evaluate_linear2 points a p)"

text \<open>
  The call itself: ValueError when an axis and the array disagree on a length,
  IndexError (from \<^verbatim>\<open>grid[0]\<close>) when an axis is empty.
\<close>

definition interpn3 ::
  "nat \<times> nat \<times> nat \<Rightarrow> arr3 \<Rightarrow> (fl \<times> fl \<times> fl) list \<Rightarrow> fl \<Rightarrow> error + fl list" where
  "interpn3 points a xi fill =
     (case points of (n0, n1, n2) \<Rightarrow>
        if d0 a \<noteq> n0 \<or> d1 a \<noteq> n1 \<or> d2 a \<noteq> n2 then Inl ValueError
        else if n0 = 0 \<or> n1 = 0 \<or> n2 = 0 then Inl IndexError
        else Inr (map (interp_point3 points a fill) xi))"

definition interpn2 ::
  "nat \<times> nat \<Rightarrow> arr2 \<Rightarrow> (fl \<times> fl) list \<Rightarrow> fl \<Rightarrow> error + fl list" where
  "interpn2 points a xi fill =
     (case points of (n0, n1) \<Rightarrow>
        if e0 a \<noteq> n0 \<or> e1 a \<noteq> n1 then Inl ValueError
        else if n0 = 0 \<or> n1 = 0 then Inl IndexError
        else Inr (map (interp_point2 points a fill) xi))"

section \<open>Model output, configuration and parcel arrays\<close>

text \<open>
  What the notebook reads from the model output \<^verbatim>\<open>ds\<close>: the grid dimensions, the
  three velocity fields and the named variables, each a list of arrays over the output
  times, the surface height \<^verbatim>\<open>zs\<close> and the level heights \<^verbatim>\<open>zh\<close> at the first
  output time when the output has them, and the one-dimensional level heights \<^verbatim>\<open>z\<close>
  (in km). The horizontal resolution (from \<^verbatim>\<open>ds.xf\<close>) and the output interval in
  seconds (from \<^verbatim>\<open>ds.time\<close>) are taken as given numbers.
\<close>

record dataset =
  nx :: nat
  ny :: nat
  nz :: nat
  uinterp :: "arr3 list"
  vinterp :: "arr3 list"
  winterp :: "arr3 list"
  variables :: "string \<Rightarrow> arr3 list option"
  zs :: "arr2 option"
  zh :: "arr3 option"
  z_levels :: "real list"
  hor_resolution :: real
  output_interval :: real

text \<open>The cell "Initialize Parcels"; \<open>staggered\<close> is \<^verbatim>\<open>staggered == 'Y'\<close>.\<close>

record config =
  num_seeds_z :: nat
  num_seeds_y :: nat
  time_steps :: nat
  incre :: int
  start_time_step :: int
  var_name1 :: string
  staggered :: bool

text \<open>
  The six arrays of shape \<^verbatim>\<open>(time_steps, num_seeds_z, num_seeds_y)\<close>: a list of rows,
  one per time index, each row the flattened seed grid (one entry per parcel).
\<close>

record state =
  xpos :: "fl list list"
  ypos :: "fl list list"
  zpos :: "fl list list"
  zpos_heightASL :: "fl list list"
  zpos_vert_res :: "fl list list"
  variable1 :: "fl list list"

definition wf_state :: "nat \<Rightarrow> nat \<Rightarrow> state \<Rightarrow> bool" where
  "wf_state T P s \<longleftrightarrow>
     (\<forall>a \<in> {xpos s, ypos s, zpos s, zpos_heightASL s, zpos_vert_res s, variable1 s}.
        length a = T \<and> (\<forall>r \<in> set a. length r = P))"

text \<open>
  The cell "Model output info":
  \<^verbatim>\<open>
    try:
        vert_resolution = ds.zh[0,1:,:,:].values-ds.zh[0,:-1,:,:].values
    except:
        vert_res1d = (ds.z[1:].values-ds.z[:-1].values)*1000
        vert_res2d = np.repeat(vert_res1d,ds.ny, axis = 0).reshape(ds.nz-1, ds.ny)
        vert_resolution = np.repeat(vert_res2d,ds.nx, axis = 0).reshape(ds.nz-1, ds.ny, ds.nx)
    time_step_length = (ds.time[1].values - ds.time[0].values)/np.timedelta64(1, 's')*incre
  \<close>
  Without terrain every level \<open>k\<close> holds the one spacing \<open>(z[k+1] - z[k]) * 1000\<close>;
  the reshape raises when \<^verbatim>\<open>ds.z\<close> does not have \<^verbatim>\<open>ds.nz\<close> - 1 differences.
\<close>

definition vert_resolution :: "dataset \<Rightarrow> error + arr3" where
  "vert_resolution ds =
     (case zh ds of
        Some h \<Rightarrow>
          Inr (tabulate3 (d0 h - 1) (d1 h) (d2 h) (\<lambda>k j i. get3 h (k + 1) j i - get3 h k j i))
      | None \<Rightarrow>
          if length (z_levels ds) - 1 \<noteq> nz ds - 1 then Inl ValueError
          else Inr (tabulate3 (nz ds - 1) (ny ds) (nx ds)
                      (\<lambda>k j i. (z_levels ds ! (k + 1) - z_levels ds ! k) * 1000)))"

definition time_step_length :: "config \<Rightarrow> dataset \<Rightarrow> real" where
  "time_step_length cfg ds = output_interval ds * real_of_int (incre cfg)"

text \<open>
  The surface height inside the loop:
  \<^verbatim>\<open>
    try:
        zs = np.array(ds.zs[0,:,:])
    except:
        zs = np.zeros((ds.ny, ds.nx))
  \<close>
\<close>

definition surface_height :: "dataset \<Rightarrow> arr2" where
  "surface_height ds =
     (case zs ds of Some a \<Rightarrow> a | None \<Rightarrow> tabulate2 (ny ds) (nx ds) (\<lambda>j i. 0))"

section \<open>The height of the seeds\<close>

text \<open>Reading and writing the row of a time index, and the list of query points.\<close>

definition row :: "fl list list \<Rightarrow> nat \<Rightarrow> error + fl list" where
  "row a t = (if t < length a then Inr (a ! t) else Inl IndexError)"

definition set_row :: "fl list list \<Rightarrow> nat \<Rightarrow> fl list \<Rightarrow> error + fl list list" where
  "set_row a t r = (if t < length a then Inr (a[t := r]) else Inl IndexError)"

definition coords3 :: "fl list \<Rightarrow> fl list \<Rightarrow> fl list \<Rightarrow> (fl \<times> fl \<times> fl) list" where
  "coords3 zl yl xl = zip zl (zip yl xl)"

text \<open>
  The cell "Determine Initial Height of Parcels Above Sea Level":
  \<^verbatim>\<open>
    try:
        zs = ds.zh[0,:,:].values
    except:
        zs = np.zeros((ds.ny,ds,nx))
    try:
        zh = ds.zh[0,:,:,:].values
    except:
        ...
    coord_height.append((zloc[i], yloc[i], xloc[i]))
    zpos_heightASL[0,:,:] = np.reshape(interpolate.interpn((z,y,x), zh, coord_height,
        method='linear', bounds_error=False, fill_value= 0), (num_seeds_z, num_seeds_y))
  \<close>
  The first handler names \<^verbatim>\<open>nx\<close>, which the notebook never defines: on output
  without \<^verbatim>\<open>zh\<close> the cell ends there with NameError. With \<^verbatim>\<open>zh\<close>, the height of
  each seed is interpolated from the level heights, 0 for a seed outside the grid.
\<close>

definition initial_height :: "dataset \<Rightarrow> state \<Rightarrow> error + state" where
  "initial_height ds s =
     (case zh ds of
        None \<Rightarrow> Inl NameError
      | Some h \<Rightarrow>
          bind_e (row (xpos s) 0) (\<lambda>xrow.
          bind_e (row (ypos s) 0) (\<lambda>yrow.
          bind_e (row (zpos s) 0) (\<lambda>zrow.
          bind_e (interpn3 (nz ds, ny ds, nx ds) h (coords3 zrow yrow xrow) (Fin 0)) (\<lambda>hs.
          bind_e (set_row (zpos_heightASL s) 0 hs) (\<lambda>asl.
          Inr (s\<lparr>zpos_heightASL := asl\<rparr>)))))))"

section \<open>One pass of the trajectory loop\<close>

text \<open>
  The window bounds, computed in the order x, y, z from the rows at time index \<open>t\<close>.
\<close>

record window =
  xmin :: int
  xmax :: int
  ymin :: int
  ymax :: int
  zmin :: int
  zmax :: int

definition field_window :: "dataset \<Rightarrow> state \<Rightarrow> nat \<Rightarrow> error + window" where
  "field_window ds s t =
     bind_e (row (xpos s) t) (\<lambda>xw.
     bind_e (window_min xw) (\<lambda>x0.
     bind_e (window_max (nx ds) xw) (\<lambda>x1.
     bind_e (row (ypos s) t) (\<lambda>yw.
     bind_e (window_min yw) (\<lambda>y0.
     bind_e (window_max (ny ds) yw) (\<lambda>y1.
     bind_e (row (zpos s) t) (\<lambda>zw.
     bind_e (window_min zw) (\<lambda>z0.
     bind_e (window_max (nz ds) zw) (\<lambda>z1.
     Inr \<lparr>xmin = x0, xmax = x1, ymin = y0, ymax = y1, zmin = z0, zmax = z1\<rparr>)))))))))"

text \<open>\<^verbatim>\<open>x_fast = np.arange(0,xmax-xmin)\<close> and its two companions, as lengths (z, y, x).\<close>

definition fast_axes :: "window \<Rightarrow> nat \<times> nat \<times> nat" where
  "fast_axes w = (nat (zmax w - zmin w), nat (ymax w - ymin w), nat (xmax w - xmin w))"

text \<open>
  The simulation time index of loop step \<open>t\<close>:
  \<^verbatim>\<open>t = np.int(t * incre)\<close> and then \<^verbatim>\<open>start_time_step+t\<close>.
\<close>

definition loop_time_index :: "config \<Rightarrow> nat \<Rightarrow> int" where
  "loop_time_index cfg t = start_time_step cfg + int t * incre cfg"

text \<open>\<^verbatim>\<open>ds.uinterp[start_time_step+t,zmin:zmax,ymin:ymax,xmin:xmax].values\<close>\<close>

definition fetch :: "arr3 list \<Rightarrow> int \<Rightarrow> window \<Rightarrow> error + arr3" where
  "fetch field ti w =
     bind_e (py_index field ti) (\<lambda>a.
     Inr (slice3 a (zmin w) (zmax w) (ymin w) (ymax w) (xmin w) (xmax w)))"

definition get_variable :: "dataset \<Rightarrow> string \<Rightarrow> error + arr3 list" where
  "get_variable ds name = (case variables ds name of None \<Rightarrow> Inl AttributeError | Some f \<Rightarrow> Inr f)"

text \<open>
  \<^verbatim>\<open>t = np.int(t/incre)\<close> after the fetch: the true division of two Python integers,
  which raises on \<open>incre = 0\<close>.
\<close>

definition restore_t :: "config \<Rightarrow> nat \<Rightarrow> error + int" where
  "restore_t cfg t =
     (if incre cfg = 0 then Inl ZeroDivisionError
      else Inr (trunc (real_of_int (int t * incre cfg) / real_of_int (incre cfg))))"

text \<open>
  The coordinates of one axis, on the scalar grid and on the staggered grid:
  \<^verbatim>\<open>xloc = np.copy(xpos[t,:,:]).flatten()-xmin\<close> and
  \<^verbatim>\<open>xloc_stag = np.copy(xpos[t,:,:]+0.5).flatten()-xmin\<close>. The sum with 0.5 can round.
  The difference with the lower bound of the window cannot, for a double below
  \<open>2^53\<close>: the bound is an integer, 0 or between 0 and the position.
\<close>

definition loc :: "fl list \<Rightarrow> int \<Rightarrow> fl list" where
  "loc r lo = map (\<lambda>x. fsub x (Fin (real_of_int lo))) r"

definition loc_stag :: "fl list \<Rightarrow> int \<Rightarrow> fl list" where
  "loc_stag r lo = map (\<lambda>x. fsub (add64 x (Fin (1 / 2))) (Fin (real_of_int lo))) r"

definition coord_u :: "config \<Rightarrow> window \<Rightarrow> fl list \<Rightarrow> fl list \<Rightarrow> fl list \<Rightarrow> (fl \<times> fl \<times> fl) list" where
  "coord_u cfg w xrow yrow zrow =
     (if staggered cfg
      then coords3 (loc zrow (zmin w)) (loc yrow (ymin w)) (loc_stag xrow (xmin w))
      else coords3 (loc zrow (zmin w)) (loc yrow (ymin w)) (loc xrow (xmin w)))"

definition coord_v :: "config \<Rightarrow> window \<Rightarrow> fl list \<Rightarrow> fl list \<Rightarrow> fl list \<Rightarrow> (fl \<times> fl \<times> fl) list" where
  "coord_v cfg w xrow yrow zrow =
     (if staggered cfg
      then coords3 (loc zrow (zmin w)) (loc_stag yrow (ymin w)) (loc xrow (xmin w))
      else coords3 (loc zrow (zmin w)) (loc yrow (ymin w)) (loc xrow (xmin w)))"

definition coord_w :: "config \<Rightarrow> window \<Rightarrow> fl list \<Rightarrow> fl list \<Rightarrow> fl list \<Rightarrow> (fl \<times> fl \<times> fl) list" where
  "coord_w cfg w xrow yrow zrow =
     (if staggered cfg
      then coords3 (loc_stag zrow (zmin w)) (loc yrow (ymin w)) (loc xrow (xmin w))
      else coords3 (loc zrow (zmin w)) (loc yrow (ymin w)) (loc xrow (xmin w)))"

definition coord_fast :: "window \<Rightarrow> fl list \<Rightarrow> fl list \<Rightarrow> fl list \<Rightarrow> (fl \<times> fl \<times> fl) list" where
  "coord_fast w xrow yrow zrow =
     coords3 (loc zrow (zmin w)) (loc yrow (ymin w)) (loc xrow (xmin w))"

text \<open>\<^verbatim>\<open>coord.append((zloc[i]+zmin, yloc[i]+ymin, xloc[i]+xmin))\<close>\<close>

definition coord :: "window \<Rightarrow> fl list \<Rightarrow> fl list \<Rightarrow> fl list \<Rightarrow> (fl \<times> fl \<times> fl) list" where
  "coord w xrow yrow zrow =
     coords3 (map (\<lambda>c. fadd c (Fin (real_of_int (zmin w)))) (loc zrow (zmin w)))
             (map (\<lambda>c. fadd c (Fin (real_of_int (ymin w)))) (loc yrow (ymin w)))
             (map (\<lambda>c. fadd c (Fin (real_of_int (xmin w)))) (loc xrow (xmin w)))"

text \<open>The displacement of one step from an interpolated velocity.\<close>

definition horizontal_step :: "config \<Rightarrow> dataset \<Rightarrow> fl \<Rightarrow> fl" where
  "horizontal_step cfg ds vel =
     fdiv (fmul vel (Fin (time_step_length cfg ds))) (Fin (hor_resolution ds))"

definition vertical_step :: "config \<Rightarrow> dataset \<Rightarrow> fl \<Rightarrow> fl" where
  "vertical_step cfg ds vel = fmul vel (Fin (time_step_length cfg ds))"

text \<open>\<^verbatim>\<open>zpos.clip(min=0)\<close>: the maximum with zero, which keeps not-a-number.\<close>

definition clip_min0 :: "fl \<Rightarrow> fl" where
  "clip_min0 x = (if flt x (Fin 0) then Fin 0 else x)"

definition clip_array :: "fl list list \<Rightarrow> fl list list" where
  "clip_array a = map (map clip_min0) a"

text \<open>
  The samples of the smoothed window fields at the parcels of row \<open>t\<close>: the
  horizontal velocities and the tracked variable with fill value not-a-number, the
  vertical velocity with fill value 0.
\<close>

definition sample_u :: "config \<Rightarrow> window \<Rightarrow> arr3 \<Rightarrow> fl list \<Rightarrow> fl list \<Rightarrow> fl list \<Rightarrow> error + fl list" where
  "sample_u cfg w u xrow yrow zrow =
     interpn3 (fast_axes w) (uniform_filter u smooth) (coord_u cfg w xrow yrow zrow) NaN"

definition sample_v :: "config \<Rightarrow> window \<Rightarrow> arr3 \<Rightarrow> fl list \<Rightarrow> fl list \<Rightarrow> fl list \<Rightarrow> error + fl list" where
  "sample_v cfg w v xrow yrow zrow =
     interpn3 (fast_axes w) (uniform_filter v smooth) (coord_v cfg w xrow yrow zrow) NaN"

definition sample_w :: "config \<Rightarrow> window \<Rightarrow> arr3 \<Rightarrow> fl list \<Rightarrow> fl list \<Rightarrow> fl list \<Rightarrow> error + fl list" where
  "sample_w cfg w wv xrow yrow zrow =
     interpn3 (fast_axes w) (uniform_filter wv smooth) (coord_w cfg w xrow yrow zrow) (Fin 0)"

definition sample_var1 :: "window \<Rightarrow> arr3 \<Rightarrow> fl list \<Rightarrow> fl list \<Rightarrow> fl list \<Rightarrow> error + fl list" where
  "sample_var1 w var1 xrow yrow zrow =
     interpn3 (fast_axes w) (uniform_filter var1 smooth) (coord_fast w xrow yrow zrow) NaN"

text \<open>
  The vertical grid spacing at the parcels, over the global axes
  \<^verbatim>\<open>(z[:-1],y,x)\<close>, and the surface height at a list of horizontal positions.
\<close>

definition sample_vert_res :: "dataset \<Rightarrow> arr3 \<Rightarrow> window \<Rightarrow> fl list \<Rightarrow> fl list \<Rightarrow> fl list \<Rightarrow> error + fl list" where
  "sample_vert_res ds vres w xrow yrow zrow =
     interpn3 (nz ds - 1, ny ds, nx ds) vres (coord w xrow yrow zrow) NaN"

definition sample_zs :: "dataset \<Rightarrow> fl list \<Rightarrow> fl list \<Rightarrow> error + fl list" where
  "sample_zs ds xrow yrow = interpn2 (ny ds, nx ds) (surface_height ds) (zip yrow xrow) NaN"

text \<open>
  The conversion back to grid points above the surface:
  \<^verbatim>\<open>zpos[t+1,:,:] = zpos[t,:,:] + (zpos_heightASL_change - zs_change)/zpos_vert_res[t,:,:]\<close>
\<close>

definition advance_z :: "fl \<Rightarrow> fl \<Rightarrow> fl \<Rightarrow> fl \<Rightarrow> fl \<Rightarrow> fl \<Rightarrow> fl" where
  "advance_z prev_z prev_asl new_asl zs1 zs2 vres =
     fadd prev_z (fdiv (fsub (fsub new_asl prev_asl) (fsub zs2 zs1)) vres)"

definition map6 :: "('a \<Rightarrow> 'a \<Rightarrow> 'a \<Rightarrow> 'a \<Rightarrow> 'a \<Rightarrow> 'a \<Rightarrow> 'b) \<Rightarrow> 'a list \<Rightarrow> 'a list \<Rightarrow> 'a list \<Rightarrow> 'a list \<Rightarrow> 'a list \<Rightarrow> 'a list \<Rightarrow> 'b list" where
  "map6 f a b c d e g =
     map (\<lambda>i. f (a ! i) (b ! i) (c ! i) (d ! i) (e ! i) (g ! i)) [0..<length a]"

text \<open>
  The statements of the loop body that integrate the positions, from the coordinate
  lists to the assignment of \<^verbatim>\<open>zpos[t+1,:,:]\<close>, on the window \<open>w\<close> and the
  fetched fields \<open>u\<close>, \<open>v\<close>, \<open>wv\<close>. \<open>vres\<close> is the array
  \<^verbatim>\<open>vert_resolution\<close> of the cell "Model output info".
\<close>

definition integrate ::
  "config \<Rightarrow> dataset \<Rightarrow> arr3 \<Rightarrow> window \<Rightarrow> arr3 \<Rightarrow> arr3 \<Rightarrow> arr3 \<Rightarrow> nat \<Rightarrow> state \<Rightarrow> error + state" where
  "integrate cfg ds vres w u v wv t s =
     bind_e (row (xpos s) t) (\<lambda>xrow.
     bind_e (row (ypos s) t) (\<lambda>yrow.
     bind_e (row (zpos s) t) (\<lambda>zrow.
     bind_e (sample_u cfg w u xrow yrow zrow) (\<lambda>us.
     bind_e (set_row (xpos s) (t + 1) (map2 fadd xrow (map (horizontal_step cfg ds) us))) (\<lambda>xpos'.
     bind_e (sample_v cfg w v xrow yrow zrow) (\<lambda>vs.
     bind_e (set_row (ypos s) (t + 1) (map2 fadd yrow (map (horizontal_step cfg ds) vs))) (\<lambda>ypos'.
     bind_e (sample_w cfg w wv xrow yrow zrow) (\<lambda>ws.
     bind_e (row (zpos_heightASL s) t) (\<lambda>aslrow.
     bind_e (set_row (zpos_heightASL s) (t + 1) (map2 fadd aslrow (map (vertical_step cfg ds) ws))) (\<lambda>asl'.
     bind_e (sample_vert_res ds vres w xrow yrow zrow) (\<lambda>vr.
     bind_e (set_row (zpos_vert_res s) t vr) (\<lambda>vert_res'.
     bind_e (sample_zs ds xrow yrow) (\<lambda>zs1.
     bind_e (sample_zs ds (xpos' ! (t + 1)) (ypos' ! (t + 1))) (\<lambda>zs2.
     bind_e (set_row (zpos s) (t + 1)
               (map6 advance_z zrow aslrow (asl' ! (t + 1)) zs1 zs2 vr)) (\<lambda>zpos'.
     Inr \<lparr>xpos = xpos', ypos = ypos', zpos = zpos', zpos_heightASL = asl',
          zpos_vert_res = vert_res', variable1 = variable1 s\<rparr>)))))))))))))))"

text \<open>
  \<^verbatim>\<open>zpos = zpos.clip(min=0)\<close> and \<^verbatim>\<open>zpos_heightASL = zpos_heightASL.clip(min=0)\<close>:
  the whole arrays, every time index.
\<close>

definition clip_ground :: "state \<Rightarrow> state" where
  "clip_ground s =
     s\<lparr>zpos := clip_array (zpos s), zpos_heightASL := clip_array (zpos_heightASL s)\<rparr>"

text \<open>
  \<^verbatim>\<open>variable1[t,:,:] = ...interpn((z_fast,y_fast,x_fast), var1, coord_fast, ...)\<close>. The
  list \<^verbatim>\<open>coord_fast\<close> was built before the integration, from the rows at \<open>t\<close> of
  the state \<open>s0\<close> the step started in.
\<close>

definition record_variable :: "window \<Rightarrow> arr3 \<Rightarrow> nat \<Rightarrow> state \<Rightarrow> state \<Rightarrow> error + state" where
  "record_variable w var1 t s0 s =
     bind_e (sample_var1 w var1 (xpos s0 ! t) (ypos s0 ! t) (zpos s0 ! t)) (\<lambda>vals.
     bind_e (set_row (variable1 s) t vals) (\<lambda>variable1'.
     Inr (s\<lparr>variable1 := variable1'\<rparr>)))"

text \<open>
  The body of \<^verbatim>\<open>for t in range(time_steps-1)\<close>. The window is computed from the
  rows at the loop variable \<open>t0\<close>; everything after \<^verbatim>\<open>t = np.int(t/incre)\<close> reads
  and writes at the restored \<open>t\<close>.
\<close>

definition step :: "config \<Rightarrow> dataset \<Rightarrow> arr3 \<Rightarrow> nat \<Rightarrow> state \<Rightarrow> error + state" where
  "step cfg ds vres t0 s =
     bind_e (field_window ds s t0) (\<lambda>w.
     bind_e (fetch (uinterp ds) (loop_time_index cfg t0) w) (\<lambda>u.
     bind_e (fetch (vinterp ds) (loop_time_index cfg t0) w) (\<lambda>v.
     bind_e (fetch (winterp ds) (loop_time_index cfg t0) w) (\<lambda>wv.
     bind_e (get_variable ds (var_name1 cfg)) (\<lambda>field.
     bind_e (fetch field (loop_time_index cfg t0) w) (\<lambda>var1.
     bind_e (restore_t cfg t0) (\<lambda>t'.
     let t = nat t' in
     bind_e (integrate cfg ds vres w u v wv t s) (\<lambda>s1.
     record_variable w var1 t s (clip_ground s1)))))))))"

text \<open>The loop: steps \<open>t, t + 1, ..., t + n - 1\<close>, stopping at the first exception.\<close>

fun run_loop :: "config \<Rightarrow> dataset \<Rightarrow> arr3 \<Rightarrow> nat \<Rightarrow> nat \<Rightarrow> state \<Rightarrow> error + state" where
  "run_loop cfg ds vres t 0 s = Inr s"
| "run_loop cfg ds vres t (Suc n) s =
     bind_e (step cfg ds vres t s) (run_loop cfg ds vres (Suc t) n)"

definition calculate_trajectories :: "config \<Rightarrow> dataset \<Rightarrow> arr3 \<Rightarrow> state \<Rightarrow> error + state" where
  "calculate_trajectories cfg ds vres s = run_loop cfg ds vres 0 (time_steps cfg - 1) s"

section \<open>The variable at the final time index\<close>

text \<open>
  The cell after the loop:
  \<^verbatim>\<open>
    t = time_steps-1
    var1 = getattr(ds,var_name1)[start_time_step-t,:,:,:].values
    xloc = np.copy(xpos[t,:,:]-0.5).flatten()
    ...
    variable1[t,:,:] = np.reshape(interpolate.interpn((z,y,x), var1, coord, ...
  \<close>
  The difference with 0.5 is exact for a double of at least 0.5 and negative below it, so
  that its rounding does not change which points are outside the grid.
\<close>

definition final_time_index :: "config \<Rightarrow> int" where
  "final_time_index cfg = start_time_step cfg - (int (time_steps cfg) - 1)"

definition final_variable :: "config \<Rightarrow> dataset \<Rightarrow> state \<Rightarrow> error + state" where
  "final_variable cfg ds s =
     (let t = int (time_steps cfg) - 1 in
      bind_e (get_variable ds (var_name1 cfg)) (\<lambda>field.
      bind_e (py_index field (final_time_index cfg)) (\<lambda>var1.
      bind_e (py_index (xpos s) t) (\<lambda>xrow.
      bind_e (py_index (ypos s) t) (\<lambda>yrow.
      bind_e (py_index (zpos s) t) (\<lambda>zrow.
      bind_e (interpn3 (nz ds, ny ds, nx ds) var1
                (coords3 (map (\<lambda>c. fsub c (Fin (1 / 2))) zrow)
                         (map (\<lambda>c. fsub c (Fin (1 / 2))) yrow)
                         (map (\<lambda>c. fsub c (Fin (1 / 2))) xrow)) NaN) (\<lambda>vals.
      if - int (length (variable1 s)) \<le> t \<and> t < int (length (variable1 s))
      then Inr (s\<lparr>variable1 := (variable1 s)[wrap_index (length (variable1 s)) t := vals]\<rparr>)
      else Inl IndexError)))))))"

definition run :: "config \<Rightarrow> dataset \<Rightarrow> arr3 \<Rightarrow> state \<Rightarrow> error + state" where
  "run cfg ds vres s = bind_e (calculate_trajectories cfg ds vres s) (final_variable cfg ds)"

section \<open>Parcels outside the window\<close>

text \<open>
  Parcel \<open>i\<close> is outside the window of step \<open>t\<close> when its query points for the
  three velocities and for the variable all are (one and the same point when the
  velocities are not staggered).
\<close>

definition outside_window :: "config \<Rightarrow> dataset \<Rightarrow> state \<Rightarrow> nat \<Rightarrow> nat \<Rightarrow> bool" where
  "outside_window cfg ds s t i =
     (case field_window ds s t of
        Inl e \<Rightarrow> False
      | Inr w \<Rightarrow>
          outside (fast_axes w) (coord_u cfg w (xpos s ! t) (ypos s ! t) (zpos s ! t) ! i) \<and>
          outside (fast_axes w) (coord_v cfg w (xpos s ! t) (ypos s ! t) (zpos s ! t) ! i) \<and>
          outside (fast_axes w) (coord_w cfg w (xpos s ! t) (ypos s ! t) (zpos s ! t) ! i) \<and>
          outside (fast_axes w) (coord_fast w (xpos s ! t) (ypos s ! t) (zpos s ! t) ! i))"

section \<open>A small run\<close>

text \<open>
  A 3 x 3 x 3 domain over flat ground at height 0, levels 500 m apart, 1000 m grid
  spacing, constant fields (u = 0.5 m/s, v = 0, w = -0.1 m/s, th = 300), output every
  200 s and every fifth output used, so that one step is 1000 s. Three parcels: the first
  on the ground inside the domain, the second seeded at x = 2.5 beyond the last grid
  point, the third at z = 1.5 between the two top levels.
\<close>

definition const3 :: "nat \<Rightarrow> nat \<Rightarrow> nat \<Rightarrow> real \<Rightarrow> arr3" where
  "const3 n0 n1 n2 c = tabulate3 n0 n1 n2 (\<lambda>k j i. c)"

text \<open>The heights of three levels 500 m apart, the lowest at \<open>base\<close>, on a 3 x 3 grid.\<close>

definition levels :: "real \<Rightarrow> arr3" where
  "levels base =
     \<lparr>d0 = 3, d1 = 3, d2 = 3,
      elems3 = replicate 9 base @ replicate 9 (base + 500) @ replicate 9 (base + 1000)\<rparr>"

definition ex_ds :: dataset where
  "ex_ds = \<lparr>nx = 3, ny = 3, nz = 3,
     uinterp = replicate 6 (const3 3 3 3 (1 / 2)),
     vinterp = replicate 6 (const3 3 3 3 0),
     winterp = replicate 6 (const3 3 3 3 (- 1 / 10)),
     variables = (\<lambda>n. if n = ''th'' then Some (replicate 6 (const3 3 3 3 300)) else None),
     zs = Some (tabulate2 3 3 (\<lambda>j i. 0)), zh = Some (levels 0), z_levels = [0, 1 / 2, 1],
     hor_resolution = 1000, output_interval = 200\<rparr>"

definition ex_cfg :: config where
  "ex_cfg = \<lparr>num_seeds_z = 1, num_seeds_y = 3, time_steps = 3, incre = 5,
     start_time_step = 0, var_name1 = ''th'', staggered = False\<rparr>"

definition ex_vres :: arr3 where
  "ex_vres = const3 2 3 3 500"

definition ex_window :: window where
  "ex_window = \<lparr>xmin = 0, xmax = 3, ymin = 0, ymax = 3, zmin = 0, zmax = 3\<rparr>"

text \<open>The window of step 1: the parcels still tracked are on the ground.\<close>

definition ex_window1 :: window where
  "ex_window1 = \<lparr>xmin = 0, xmax = 3, ymin = 0, ymax = 3, zmin = 0, zmax = 2\<rparr>"

definition zero_row :: "fl list" where
  "zero_row = [Fin 0, Fin 0, Fin 0]"

definition ex_s0 :: state where
  "ex_s0 = \<lparr>xpos = [[Fin 1, Fin (5 / 2), Fin 1], zero_row, zero_row],
     ypos = [[Fin 1, Fin 1, Fin 1], zero_row, zero_row],
     zpos = [[Fin 0, Fin 0, Fin (3 / 2)], zero_row, zero_row],
     zpos_heightASL = [[Fin 0, Fin 0, Fin 750], zero_row, zero_row],
     zpos_vert_res = [zero_row, zero_row, zero_row],
     variable1 = [zero_row, zero_row, zero_row]\<rparr>"

text \<open>The seeds before the cell that computes their heights.\<close>

definition ex_seed :: state where
  "ex_seed = ex_s0\<lparr>zpos_heightASL := [zero_row, zero_row, zero_row]\<rparr>"

text \<open>After the integration of step 0, before the clip.\<close>

definition ex_i1 :: state where
  "ex_i1 = \<lparr>xpos = [[Fin 1, Fin (5 / 2), Fin 1], [Fin (3 / 2), NaN, Fin (3 / 2)], zero_row],
     ypos = [[Fin 1, Fin 1, Fin 1], [Fin 1, NaN, Fin 1], zero_row],
     zpos = [[Fin 0, Fin 0, Fin (3 / 2)], [Fin (- 1 / 5), NaN, NaN], zero_row],
     zpos_heightASL = [[Fin 0, Fin 0, Fin 750], [Fin (- 100), Fin 0, Fin 650], zero_row],
     zpos_vert_res = [[Fin 500, NaN, NaN], zero_row, zero_row],
     variable1 = [zero_row, zero_row, zero_row]\<rparr>"

text \<open>After step 0, after step 1, and after the sample at the final time index.\<close>

definition ex_s1 :: state where
  "ex_s1 = \<lparr>xpos = [[Fin 1, Fin (5 / 2), Fin 1], [Fin (3 / 2), NaN, Fin (3 / 2)], zero_row],
     ypos = [[Fin 1, Fin 1, Fin 1], [Fin 1, NaN, Fin 1], zero_row],
     zpos = [[Fin 0, Fin 0, Fin (3 / 2)], [Fin 0, NaN, NaN], zero_row],
     zpos_heightASL = [[Fin 0, Fin 0, Fin 750], [Fin 0, Fin 0, Fin 650], zero_row],
     zpos_vert_res = [[Fin 500, NaN, NaN], zero_row, zero_row],
     variable1 = [[Fin 300, NaN, Fin 300], zero_row, zero_row]\<rparr>"

definition ex_s2 :: state where
  "ex_s2 = \<lparr>xpos = [[Fin 1, Fin (5 / 2), Fin 1], [Fin (3 / 2), NaN, Fin (3 / 2)], [Fin 2, NaN, NaN]],
     ypos = [[Fin 1, Fin 1, Fin 1], [Fin 1, NaN, Fin 1], [Fin 1, NaN, NaN]],
     zpos = [[Fin 0, Fin 0, Fin (3 / 2)], [Fin 0, NaN, NaN], [Fin 0, NaN, NaN]],
     zpos_heightASL = [[Fin 0, Fin 0, Fin 750], [Fin 0, Fin 0, Fin 650], [Fin 0, NaN, NaN]],
     zpos_vert_res = [[Fin 500, NaN, NaN], [Fin 500, NaN, NaN], zero_row],
     variable1 = [[Fin 300, NaN, Fin 300], [Fin 300, NaN, NaN], zero_row]\<rparr>"

definition ex_s3 :: state where
  "ex_s3 = ex_s2\<lparr>variable1 := [[Fin 300, NaN, Fin 300], [Fin 300, NaN, NaN], [NaN, NaN, NaN]]\<rparr>"

text \<open>The same seeds with every parcel already lost.\<close>

definition ex_lost :: state where
  "ex_lost = ex_s0\<lparr>xpos := [[NaN, NaN, NaN], zero_row, zero_row],
     ypos := [[NaN, NaN, NaN], zero_row, zero_row],
     zpos := [[NaN, NaN, NaN], zero_row, zero_row]\<rparr>"

text \<open>
  The same domain over ground at 200 m, the lowest level at 250 m, and three seeds on the
  lowest level: the seeds, the seeds with their heights, the state after the integration
  of step 0 and the state after step 0.
\<close>

definition ex_terrain :: dataset where
  "ex_terrain = ex_ds\<lparr>zs := Some (tabulate2 3 3 (\<lambda>j i. 200)), zh := Some (levels 250)\<rparr>"

definition ex_tseed :: state where
  "ex_tseed = \<lparr>xpos = [[Fin 1, Fin 1, Fin 1], zero_row, zero_row],
     ypos = [[Fin 0, Fin 1, Fin 2], zero_row, zero_row],
     zpos = [zero_row, zero_row, zero_row],
     zpos_heightASL = [zero_row, zero_row, zero_row],
     zpos_vert_res = [zero_row, zero_row, zero_row],
     variable1 = [zero_row, zero_row, zero_row]\<rparr>"

definition ex_t0 :: state where
  "ex_t0 = ex_tseed\<lparr>zpos_heightASL := [[Fin 250, Fin 250, Fin 250], zero_row, zero_row]\<rparr>"

definition ex_ti1 :: state where
  "ex_ti1 = \<lparr>xpos = [[Fin 1, Fin 1, Fin 1], [Fin (3 / 2), Fin (3 / 2), Fin (3 / 2)], zero_row],
     ypos = [[Fin 0, Fin 1, Fin 2], [Fin 0, Fin 1, Fin 2], zero_row],
     zpos = [zero_row, [Fin (- 1 / 5), Fin (- 1 / 5), Fin (- 1 / 5)], zero_row],
     zpos_heightASL = [[Fin 250, Fin 250, Fin 250], [Fin 150, Fin 150, Fin 150], zero_row],
     zpos_vert_res = [[Fin 500, Fin 500, Fin 500], zero_row, zero_row],
     variable1 = [zero_row, zero_row, zero_row]\<rparr>"

definition ex_t1 :: state where
  "ex_t1 = ex_ti1\<lparr>zpos := [zero_row, zero_row, zero_row],
     variable1 := [[Fin 300, Fin 300, Fin 300], zero_row, zero_row]\<rparr>"

text \<open>A wider domain, 10 x 10 x 10, and one row of positions in it.\<close>

definition ex_wide_ds :: dataset where
  "ex_wide_ds = \<lparr>nx = 10, ny = 10, nz = 10,
     uinterp = replicate 6 (const3 10 10 10 (1 / 2)),
     vinterp = replicate 6 (const3 10 10 10 0),
     winterp = replicate 6 (const3 10 10 10 (- 1 / 10)),
     variables = (\<lambda>n. if n = ''th'' then Some (replicate 6 (const3 10 10 10 300)) else None),
     zs = Some (tabulate2 10 10 (\<lambda>j i. 0)),
     zh = Some (tabulate3 10 10 10 (\<lambda>k j i. 500 * real k)),
     z_levels = map (\<lambda>k. real k / 2) [0..<10],
     hor_resolution = 1000, output_interval = 200\<rparr>"

definition ex_wide :: state where
  "ex_wide = \<lparr>xpos = [[Fin (7 / 2), NaN, Fin 6], zero_row],
     ypos = [[Fin 4, NaN, Fin 4], zero_row],
     zpos = [[Fin 0, NaN, Fin (3 / 2)], zero_row],
     zpos_heightASL = [[Fin 0, NaN, Fin 750], zero_row],
     zpos_vert_res = [zero_row, zero_row],
     variable1 = [zero_row, zero_row]\<rparr>"

text \<open>The configuration the notebook was last run with.\<close>

definition notebook_cfg :: config where
  "notebook_cfg = \<lparr>num_seeds_z = 1, num_seeds_y = 30, time_steps = 50, incre = 5,
     start_time_step = 300, var_name1 = ''th'', staggered = False\<rparr>"

text \<open>Two small fields for the smoothing filter.\<close>

definition two_cells :: arr3 where
  "two_cells = \<lparr>d0 = 1, d1 = 1, d2 = 2, elems3 = [1, 2]\<rparr>"

definition three_cells :: arr3 where
  "three_cells = \<lparr>d0 = 1, d1 = 1, d2 = 3, elems3 = [1, 0, 0]\<rparr>"

section \<open>Properties of the rounding\<close>

lemma round_even_of_int [simp]: "round_even (real_of_int n) = n"
  by (simp add: round_even_def Let_def)

lemma round_even_le: "q \<le> real_of_int b \<Longrightarrow> round_even q \<le> b"
proof -
  assume q: "q \<le> real_of_int b"
  then have f: "\<lfloor>q\<rfloor> \<le> b" by (simp add: floor_le_iff)
  have "\<lfloor>q\<rfloor> < b" if "real_of_int \<lfloor>q\<rfloor> < q"
  proof -
    from that q have "real_of_int \<lfloor>q\<rfloor> < real_of_int b" by linarith
    then show ?thesis by simp
  qed
  with f show ?thesis by (auto simp: round_even_def Let_def)
qed

lemma round_even_ge: "real_of_int a \<le> q \<Longrightarrow> a \<le> round_even q"
proof -
  assume q: "real_of_int a \<le> q"
  then have "a \<le> \<lfloor>q\<rfloor>" by (simp add: le_floor_iff)
  then show ?thesis by (auto simp: round_even_def Let_def)
qed

lemma bexp_lower: "2 powi (- int n) \<le> x \<Longrightarrow> 2 powi (bexp n x) \<le> x"
proof (induction n arbitrary: x)
  case 0
  then show ?case by simp
next
  case (Suc n)
  have p: "(2::real) powi (- int n) \<le> 1" by (simp add: power_int_minus inverse_le_1_iff)
  consider "2 \<le> x" | "x < 1" | "1 \<le> x" "x < 2" by linarith
  then show ?case
  proof cases
    case 1
    then have "2 powi (- int n) \<le> x / 2" using p by linarith
    from Suc.IH [OF this] have "2 powi (bexp n (x / 2)) * 2 \<le> x" by simp
    then show ?thesis using 1 by (simp add: power_int_add)
  next
    case 2
    have e: "- int (Suc n) = - int n - 1" by simp
    have "(2::real) powi (- int n - 1) = 2 powi (- int n) / 2 powi 1"
      by (rule power_int_diff) simp
    then have "(2::real) powi (- int (Suc n)) = 2 powi (- int n) / 2"
      by (simp only: e power_int_1_right)
    then have "2 powi (- int n) \<le> 2 * x" using Suc.prems by linarith
    from Suc.IH [OF this] have "2 powi (bexp n (2 * x)) / 2 \<le> x" by simp
    then show ?thesis using 2 by (simp add: power_int_diff)
  next
    case 3
    then show ?thesis by simp
  qed
qed

lemma bexp_upper: "x < 2 powi (int n + 1) \<Longrightarrow> x < 2 powi (bexp n x + 1)"
proof (induction n arbitrary: x)
  case 0
  then show ?case by simp
next
  case (Suc n)
  consider "2 \<le> x" | "x < 1" | "1 \<le> x" "x < 2" by linarith
  then show ?case
  proof cases
    case 1
    have "(2::real) powi (int (Suc n) + 1) = 2 * 2 powi (int n + 1)"
      by (simp add: power_int_add)
    then have "x / 2 < 2 powi (int n + 1)" using Suc.prems by linarith
    from Suc.IH [OF this] have "x < 2 * 2 powi (bexp n (x / 2) + 1)" by simp
    then show ?thesis using 1 by (simp add: power_int_add)
  next
    case 2
    have "(2::real) \<le> 2 powi (int n + 1)" by (simp add: power_int_add)
    then have "2 * x < 2 powi (int n + 1)" using 2 by linarith
    from Suc.IH [OF this] have "x < 2 powi (bexp n (2 * x) + 1) / 2" by simp
    then show ?thesis using 2 by (simp add: power_int_add power_int_diff)
  next
    case 3
    then show ?thesis by simp
  qed
qed

lemma bexp_nonpos: "x < 2 \<Longrightarrow> bexp n x \<le> 0"
proof (induction n arbitrary: x)
  case 0
  then show ?case by simp
next
  case (Suc n)
  show ?case
  proof (cases "x < 1")
    case True
    then have "2 * x < 2" by simp
    from Suc.IH [OF this] show ?thesis using True by simp
  next
    case False
    then show ?thesis using Suc.prems by simp
  qed
qed

lemma power_int_2_less_cancel: "(2::real) powi a < 2 powi b \<Longrightarrow> a < b"
proof (rule ccontr)
  assume l: "(2::real) powi a < 2 powi b" and "\<not> a < b"
  then have "b \<le> a" by simp
  then have "(2::real) powi b \<le> 2 powi a" by (intro power_int_increasing) simp_all
  with l show False by simp
qed

lemma bexp_small: "x < 2 ^ 53 \<Longrightarrow> bexp n x \<le> 52"
proof (cases "x < 2")
  case True
  then show ?thesis using bexp_nonpos [of x n] by simp
next
  case False
  assume x: "x < 2 ^ 53"
  have "(2::real) powi (- int n) \<le> 1" by (simp add: power_int_minus inverse_le_1_iff)
  then have "2 powi (- int n) \<le> x" using False by linarith
  from bexp_lower [OF this] x have "(2::real) powi (bexp n x) < 2 powi 53" by simp
  then have "bexp n x < 53" by (rule power_int_2_less_cancel)
  then show ?thesis by simp
qed



lemma round_even_0 [simp]: "round_even 0 = 0"
  by (simp add: round_even_def)

lemma float64_unfold:
  assumes "e = max (bexp 1100 \<bar>x\<bar>) (- 1022)" and "e \<le> 52" and "K = nat (52 - e)"
    and "r = real_of_int (round_even (x * 2 ^ K)) / 2 ^ K" and "\<bar>r\<bar> < 2 ^ 1024"
  shows "float64 x = Fin r"
proof -
  have "e - 52 = - int K" using assms(2,3) by simp
  then have "(2::real) powi (e - 52) = inverse (2 ^ K)" by (simp add: power_int_minus)
  then show ?thesis
    using assms(5) unfolding float64_def Let_def assms(1) [symmetric]
    by (simp add: assms(4) divide_inverse)
qed

lemma float64_bracket:
  assumes a: "real_of_int a \<le> x" and b: "x \<le> real_of_int b"
    and ra: "\<bar>a\<bar> < 2 ^ 53" and rb: "\<bar>b\<bar> < 2 ^ 53"
  shows "\<exists>r. float64 x = Fin r \<and> real_of_int a \<le> r \<and> r \<le> real_of_int b"
proof -
  have "real_of_int \<bar>a\<bar> < real_of_int (2 ^ 53)" "real_of_int \<bar>b\<bar> < real_of_int (2 ^ 53)"
    using ra rb by (simp_all only: of_int_less_iff)
  then have ra': "\<bar>real_of_int a\<bar> < 2 ^ 53" and rb': "\<bar>real_of_int b\<bar> < 2 ^ 53"
    by simp_all
  then have x: "\<bar>x\<bar> < 2 ^ 53" using a b by linarith
  define e where "e = max (bexp 1100 \<bar>x\<bar>) (- 1022)"
  have e: "e \<le> 52" using bexp_small [OF x] by (simp add: e_def)
  define K where "K = nat (52 - e)"
  define q where "q = round_even (x * 2 ^ K)"
  define r where "r = real_of_int q / 2 ^ K"
  have "x * 2 ^ K \<le> real_of_int (b * 2 ^ K)" using b by simp
  then have qb: "q \<le> b * 2 ^ K" unfolding q_def by (rule round_even_le)
  have "real_of_int (a * 2 ^ K) \<le> x * 2 ^ K" using a by simp
  then have qa: "a * 2 ^ K \<le> q" unfolding q_def by (rule round_even_ge)
  have "real_of_int q \<le> real_of_int (b * 2 ^ K)" using qb by (simp only: of_int_le_iff)
  then have r1: "r \<le> real_of_int b" by (simp add: r_def divide_le_eq)
  have "real_of_int (a * 2 ^ K) \<le> real_of_int q" using qa by (simp only: of_int_le_iff)
  then have r2: "real_of_int a \<le> r" by (simp add: r_def le_divide_eq)
  have "\<bar>r\<bar> < 2 ^ 53" using r1 r2 ra' rb' by linarith
  moreover have "(2::real) ^ 53 \<le> 2 ^ 1024" by (rule power_increasing) simp_all
  ultimately have "\<bar>r\<bar> < 2 ^ 1024" by linarith
  from float64_unfold [OF e_def e K_def _ this] have "float64 x = Fin r"
    by (simp add: r_def q_def)
  with r1 r2 show ?thesis by blast
qed

text \<open>A number with a mantissa of at most 53 bits is kept as it is.\<close>

lemma float64_exact:
  assumes m: "\<bar>m\<bar> < 2 ^ 53" and k: "- 1074 \<le> k" "k \<le> 971"
  shows "float64 (real_of_int m * 2 powi k) = Fin (real_of_int m * 2 powi k)"
proof (cases "m = 0")
  case True
  then show ?thesis by (simp add: float64_def Let_def)
next
  case False
  define x where "x = real_of_int m * 2 powi k"
  have "real_of_int \<bar>m\<bar> < real_of_int (2 ^ 53)" using m by (simp only: of_int_less_iff)
  then have m': "\<bar>real_of_int m\<bar> < 2 ^ 53" by simp
  have m1: "1 \<le> \<bar>real_of_int m\<bar>" using False by (simp flip: of_int_abs)
  have p: "0 < (2::real) powi k" by simp
  have ax: "\<bar>x\<bar> = \<bar>real_of_int m\<bar> * 2 powi k" by (simp add: x_def abs_mult)
  have lo: "2 powi k \<le> \<bar>x\<bar>"
    using mult_right_mono [OF m1, of "2 powi k"] p unfolding ax by simp
  have hi: "\<bar>x\<bar> < 2 powi (53 + k)"
  proof -
    have "\<bar>x\<bar> < 2 ^ 53 * 2 powi k" unfolding ax using m' p by (rule mult_strict_right_mono)
    then show ?thesis by (simp add: power_int_add)
  qed
  define e where "e = max (bexp 1100 \<bar>x\<bar>) (- 1022)"
  have "(2::real) powi (- int 1100) \<le> 2 powi k" using k by (intro power_int_increasing) simp_all
  then have "2 powi (- int 1100) \<le> \<bar>x\<bar>" using lo by linarith
  from bexp_lower [OF this] hi have "(2::real) powi (bexp 1100 \<bar>x\<bar>) < 2 powi (53 + k)" by linarith
  then have "bexp 1100 \<bar>x\<bar> < 53 + k" by (rule power_int_2_less_cancel)
  then have e: "e \<le> 52 + k" using k by (simp add: e_def)
  define j where "j = nat (52 + k - e)"
  have u: "(2::real) powi (e - 52) = 2 powi k / 2 ^ j"
  proof -
    have "e - 52 = k - int j" using e by (simp add: j_def)
    then show ?thesis by (simp add: power_int_diff)
  qed
  have "x / 2 powi (e - 52) = real_of_int (m * 2 ^ j)"
    unfolding u x_def using p by simp
  then have r: "real_of_int (round_even (x / 2 powi (e - 52))) * 2 powi (e - 52) = x"
    unfolding u x_def using p by (simp only: round_even_of_int) simp
  have "(2::real) powi (53 + k) \<le> 2 powi 1024" using k by (intro power_int_increasing) simp_all
  then have "\<bar>x\<bar> < 2 ^ 1024" using hi by simp
  then show ?thesis
    unfolding float64_def Let_def e_def [symmetric] x_def [symmetric] r by simp
qed



lemma bexp_eq:
  assumes "2 powi k \<le> x" and "x < 2 powi (k + 1)" and "\<bar>k\<bar> \<le> int n"
  shows "bexp n x = k"
proof -
  have "(2::real) powi (- int n) \<le> 2 powi k" using assms(3) by (intro power_int_increasing) simp_all
  then have "2 powi (- int n) \<le> x" using assms(1) by linarith
  from bexp_lower [OF this] assms(2) have "(2::real) powi (bexp n x) < 2 powi (k + 1)" by linarith
  then have 1: "bexp n x < k + 1" by (rule power_int_2_less_cancel)
  have "(2::real) powi (k + 1) \<le> 2 powi (int n + 1)" using assms(3) by (intro power_int_increasing) simp_all
  then have "x < 2 powi (int n + 1)" using assms(2) by linarith
  from bexp_upper [OF this] assms(1) have "(2::real) powi k < 2 powi (bexp n x + 1)" by linarith
  then have "k < bexp n x + 1" by (rule power_int_2_less_cancel)
  with 1 show ?thesis by simp
qed

text \<open>Subtracting 2 from a double between 2 and \<open>2^53\<close> is exact.\<close>

lemma float64_sub2:
  assumes d: "float64 x = Fin x" and x2: "2 \<le> x" and x53: "x < 2 ^ 53"
  shows "float64 (x - 2) = Fin (x - 2)"
proof -
  define e where "e = bexp 1100 \<bar>x\<bar>"
  have ax: "\<bar>x\<bar> = x" using x2 by simp
  have "(2::real) powi (- int 1100) \<le> 1" by (simp add: power_int_minus inverse_le_1_iff)
  then have "2 powi (- int 1100) \<le> x" using x2 by linarith
  from bexp_lower [OF this] have lo: "2 powi e \<le> x" by (simp add: e_def ax)
  have "(2::real) ^ 53 \<le> 2 powi (int 1100 + 1)"
    using power_int_increasing [of 53 "int 1100 + 1" "2::real"] by simp
  then have "x < 2 powi (int 1100 + 1)" using x53 by linarith
  from bexp_upper [OF this] have hi: "x < 2 powi (e + 1)" by (simp add: e_def ax)
  have e1: "1 \<le> e"
  proof -
    from x2 hi have "(2::real) powi 1 < 2 powi (e + 1)" by simp
    then have "1 < e + 1" by (rule power_int_2_less_cancel)
    then show ?thesis by simp
  qed
  have e52: "e \<le> 52" using bexp_small [of x 1100] x53 by (simp add: e_def ax)
  have em: "max e (- 1022) = e" using e1 by simp
  define k where "k = e - 52"
  define M where "M = round_even (x / 2 powi k)"
  have p: "0 < (2::real) powi k" by simp
  have xM: "x = real_of_int M * 2 powi k"
  proof -
    from d have "(if 2 ^ 1024 \<le> \<bar>real_of_int M * 2 powi k\<bar> then (if 0 < x then PInf else NInf)
        else Fin (real_of_int M * 2 powi k)) = Fin x"
      unfolding float64_def Let_def e_def [symmetric] em k_def [symmetric] M_def [symmetric] .
    then show ?thesis by (auto split: if_splits)
  qed
  define j where "j = nat (1 - k)"
  have two: "(2::real) = 2 ^ j * 2 powi k"
  proof -
    have "1 = int j + k" using e52 by (simp add: j_def k_def)
    then have "(2::real) powi 1 = 2 powi (int j + k)" by simp
    then show ?thesis by (simp add: power_int_add)
  qed
  define m' where "m' = M - 2 ^ j"
  have xm: "x - 2 = real_of_int m' * 2 powi k"
  proof -
    have "x - 2 = real_of_int M * 2 powi k - 2 ^ j * 2 powi k" using xM two by simp
    then show ?thesis by (simp add: m'_def algebra_simps)
  qed
  have m0: "0 \<le> real_of_int m'"
  proof -
    have "0 \<le> real_of_int m' * 2 powi k" using x2 xm by simp
    then show ?thesis using p by (simp add: zero_le_mult_iff)
  qed
  have mM: "real_of_int m' \<le> real_of_int M" by (simp add: m'_def)
  have M53: "real_of_int M < 2 ^ 53"
  proof -
    have "(2::real) powi (e + 1) = 2 ^ 53 * 2 powi k"
    proof -
      have "e + 1 = 53 + k" by (simp add: k_def)
      then show ?thesis by (simp add: power_int_add)
    qed
    then have "real_of_int M * 2 powi k < 2 ^ 53 * 2 powi k" using hi xM by simp
    then show ?thesis using p by (simp add: mult_less_cancel_right)
  qed
  have "real_of_int \<bar>m'\<bar> < real_of_int (2 ^ 53)" using m0 mM M53 by simp
  then have m53: "\<bar>m'\<bar> < 2 ^ 53" by (simp only: of_int_less_iff)
  have "- 1074 \<le> k" "k \<le> 971" using e1 e52 by (simp_all add: k_def)
  from float64_exact [OF m53 this] show ?thesis by (simp add: xm)
qed

lemma float64_numeral [simp]:
  "(numeral n :: int) < 2 ^ 53 \<Longrightarrow> float64 (numeral n) = Fin (numeral n)"
  "(numeral n :: int) < 2 ^ 53 \<Longrightarrow> float64 (- numeral n) = Fin (- numeral n)"
  "(numeral n :: int) < 2 ^ 53 \<Longrightarrow> float64 (numeral n / 2) = Fin (numeral n / 2)"
  "(numeral n :: int) < 2 ^ 53 \<Longrightarrow> float64 (- (numeral n / 2)) = Fin (- (numeral n / 2))"
  "float64 0 = Fin 0" "float64 1 = Fin 1" "float64 (- 1) = Fin (- 1)"
  "float64 (1 / 2) = Fin (1 / 2)" "float64 (- (1 / 2)) = Fin (- (1 / 2))"
  using float64_exact [of "numeral n" 0] float64_exact [of "- numeral n" 0]
    float64_exact [of "numeral n" "- 1"] float64_exact [of "- numeral n" "- 1"]
    float64_exact [of 0 0] float64_exact [of 1 0] float64_exact [of "- 1" 0]
    float64_exact [of 1 "- 1"] float64_exact [of "- 1" "- 1"]
  by simp_all

text \<open>The sum that the window takes for the position \<open>1 - 2^-53\<close>: it rounds to 3.\<close>

lemma float64_rounds_up: "float64 (3 - 1 / 2 ^ 53) = Fin 3"
proof -
  define x :: real where "x = 3 - 1 / 2 ^ 53"
  have b: "bexp 1100 \<bar>x\<bar> = 1" by (rule bexp_eq) (simp_all add: x_def)
  have q: "round_even (x * 2 ^ 51) = 3 * 2 ^ 51"
    by (simp add: round_even_def Let_def x_def)
  have r: "(3::real) = real_of_int (round_even (x * 2 ^ 51)) / 2 ^ 51"
    by (simp only: q) simp
  have "float64 x = Fin 3"
    by (rule float64_unfold [where e = 1, OF _ _ _ r]) (simp_all add: b)
  then show ?thesis by (simp add: x_def)
qed

section \<open>Properties of the window\<close>

lemma bind_e_Inr [simp]: "bind_e (Inr x) f = f x"
  by (simp add: bind_e_def)

lemma bind_e_Inl [simp]: "bind_e (Inl e) f = Inl e"
  by (simp add: bind_e_def)

lemma bind_e_eq_Inr:
  "bind_e m f = Inr y \<longleftrightarrow> (\<exists>x. m = Inr x \<and> f x = Inr y)"
  by (cases m) simp_all

lemma fadd_NaN_right [simp]: "fadd x NaN = NaN"
  by (cases x) simp_all

lemma fmul_NaN_right [simp]: "fmul x NaN = NaN"
  by (cases x) simp_all

lemma fdiv_NaN_right [simp]: "fdiv x NaN = NaN"
  by (cases x) simp_all

lemma fsub_NaN_left [simp]: "fsub NaN y = NaN"
  by (simp add: fsub_def)

lemma fsub_NaN_right [simp]: "fsub x NaN = NaN"
  by (simp add: fsub_def)

lemma fsub_Fin [simp]: "fsub (Fin a) (Fin b) = Fin (a - b)"
  by (simp add: fsub_def)

lemma add64_NaN [simp]: "add64 NaN y = NaN" "add64 x NaN = NaN"
  by (simp_all add: add64_def)

lemma sub64_NaN [simp]: "sub64 NaN y = NaN"
  by (simp add: sub64_def)

lemma add64_Fin [simp]: "add64 (Fin a) (Fin b) = float64 (a + b)"
  by (simp add: add64_def)

lemma sub64_Fin [simp]: "sub64 (Fin a) (Fin b) = float64 (a - b)"
  by (simp add: sub64_def)

lemma foldl_fmin_Fin:
  "PInf \<notin> set r \<Longrightarrow> NInf \<notin> set r \<Longrightarrow>
   foldl fmin (Fin a) r = Fin (Min (set (a # finite_values r)))"
proof (induction r arbitrary: a)
  case Nil
  then show ?case by simp
next
  case (Cons y r)
  then have r: "PInf \<notin> set r" "NInf \<notin> set r" by auto
  show ?case
  proof (cases y)
    case (Fin b)
    have "fmin (Fin a) y = Fin (min a b)" using Fin by (auto simp: fmin_def min_def)
    moreover have "Min (set (min a b # finite_values r)) = Min (set (a # finite_values (y # r)))"
      using Fin by (cases "finite_values r = []") (auto simp: min.assoc)
    ultimately show ?thesis using Cons.IH [OF r, of "min a b"] by simp
  next
    case NaN
    then have "fmin (Fin a) y = Fin a" by (simp add: fmin_def)
    then show ?thesis using Cons.IH [OF r, of a] NaN by simp
  qed (use Cons.prems in auto)
qed

lemma foldl_fmax_Fin:
  "PInf \<notin> set r \<Longrightarrow> NInf \<notin> set r \<Longrightarrow>
   foldl fmax (Fin a) r = Fin (Max (set (a # finite_values r)))"
proof (induction r arbitrary: a)
  case Nil
  then show ?case by simp
next
  case (Cons y r)
  then have r: "PInf \<notin> set r" "NInf \<notin> set r" by auto
  show ?case
  proof (cases y)
    case (Fin b)
    have "fmax (Fin a) y = Fin (max a b)" using Fin by (auto simp: fmax_def max_def)
    moreover have "Max (set (max a b # finite_values r)) = Max (set (a # finite_values (y # r)))"
      using Fin by (cases "finite_values r = []") (auto simp: max.assoc)
    ultimately show ?thesis using Cons.IH [OF r, of "max a b"] by simp
  next
    case NaN
    then have "fmax (Fin a) y = Fin a" by (simp add: fmax_def)
    then show ?thesis using Cons.IH [OF r, of a] NaN by simp
  qed (use Cons.prems in auto)
qed

lemma nanmin_valid:
  "PInf \<notin> set r \<Longrightarrow> NInf \<notin> set r \<Longrightarrow> finite_values r \<noteq> [] \<Longrightarrow>
   nanmin r = Inr (Fin (Min (set (finite_values r))))"
proof (induction r)
  case Nil
  then show ?case by simp
next
  case (Cons x r)
  show ?case
  proof (cases x)
    case (Fin a)
    then show ?thesis using foldl_fmin_Fin [of r a] Cons.prems by (simp add: nanmin_def)
  next
    case NaN
    with Cons.prems have fv: "finite_values r \<noteq> []" by simp
    then obtain y r' where r: "r = y # r'" by (cases r) auto
    have "foldl fmin x r = foldl fmin y r'" using NaN r by (simp add: fmin_def)
    then show ?thesis using Cons.IH Cons.prems fv NaN r by (simp add: nanmin_def)
  qed (use Cons.prems in auto)
qed

lemma nanmax_valid:
  "PInf \<notin> set r \<Longrightarrow> NInf \<notin> set r \<Longrightarrow> finite_values r \<noteq> [] \<Longrightarrow>
   nanmax r = Inr (Fin (Max (set (finite_values r))))"
proof (induction r)
  case Nil
  then show ?case by simp
next
  case (Cons x r)
  show ?case
  proof (cases x)
    case (Fin a)
    then show ?thesis using foldl_fmax_Fin [of r a] Cons.prems by (simp add: nanmax_def)
  next
    case NaN
    with Cons.prems have fv: "finite_values r \<noteq> []" by simp
    then obtain y r' where r: "r = y # r'" by (cases r) auto
    have "foldl fmax x r = foldl fmax y r'" using NaN r by (simp add: fmax_def)
    then show ?thesis using Cons.IH Cons.prems fv NaN r by (simp add: nanmax_def)
  qed (use Cons.prems in auto)
qed

lemma foldl_fmin_NaN: "set r \<subseteq> {NaN} \<Longrightarrow> foldl fmin NaN r = NaN"
  by (induction r) (auto simp: fmin_def)

lemma window_min_all_NaN: "set r \<subseteq> {NaN} \<Longrightarrow> window_min r = Inl ValueError"
  by (cases r) (auto simp: window_min_def nanmin_def foldl_fmin_NaN)

lemma trunc_sub2: "max 0 (trunc (a - 2)) = max 0 (\<lfloor>a\<rfloor> - 2)"
  unfolding trunc_def by (auto simp: max_def; linarith)

lemma trunc_add2: "trunc (a + 2) = (if - 2 \<le> a then \<lfloor>a\<rfloor> + 2 else \<lceil>a\<rceil> + 2)"
  unfolding trunc_def by auto

lemma step_all_NaN:
  "t < length (xpos s) \<Longrightarrow> set (xpos s ! t) \<subseteq> {NaN} \<Longrightarrow>
   field_window ds s t = Inl ValueError \<and> step cfg ds vres t s = Inl ValueError"
  by (simp add: step_def field_window_def row_def window_min_all_NaN)

lemma trunc_between:
  assumes "real_of_int a \<le> v" and "v \<le> real_of_int b"
  shows "a \<le> trunc v" and "trunc v \<le> b"
proof -
  have "real_of_int a \<le> real_of_int \<lceil>v\<rceil>" using assms(1) le_of_int_ceiling [of v] by linarith
  then have "a \<le> \<lceil>v\<rceil>" by (simp only: of_int_le_iff)
  then show "a \<le> trunc v" using assms(1) by (simp add: trunc_def le_floor_iff)
  have "real_of_int \<lfloor>v\<rfloor> \<le> real_of_int b" using assms(2) of_int_floor_le [of v] by linarith
  then have "\<lfloor>v\<rfloor> \<le> b" by (simp only: of_int_le_iff)
  then show "trunc v \<le> b" using assms(2) by (simp add: trunc_def ceiling_le_iff)
qed

lemma floor_ceiling_bounds:
  assumes "\<bar>a\<bar> < (2::real) ^ 52"
  shows "\<bar>\<lfloor>a\<rfloor> - 2\<bar> < 2 ^ 53" and "\<bar>\<lfloor>a\<rfloor> + 2\<bar> < 2 ^ 53" and "\<bar>\<lceil>a\<rceil> + 2\<bar> < 2 ^ 53"
proof -
  have b: "- (2 ^ 52) \<le> \<lfloor>a\<rfloor>" "\<lfloor>a\<rfloor> < 2 ^ 52" "- (2 ^ 52) < \<lceil>a\<rceil>" "\<lceil>a\<rceil> \<le> 2 ^ 52"
    using assms by (simp_all add: le_floor_iff floor_less_iff less_ceiling_iff ceiling_le_iff)
  have p: "(2::int) ^ 53 = 2 * 2 ^ 52" "(2::int) < 2 ^ 52" by simp_all
  show "\<bar>\<lfloor>a\<rfloor> - 2\<bar> < 2 ^ 53" using b p by linarith
  show "\<bar>\<lfloor>a\<rfloor> + 2\<bar> < 2 ^ 53" using b p by linarith
  show "\<bar>\<lceil>a\<rceil> + 2\<bar> < 2 ^ 53" using b p by linarith
qed

text \<open>The two bounds of one axis, for a row of doubles with at least one finite entry.\<close>

lemma window_axis:
  assumes inf: "PInf \<notin> set r" "NInf \<notin> set r" and fv: "finite_values r \<noteq> []"
    and dbl: "\<forall>a \<in> set (finite_values r). float64 a = Fin a \<and> \<bar>a\<bar> < 2 ^ 52"
  shows "window_min r = Inr (max 0 (\<lfloor>Min (set (finite_values r))\<rfloor> - 2))"
    and "\<exists>v. float64 (Max (set (finite_values r)) + 2) = Fin v \<and>
           window_max dimn r = Inr (min (int dimn) (trunc v)) \<and>
           \<lfloor>Max (set (finite_values r))\<rfloor> + 2 \<le> trunc v \<and>
           trunc v \<le> \<lceil>Max (set (finite_values r))\<rceil> + 2"
proof -
  define mn where "mn = Min (set (finite_values r))"
  define mx where "mx = Max (set (finite_values r))"
  have "mn \<in> set (finite_values r)" "mx \<in> set (finite_values r)"
    unfolding mn_def mx_def using fv by simp_all
  with dbl have dn: "float64 mn = Fin mn" and bn: "\<bar>mn\<bar> < 2 ^ 52" and bx: "\<bar>mx\<bar> < 2 ^ 52"
    by auto
  have wmin: "window_min r =
      bind_e (np_int (float64 (mn - 2))) (\<lambda>v. Inr (if v < 0 then 0 else v))"
    using nanmin_valid [OF inf fv] by (simp add: window_min_def mn_def)
  show "window_min r = Inr (max 0 (\<lfloor>Min (set (finite_values r))\<rfloor> - 2))"
  proof (cases "2 \<le> mn")
    case True
    have "mn < 2 ^ 53" using bn by simp
    from float64_sub2 [OF dn True this] have f: "float64 (mn - 2) = Fin (mn - 2)" .
    have "window_min r = Inr (if trunc (mn - 2) < 0 then 0 else trunc (mn - 2))"
      unfolding wmin f by simp
    also have "(if trunc (mn - 2) < 0 then 0 else trunc (mn - 2)) = max 0 (trunc (mn - 2))"
      by (simp add: max_def)
    also have "\<dots> = max 0 (\<lfloor>mn\<rfloor> - 2)" by (rule trunc_sub2)
    finally show ?thesis by (simp add: mn_def)
  next
    case False
    have a: "real_of_int (\<lfloor>mn\<rfloor> - 2) \<le> mn - 2" by simp
    have b: "mn - 2 \<le> real_of_int 0" using False by simp
    from float64_bracket [OF a b floor_ceiling_bounds(1) [OF bn]] obtain v where
      v: "float64 (mn - 2) = Fin v" "v \<le> real_of_int 0" "real_of_int (\<lfloor>mn\<rfloor> - 2) \<le> v"
      by auto
    have "trunc v \<le> 0" using trunc_between(2) [OF v(3) v(2)] .
    moreover have "\<lfloor>mn\<rfloor> - 2 < 0" using False by (simp add: floor_less_iff)
    ultimately show ?thesis unfolding wmin mn_def [symmetric] by (simp add: v(1))
  qed
  have a: "real_of_int (\<lfloor>mx\<rfloor> + 2) \<le> mx + 2" by simp
  have b: "mx + 2 \<le> real_of_int (\<lceil>mx\<rceil> + 2)" by simp
  from float64_bracket [OF a b floor_ceiling_bounds(2,3) [OF bx]] obtain v where
    v: "float64 (mx + 2) = Fin v" "real_of_int (\<lfloor>mx\<rfloor> + 2) \<le> v" "v \<le> real_of_int (\<lceil>mx\<rceil> + 2)"
    by auto
  have "window_max dimn r = Inr (min (int dimn) (trunc v))"
    using nanmax_valid [OF inf fv] by (simp add: window_max_def mx_def [symmetric] v(1) min_def)
  with v(1) trunc_between [OF v(2) v(3)]
  show "\<exists>v. float64 (Max (set (finite_values r)) + 2) = Fin v \<and>
           window_max dimn r = Inr (min (int dimn) (trunc v)) \<and>
           \<lfloor>Max (set (finite_values r))\<rfloor> + 2 \<le> trunc v \<and>
           trunc v \<le> \<lceil>Max (set (finite_values r))\<rceil> + 2"
    unfolding mx_def [symmetric] by blast
qed

text \<open>
  Claim C5, as the code has it. At step \<open>t\<close>, when on each axis the positions of row
  \<open>t\<close> are doubles of magnitude below \<open>2^52\<close>, at least one of them finite and none
  infinite, the window exists and on each axis
  \<^item> the lower bound is \<open>max 0 (floor(min) - 2)\<close>, with no upper clamp at \<open>dim - 1\<close>;
  \<^item> the upper bound is \<open>min dim (int(max + 2))\<close>, where the sum is the double sum and
    \<^verbatim>\<open>int\<close> truncates towards zero, with no lower clamp at 0: the truncated sum lies
    between \<open>floor(max) + 2\<close> and \<open>ceil(max) + 2\<close>, and it is \<open>floor(max) + 2\<close>
    (the floor, not the ceiling) whenever \<open>max \<ge> -2\<close> and the sum is exact.
  The margin is the constant 2.
\<close>

theorem field_window_bounds:
  assumes t: "t < length (xpos s)" "t < length (ypos s)" "t < length (zpos s)"
    and rows: "\<forall>r \<in> {xpos s ! t, ypos s ! t, zpos s ! t}.
        PInf \<notin> set r \<and> NInf \<notin> set r \<and> finite_values r \<noteq> [] \<and>
        (\<forall>a \<in> set (finite_values r). float64 a = Fin a \<and> \<bar>a\<bar> < 2 ^ 52)"
  shows "\<exists>w. field_window ds s t = Inr w \<and>
     (\<forall>(dimn, r, lo, hi) \<in> {(nx ds, xpos s ! t, xmin w, xmax w),
                             (ny ds, ypos s ! t, ymin w, ymax w),
                             (nz ds, zpos s ! t, zmin w, zmax w)}.
        lo = max 0 (\<lfloor>Min (set (finite_values r))\<rfloor> - 2) \<and>
        (\<exists>v. float64 (Max (set (finite_values r)) + 2) = Fin v \<and>
             hi = min (int dimn) (trunc v) \<and>
             \<lfloor>Max (set (finite_values r))\<rfloor> + 2 \<le> trunc v \<and>
             trunc v \<le> \<lceil>Max (set (finite_values r))\<rceil> + 2) \<and>
        (- 2 \<le> Max (set (finite_values r)) \<and>
         float64 (Max (set (finite_values r)) + 2) = Fin (Max (set (finite_values r)) + 2) \<longrightarrow>
           hi = min (int dimn) (\<lfloor>Max (set (finite_values r))\<rfloor> + 2)))"
proof -
  have ax: "\<exists>lo hi. window_min r = Inr lo \<and> window_max dimn r = Inr hi \<and>
        lo = max 0 (\<lfloor>Min (set (finite_values r))\<rfloor> - 2) \<and>
        (\<exists>v. float64 (Max (set (finite_values r)) + 2) = Fin v \<and>
             hi = min (int dimn) (trunc v) \<and>
             \<lfloor>Max (set (finite_values r))\<rfloor> + 2 \<le> trunc v \<and>
             trunc v \<le> \<lceil>Max (set (finite_values r))\<rceil> + 2) \<and>
        (- 2 \<le> Max (set (finite_values r)) \<and>
         float64 (Max (set (finite_values r)) + 2) = Fin (Max (set (finite_values r)) + 2) \<longrightarrow>
           hi = min (int dimn) (\<lfloor>Max (set (finite_values r))\<rfloor> + 2))"
    if "r \<in> {xpos s ! t, ypos s ! t, zpos s ! t}" for r dimn
  proof -
    from rows that have inf: "PInf \<notin> set r" "NInf \<notin> set r" and fv: "finite_values r \<noteq> []"
      and dbl: "\<forall>a \<in> set (finite_values r). float64 a = Fin a \<and> \<bar>a\<bar> < 2 ^ 52"
      by blast+
    from window_axis(2) [OF inf fv dbl, of dimn] obtain v where
      v: "float64 (Max (set (finite_values r)) + 2) = Fin v"
        "window_max dimn r = Inr (min (int dimn) (trunc v))"
        "\<lfloor>Max (set (finite_values r))\<rfloor> + 2 \<le> trunc v"
        "trunc v \<le> \<lceil>Max (set (finite_values r))\<rceil> + 2"
      by blast
    have "min (int dimn) (trunc v) = min (int dimn) (\<lfloor>Max (set (finite_values r))\<rfloor> + 2)"
      if "- 2 \<le> Max (set (finite_values r))"
        "float64 (Max (set (finite_values r)) + 2) = Fin (Max (set (finite_values r)) + 2)"
      using that v(1) by (simp add: trunc_add2)
    with window_axis(1) [OF inf fv dbl] v show ?thesis by blast
  qed
  from ax [of "xpos s ! t" "nx ds"] obtain x0 x1 where
    x: "window_min (xpos s ! t) = Inr x0" "window_max (nx ds) (xpos s ! t) = Inr x1"
    and xb: "x0 = max 0 (\<lfloor>Min (set (finite_values (xpos s ! t)))\<rfloor> - 2) \<and>
        (\<exists>v. float64 (Max (set (finite_values (xpos s ! t))) + 2) = Fin v \<and>
             x1 = min (int (nx ds)) (trunc v) \<and>
             \<lfloor>Max (set (finite_values (xpos s ! t)))\<rfloor> + 2 \<le> trunc v \<and>
             trunc v \<le> \<lceil>Max (set (finite_values (xpos s ! t)))\<rceil> + 2) \<and>
        (- 2 \<le> Max (set (finite_values (xpos s ! t))) \<and>
         float64 (Max (set (finite_values (xpos s ! t))) + 2) =
           Fin (Max (set (finite_values (xpos s ! t))) + 2) \<longrightarrow>
           x1 = min (int (nx ds)) (\<lfloor>Max (set (finite_values (xpos s ! t)))\<rfloor> + 2))"
    by auto
  from ax [of "ypos s ! t" "ny ds"] obtain y0 y1 where
    y: "window_min (ypos s ! t) = Inr y0" "window_max (ny ds) (ypos s ! t) = Inr y1"
    and yb: "y0 = max 0 (\<lfloor>Min (set (finite_values (ypos s ! t)))\<rfloor> - 2) \<and>
        (\<exists>v. float64 (Max (set (finite_values (ypos s ! t))) + 2) = Fin v \<and>
             y1 = min (int (ny ds)) (trunc v) \<and>
             \<lfloor>Max (set (finite_values (ypos s ! t)))\<rfloor> + 2 \<le> trunc v \<and>
             trunc v \<le> \<lceil>Max (set (finite_values (ypos s ! t)))\<rceil> + 2) \<and>
        (- 2 \<le> Max (set (finite_values (ypos s ! t))) \<and>
         float64 (Max (set (finite_values (ypos s ! t))) + 2) =
           Fin (Max (set (finite_values (ypos s ! t))) + 2) \<longrightarrow>
           y1 = min (int (ny ds)) (\<lfloor>Max (set (finite_values (ypos s ! t)))\<rfloor> + 2))"
    by auto
  from ax [of "zpos s ! t" "nz ds"] obtain z0 z1 where
    z: "window_min (zpos s ! t) = Inr z0" "window_max (nz ds) (zpos s ! t) = Inr z1"
    and zb: "z0 = max 0 (\<lfloor>Min (set (finite_values (zpos s ! t)))\<rfloor> - 2) \<and>
        (\<exists>v. float64 (Max (set (finite_values (zpos s ! t))) + 2) = Fin v \<and>
             z1 = min (int (nz ds)) (trunc v) \<and>
             \<lfloor>Max (set (finite_values (zpos s ! t)))\<rfloor> + 2 \<le> trunc v \<and>
             trunc v \<le> \<lceil>Max (set (finite_values (zpos s ! t)))\<rceil> + 2) \<and>
        (- 2 \<le> Max (set (finite_values (zpos s ! t))) \<and>
         float64 (Max (set (finite_values (zpos s ! t))) + 2) =
           Fin (Max (set (finite_values (zpos s ! t))) + 2) \<longrightarrow>
           z1 = min (int (nz ds)) (\<lfloor>Max (set (finite_values (zpos s ! t)))\<rfloor> + 2))"
    by auto
  have "field_window ds s t =
      Inr \<lparr>xmin = x0, xmax = x1, ymin = y0, ymax = y1, zmin = z0, zmax = z1\<rparr>"
    using t by (simp add: field_window_def row_def x y z)
  with xb yb zb show ?thesis by simp
qed

text \<open>
  In the wider domain, for the positions 3.5 and 6 in x, 4 and 4 in y, 0 and 1.5 in z (the
  second parcel being lost), the window is 1..8, 2..6 and 0..3.
\<close>

theorem field_window_bounds_witness:
  "field_window ex_wide_ds ex_wide 0 =
     Inr \<lparr>xmin = 1, xmax = 8, ymin = 2, ymax = 6, zmin = 0, zmax = 3\<rparr>"
proof -
  have t: "0 < length (xpos ex_wide)" "0 < length (ypos ex_wide)" "0 < length (zpos ex_wide)"
    by (simp_all add: ex_wide_def)
  have rows: "\<forall>r \<in> {xpos ex_wide ! 0, ypos ex_wide ! 0, zpos ex_wide ! 0}.
        PInf \<notin> set r \<and> NInf \<notin> set r \<and> finite_values r \<noteq> [] \<and>
        (\<forall>a \<in> set (finite_values r). float64 a = Fin a \<and> \<bar>a\<bar> < 2 ^ 52)"
    by (simp add: ex_wide_def)
  from field_window_bounds [OF t rows, of ex_wide_ds] obtain w where
    w: "field_window ex_wide_ds ex_wide 0 = Inr w"
    and b: "\<forall>(dimn, r, lo, hi) \<in> {(nx ex_wide_ds, xpos ex_wide ! 0, xmin w, xmax w),
                             (ny ex_wide_ds, ypos ex_wide ! 0, ymin w, ymax w),
                             (nz ex_wide_ds, zpos ex_wide ! 0, zmin w, zmax w)}.
        lo = max 0 (\<lfloor>Min (set (finite_values r))\<rfloor> - 2) \<and>
        (\<exists>v. float64 (Max (set (finite_values r)) + 2) = Fin v \<and>
             hi = min (int dimn) (trunc v) \<and>
             \<lfloor>Max (set (finite_values r))\<rfloor> + 2 \<le> trunc v \<and>
             trunc v \<le> \<lceil>Max (set (finite_values r))\<rceil> + 2) \<and>
        (- 2 \<le> Max (set (finite_values r)) \<and>
         float64 (Max (set (finite_values r)) + 2) = Fin (Max (set (finite_values r)) + 2) \<longrightarrow>
           hi = min (int dimn) (\<lfloor>Max (set (finite_values r))\<rfloor> + 2))"
    by blast
  from b have "xmin w = 1 \<and> xmax w = 8 \<and> ymin w = 2 \<and> ymax w = 6 \<and> zmin w = 0 \<and> zmax w = 3"
    by (simp add: ex_wide_def ex_wide_ds_def)
  then have "w = \<lparr>xmin = 1, xmax = 8, ymin = 2, ymax = 6, zmin = 0, zmax = 3\<rparr>"
    by (cases w) simp
  with w show ?thesis by simp
qed

text \<open>
  The bounds of the specification differ: for the one position 3.5 on an axis of length
  10 the code's upper bound is 5 where \<open>clamp(ceil(max) + 2, 0, dim)\<close> is 6, and for
  the one position 12 the code's lower bound is 10 where
  \<open>clamp(floor(min) - 2, 0, dim - 1)\<close> is 9.
\<close>

theorem field_window_bounds_counterexample:
  "window_max 10 [Fin (7 / 2)] = Inr 5 \<and> spec_window_hi 2 10 (7 / 2) = 6 \<and>
   window_min [Fin 12] = Inr 10 \<and> spec_window_lo 2 10 12 = 9"
  by (simp add: window_max_def nanmax_def window_min_def nanmin_def trunc_def
      spec_window_hi_def spec_window_lo_def clamp_def)

text \<open>
  The upper bound is not always \<open>floor(max) + 2\<close> either: for the one position
  \<open>1 - 2^-53\<close>, the largest double below 1, the sum with 2 rounds to 3 and the bound is 3.
\<close>

lemma window_max_rounds_up: "window_max 10 [Fin (1 - 1 / 2 ^ 53)] = Inr 3"
proof -
  have "(1 - 1 / 2 ^ 53 + 2 :: real) = 3 - 1 / 2 ^ 53" by simp
  then have "float64 (1 - 1 / 2 ^ 53 + 2) = Fin 3" by (simp only: float64_rounds_up)
  then show ?thesis
    by (simp add: window_max_def nanmax_def trunc_def del: add64_Fin add: add64_def)
qed

text \<open>
  Claim C6, as the code has it. When every x position at time \<open>t\<close> is not-a-number,
  \<^verbatim>\<open>np.nanmin\<close> gives not-a-number, \<^verbatim>\<open>np.int\<close> raises ValueError on it, and
  the step ends there: no window is returned and nothing is written.
\<close>

theorem degenerate_swarm_raises:
  "t < length (xpos s) \<Longrightarrow> set (xpos s ! t) \<subseteq> {NaN} \<Longrightarrow>
   step cfg ds vres t s = Inl ValueError"
  using step_all_NaN by blast

theorem degenerate_swarm_raises_witness:
  "step ex_cfg ex_ds ex_vres 0 ex_lost = Inl ValueError"
  using degenerate_swarm_raises [of 0 ex_lost ex_cfg ex_ds ex_vres] by (simp add: ex_lost_def)

text \<open>
  With all three parcels lost, the window computation does not return the full domain:
  it raises, and so does the step.
\<close>

theorem degenerate_swarm_counterexample:
  "set (xpos ex_lost ! 0) \<subseteq> {NaN} \<and> set (ypos ex_lost ! 0) \<subseteq> {NaN} \<and>
   set (zpos ex_lost ! 0) \<subseteq> {NaN} \<and>
   field_window ex_ds ex_lost 0 = Inl ValueError \<and>
   step ex_cfg ex_ds ex_vres 0 ex_lost = Inl ValueError"
  using step_all_NaN [of 0 ex_lost ex_ds ex_cfg ex_vres] by (simp add: ex_lost_def)

lemma restore_t_eq: "restore_t cfg t = Inr t' \<Longrightarrow> nat t' = t \<and> incre cfg \<noteq> 0"
  by (auto simp: restore_t_def trunc_def split: if_splits)

lemma row_Inr: "row a t = Inr r \<longleftrightarrow> t < length a \<and> r = a ! t"
  by (auto simp: row_def)

lemma set_row_Inr: "set_row a t r = Inr a' \<longleftrightarrow> t < length a \<and> a' = a[t := r]"
  by (auto simp: set_row_def)

lemma interpn3_Inr:
  "interpn3 points a xi fill = Inr vs \<Longrightarrow> vs = map (interp_point3 points a fill) xi"
  by (auto simp: interpn3_def split: prod.splits if_splits)

lemma interpn2_Inr:
  "interpn2 points a xi fill = Inr vs \<Longrightarrow> vs = map (interp_point2 points a fill) xi"
  by (auto simp: interpn2_def split: prod.splits if_splits)

lemma integrate_Inr:
  assumes "integrate cfg ds vres w u v wv t s = Inr s1"
  obtains us vs ws vr zs1 zs2 where
    "sample_u cfg w u (xpos s ! t) (ypos s ! t) (zpos s ! t) = Inr us"
    "sample_v cfg w v (xpos s ! t) (ypos s ! t) (zpos s ! t) = Inr vs"
    "sample_w cfg w wv (xpos s ! t) (ypos s ! t) (zpos s ! t) = Inr ws"
    "sample_vert_res ds vres w (xpos s ! t) (ypos s ! t) (zpos s ! t) = Inr vr"
    "sample_zs ds (xpos s ! t) (ypos s ! t) = Inr zs1"
    "sample_zs ds (xpos s1 ! (t + 1)) (ypos s1 ! (t + 1)) = Inr zs2"
    "t + 1 < length (xpos s)" "t + 1 < length (ypos s)" "t + 1 < length (zpos s)"
    "t + 1 < length (zpos_heightASL s)" "t < length (zpos_vert_res s)"
    "xpos s1 = (xpos s)[t + 1 := map2 fadd (xpos s ! t) (map (horizontal_step cfg ds) us)]"
    "ypos s1 = (ypos s)[t + 1 := map2 fadd (ypos s ! t) (map (horizontal_step cfg ds) vs)]"
    "zpos_heightASL s1 = (zpos_heightASL s)
        [t + 1 := map2 fadd (zpos_heightASL s ! t) (map (vertical_step cfg ds) ws)]"
    "zpos_vert_res s1 = (zpos_vert_res s)[t := vr]"
    "zpos s1 = (zpos s)
        [t + 1 := map6 advance_z (zpos s ! t) (zpos_heightASL s ! t)
                    (zpos_heightASL s1 ! (t + 1)) zs1 zs2 vr]"
    "variable1 s1 = variable1 s"
proof -
  from assms obtain us vs ws vr zs1 zs2 where
    a: "sample_u cfg w u (xpos s ! t) (ypos s ! t) (zpos s ! t) = Inr us"
    "sample_v cfg w v (xpos s ! t) (ypos s ! t) (zpos s ! t) = Inr vs"
    "sample_w cfg w wv (xpos s ! t) (ypos s ! t) (zpos s ! t) = Inr ws"
    "sample_vert_res ds vres w (xpos s ! t) (ypos s ! t) (zpos s ! t) = Inr vr"
    "sample_zs ds (xpos s ! t) (ypos s ! t) = Inr zs1"
    "sample_zs ds (((xpos s)[t + 1 := map2 fadd (xpos s ! t) (map (horizontal_step cfg ds) us)]) ! (t + 1))
       (((ypos s)[t + 1 := map2 fadd (ypos s ! t) (map (horizontal_step cfg ds) vs)]) ! (t + 1)) = Inr zs2"
    "t + 1 < length (xpos s)" "t + 1 < length (ypos s)" "t + 1 < length (zpos s)"
    "t + 1 < length (zpos_heightASL s)" "t < length (zpos_vert_res s)"
    and s1: "s1 = \<lparr>xpos = (xpos s)[t + 1 := map2 fadd (xpos s ! t) (map (horizontal_step cfg ds) us)],
       ypos = (ypos s)[t + 1 := map2 fadd (ypos s ! t) (map (horizontal_step cfg ds) vs)],
       zpos = (zpos s)[t + 1 := map6 advance_z (zpos s ! t) (zpos_heightASL s ! t)
                (((zpos_heightASL s)[t + 1 := map2 fadd (zpos_heightASL s ! t) (map (vertical_step cfg ds) ws)]) ! (t + 1))
                zs1 zs2 vr],
       zpos_heightASL = (zpos_heightASL s)[t + 1 := map2 fadd (zpos_heightASL s ! t) (map (vertical_step cfg ds) ws)],
       zpos_vert_res = (zpos_vert_res s)[t := vr],
       variable1 = variable1 s\<rparr>"
    unfolding integrate_def bind_e_eq_Inr row_Inr set_row_Inr by blast
  show ?thesis
    by (rule that [of us vs ws vr zs1 zs2]) (use a in \<open>simp_all add: s1\<close>)
qed

lemma step_Inr:
  assumes "step cfg ds vres t s = Inr s'"
  obtains w u v wv field var1 s1 vals where
    "field_window ds s t = Inr w"
    "fetch (uinterp ds) (loop_time_index cfg t) w = Inr u"
    "fetch (vinterp ds) (loop_time_index cfg t) w = Inr v"
    "fetch (winterp ds) (loop_time_index cfg t) w = Inr wv"
    "get_variable ds (var_name1 cfg) = Inr field"
    "fetch field (loop_time_index cfg t) w = Inr var1"
    "incre cfg \<noteq> 0"
    "integrate cfg ds vres w u v wv t s = Inr s1"
    "sample_var1 w var1 (xpos s ! t) (ypos s ! t) (zpos s ! t) = Inr vals"
    "t < length (variable1 s)"
    "s' = (clip_ground s1)\<lparr>variable1 := (variable1 s)[t := vals]\<rparr>"
proof -
  from assms obtain w u v wv field var1 t' s1 where
    a: "field_window ds s t = Inr w"
    "fetch (uinterp ds) (loop_time_index cfg t) w = Inr u"
    "fetch (vinterp ds) (loop_time_index cfg t) w = Inr v"
    "fetch (winterp ds) (loop_time_index cfg t) w = Inr wv"
    "get_variable ds (var_name1 cfg) = Inr field"
    "fetch field (loop_time_index cfg t) w = Inr var1"
    and r: "restore_t cfg t = Inr t'"
    and i: "integrate cfg ds vres w u v wv (nat t') s = Inr s1"
    and v: "record_variable w var1 (nat t') s (clip_ground s1) = Inr s'"
    unfolding step_def Let_def bind_e_eq_Inr by blast
  from r have t: "nat t' = t" and inc: "incre cfg \<noteq> 0" using restore_t_eq by blast+
  from i have v1: "variable1 s1 = variable1 s" by (rule integrate_Inr)
  from v obtain vals where
    "sample_var1 w var1 (xpos s ! t) (ypos s ! t) (zpos s ! t) = Inr vals"
    "t < length (variable1 s)"
    "s' = (clip_ground s1)\<lparr>variable1 := (variable1 s)[t := vals]\<rparr>"
    unfolding record_variable_def bind_e_eq_Inr t
    by (auto simp: set_row_Inr clip_ground_def v1)
  with a inc i t show ?thesis by (auto intro: that)
qed


lemma wf_state_lengths:
  assumes "wf_state T P s"
  shows "length (xpos s) = T" "length (ypos s) = T" "length (zpos s) = T"
    "length (zpos_heightASL s) = T" "length (zpos_vert_res s) = T" "length (variable1 s) = T"
  using assms by (simp_all add: wf_state_def)

lemma wf_state_rows:
  assumes "wf_state T P s" and "t < T"
  shows "length (xpos s ! t) = P" "length (ypos s ! t) = P" "length (zpos s ! t) = P"
    "length (zpos_heightASL s ! t) = P" "length (zpos_vert_res s ! t) = P"
    "length (variable1 s ! t) = P"
  using assms by (simp_all add: wf_state_def)

lemma wf_stateI:
  assumes "\<And>a. a \<in> {xpos s, ypos s, zpos s, zpos_heightASL s, zpos_vert_res s, variable1 s}
    \<Longrightarrow> length a = T \<and> (\<forall>t<T. length (a ! t) = P)"
  shows "wf_state T P s"
  unfolding wf_state_def
proof (intro ballI conjI)
  fix a assume a: "a \<in> {xpos s, ypos s, zpos s, zpos_heightASL s, zpos_vert_res s, variable1 s}"
  from assms [OF a] show "length a = T" by simp
  fix r assume "r \<in> set a"
  then obtain t where "t < length a" "r = a ! t" by (auto simp: in_set_conv_nth)
  with assms [OF a] show "length r = P" by simp
qed

lemma length_coords3 [simp]:
  "length (coords3 zl yl xl) = min (length zl) (min (length yl) (length xl))"
  by (simp add: coords3_def)

lemma nth_coords3:
  "i < length zl \<Longrightarrow> i < length yl \<Longrightarrow> i < length xl \<Longrightarrow>
   coords3 zl yl xl ! i = (zl ! i, yl ! i, xl ! i)"
  by (simp add: coords3_def)

lemma length_loc [simp]: "length (loc r lo) = length r" "length (loc_stag r lo) = length r"
  by (simp_all add: loc_def loc_stag_def)

lemma length_coord [simp]:
  "length (coord_u cfg w xr yr zr) = min (length zr) (min (length yr) (length xr))"
  "length (coord_v cfg w xr yr zr) = min (length zr) (min (length yr) (length xr))"
  "length (coord_w cfg w xr yr zr) = min (length zr) (min (length yr) (length xr))"
  "length (coord_fast w xr yr zr) = min (length zr) (min (length yr) (length xr))"
  "length (coord w xr yr zr) = min (length zr) (min (length yr) (length xr))"
  by (simp_all add: coord_u_def coord_v_def coord_w_def coord_fast_def coord_def)

lemma fadd_fsub_cancel: "fadd (fsub z (Fin c)) (Fin c) = z"
  by (cases z) (simp_all add: fsub_def)

lemma nth_coord:
  "i < length xr \<Longrightarrow> i < length yr \<Longrightarrow> i < length zr \<Longrightarrow>
   coord w xr yr zr ! i = (zr ! i, yr ! i, xr ! i)"
  by (simp add: coord_def nth_coords3 loc_def fadd_fsub_cancel)

lemma nth_coord_fast:
  "i < length xr \<Longrightarrow> i < length yr \<Longrightarrow> i < length zr \<Longrightarrow>
   coord_fast w xr yr zr ! i =
     (fsub (zr ! i) (Fin (real_of_int (zmin w))), fsub (yr ! i) (Fin (real_of_int (ymin w))),
      fsub (xr ! i) (Fin (real_of_int (xmin w))))"
  by (simp add: coord_fast_def nth_coords3 loc_def)

lemma sample_u_nth:
  "sample_u cfg w u xr yr zr = Inr us \<Longrightarrow>
   length us = length (coord_u cfg w xr yr zr) \<and>
   (\<forall>i<length us. us ! i =
      interp_point3 (fast_axes w) (uniform_filter u smooth) NaN (coord_u cfg w xr yr zr ! i))"
  by (auto simp: sample_u_def dest!: interpn3_Inr)

lemma sample_v_nth:
  "sample_v cfg w v xr yr zr = Inr vs \<Longrightarrow>
   length vs = length (coord_v cfg w xr yr zr) \<and>
   (\<forall>i<length vs. vs ! i =
      interp_point3 (fast_axes w) (uniform_filter v smooth) NaN (coord_v cfg w xr yr zr ! i))"
  by (auto simp: sample_v_def dest!: interpn3_Inr)

lemma sample_w_nth:
  "sample_w cfg w wv xr yr zr = Inr ws \<Longrightarrow>
   length ws = length (coord_w cfg w xr yr zr) \<and>
   (\<forall>i<length ws. ws ! i =
      interp_point3 (fast_axes w) (uniform_filter wv smooth) (Fin 0) (coord_w cfg w xr yr zr ! i))"
  by (auto simp: sample_w_def dest!: interpn3_Inr)

lemma sample_var1_nth:
  "sample_var1 w var1 xr yr zr = Inr vals \<Longrightarrow>
   length vals = length (coord_fast w xr yr zr) \<and>
   (\<forall>i<length vals. vals ! i =
      interp_point3 (fast_axes w) (uniform_filter var1 smooth) NaN (coord_fast w xr yr zr ! i))"
  by (auto simp: sample_var1_def dest!: interpn3_Inr)

lemma sample_vert_res_nth:
  "sample_vert_res ds vres w xr yr zr = Inr vr \<Longrightarrow>
   length vr = length (coord w xr yr zr) \<and>
   (\<forall>i<length vr. vr ! i =
      interp_point3 (nz ds - 1, ny ds, nx ds) vres NaN (coord w xr yr zr ! i))"
  by (auto simp: sample_vert_res_def dest!: interpn3_Inr)

lemma sample_zs_nth:
  "sample_zs ds xr yr = Inr zs1 \<Longrightarrow>
   length zs1 = min (length yr) (length xr) \<and>
   (\<forall>i<length zs1. zs1 ! i =
      interp_point2 (ny ds, nx ds) (surface_height ds) NaN (yr ! i, xr ! i))"
  by (auto simp: sample_zs_def dest!: interpn2_Inr)

lemma length_map6 [simp]: "length (map6 f a b c d e g) = length a"
  by (simp add: map6_def)

lemma nth_map6:
  "i < length a \<Longrightarrow> map6 f a b c d e g ! i = f (a ! i) (b ! i) (c ! i) (d ! i) (e ! i) (g ! i)"
  by (simp add: map6_def)

text \<open>What one integration writes for parcel \<open>i\<close>.\<close>

lemma integrate_parcel:
  assumes int: "integrate cfg ds vres w u v wv t s = Inr s1"
    and wf: "wf_state T P s" and i: "i < P"
  shows "xpos s1 ! (t + 1) ! i =
           fadd (xpos s ! t ! i) (horizontal_step cfg ds
             (interp_point3 (fast_axes w) (uniform_filter u smooth) NaN
                (coord_u cfg w (xpos s ! t) (ypos s ! t) (zpos s ! t) ! i)))"
    and "ypos s1 ! (t + 1) ! i =
           fadd (ypos s ! t ! i) (horizontal_step cfg ds
             (interp_point3 (fast_axes w) (uniform_filter v smooth) NaN
                (coord_v cfg w (xpos s ! t) (ypos s ! t) (zpos s ! t) ! i)))"
    and "zpos_heightASL s1 ! (t + 1) ! i =
           fadd (zpos_heightASL s ! t ! i) (vertical_step cfg ds
             (interp_point3 (fast_axes w) (uniform_filter wv smooth) (Fin 0)
                (coord_w cfg w (xpos s ! t) (ypos s ! t) (zpos s ! t) ! i)))"
    and "zpos_vert_res s1 ! t ! i =
           interp_point3 (nz ds - 1, ny ds, nx ds) vres NaN
             (zpos s ! t ! i, ypos s ! t ! i, xpos s ! t ! i)"
    and "zpos s1 ! (t + 1) ! i =
           advance_z (zpos s ! t ! i) (zpos_heightASL s ! t ! i) (zpos_heightASL s1 ! (t + 1) ! i)
             (interp_point2 (ny ds, nx ds) (surface_height ds) NaN (ypos s ! t ! i, xpos s ! t ! i))
             (interp_point2 (ny ds, nx ds) (surface_height ds) NaN
                (ypos s1 ! (t + 1) ! i, xpos s1 ! (t + 1) ! i))
             (zpos_vert_res s1 ! t ! i)"
    and "wf_state T P s1"
proof -
  from int obtain us vs ws vr zs1 zs2 where
    su: "sample_u cfg w u (xpos s ! t) (ypos s ! t) (zpos s ! t) = Inr us"
    and sv: "sample_v cfg w v (xpos s ! t) (ypos s ! t) (zpos s ! t) = Inr vs"
    and sw: "sample_w cfg w wv (xpos s ! t) (ypos s ! t) (zpos s ! t) = Inr ws"
    and sr: "sample_vert_res ds vres w (xpos s ! t) (ypos s ! t) (zpos s ! t) = Inr vr"
    and s1: "sample_zs ds (xpos s ! t) (ypos s ! t) = Inr zs1"
    and s2: "sample_zs ds (xpos s1 ! (t + 1)) (ypos s1 ! (t + 1)) = Inr zs2"
    and len: "t + 1 < length (xpos s)" "t + 1 < length (ypos s)" "t + 1 < length (zpos s)"
      "t + 1 < length (zpos_heightASL s)" "t < length (zpos_vert_res s)"
    and x1: "xpos s1 = (xpos s)[t + 1 := map2 fadd (xpos s ! t) (map (horizontal_step cfg ds) us)]"
    and y1: "ypos s1 = (ypos s)[t + 1 := map2 fadd (ypos s ! t) (map (horizontal_step cfg ds) vs)]"
    and a1: "zpos_heightASL s1 = (zpos_heightASL s)
        [t + 1 := map2 fadd (zpos_heightASL s ! t) (map (vertical_step cfg ds) ws)]"
    and r1: "zpos_vert_res s1 = (zpos_vert_res s)[t := vr]"
    and z1: "zpos s1 = (zpos s)
        [t + 1 := map6 advance_z (zpos s ! t) (zpos_heightASL s ! t)
                    (zpos_heightASL s1 ! (t + 1)) zs1 zs2 vr]"
    and v1: "variable1 s1 = variable1 s"
    by (rule integrate_Inr)
  from wf len have T: "t + 1 < T" "t < T" by (simp_all add: wf_state_lengths)
  note L = wf_state_lengths [OF wf]
  note R = wf_state_rows [OF wf T(2)]
  from su sv sw sr have lus: "length us = P" and lvs: "length vs = P" and lws: "length ws = P"
    and lvr: "length vr = P"
    using R by (auto dest!: sample_u_nth sample_v_nth sample_w_nth sample_vert_res_nth)
  show X: "xpos s1 ! (t + 1) ! i =
           fadd (xpos s ! t ! i) (horizontal_step cfg ds
             (interp_point3 (fast_axes w) (uniform_filter u smooth) NaN
                (coord_u cfg w (xpos s ! t) (ypos s ! t) (zpos s ! t) ! i)))"
    using sample_u_nth [OF su] lus i R len by (simp add: x1)
  show Y: "ypos s1 ! (t + 1) ! i =
           fadd (ypos s ! t ! i) (horizontal_step cfg ds
             (interp_point3 (fast_axes w) (uniform_filter v smooth) NaN
                (coord_v cfg w (xpos s ! t) (ypos s ! t) (zpos s ! t) ! i)))"
    using sample_v_nth [OF sv] lvs i R len by (simp add: y1)
  show "zpos_heightASL s1 ! (t + 1) ! i =
           fadd (zpos_heightASL s ! t ! i) (vertical_step cfg ds
             (interp_point3 (fast_axes w) (uniform_filter wv smooth) (Fin 0)
                (coord_w cfg w (xpos s ! t) (ypos s ! t) (zpos s ! t) ! i)))"
    using sample_w_nth [OF sw] lws i R len by (simp add: a1)
  show VR: "zpos_vert_res s1 ! t ! i =
           interp_point3 (nz ds - 1, ny ds, nx ds) vres NaN
             (zpos s ! t ! i, ypos s ! t ! i, xpos s ! t ! i)"
    using sample_vert_res_nth [OF sr] lvr i R len by (simp add: r1 nth_coord)
  have lx1: "length (xpos s1 ! (t + 1)) = P" and ly1: "length (ypos s1 ! (t + 1)) = P"
    and la1: "length (zpos_heightASL s1 ! (t + 1)) = P"
    using lus lvs lws R len by (simp_all add: x1 y1 a1)
  from sample_zs_nth [OF s1] have lz1: "length zs1 = P"
    and z1n: "zs1 ! i = interp_point2 (ny ds, nx ds) (surface_height ds) NaN
       (ypos s ! t ! i, xpos s ! t ! i)"
    using R i by auto
  from sample_zs_nth [OF s2] have lz2: "length zs2 = P"
    and z2n: "zs2 ! i = interp_point2 (ny ds, nx ds) (surface_height ds) NaN
       (ypos s1 ! (t + 1) ! i, xpos s1 ! (t + 1) ! i)"
    using lx1 ly1 i by auto
  have vrn: "zpos_vert_res s1 ! t ! i = vr ! i" using len by (simp add: r1)
  show "zpos s1 ! (t + 1) ! i =
           advance_z (zpos s ! t ! i) (zpos_heightASL s ! t ! i) (zpos_heightASL s1 ! (t + 1) ! i)
             (interp_point2 (ny ds, nx ds) (surface_height ds) NaN (ypos s ! t ! i, xpos s ! t ! i))
             (interp_point2 (ny ds, nx ds) (surface_height ds) NaN
                (ypos s1 ! (t + 1) ! i, xpos s1 ! (t + 1) ! i))
             (zpos_vert_res s1 ! t ! i)"
    using len i R by (simp add: z1 nth_map6 z1n z2n vrn)
  show "wf_state T P s1"
  proof (rule wf_stateI)
    fix a assume "a \<in> {xpos s1, ypos s1, zpos s1, zpos_heightASL s1, zpos_vert_res s1, variable1 s1}"
    then show "length a = T \<and> (\<forall>t<T. length (a ! t) = P)"
      using L wf_state_rows [OF wf] lus lvs lws lvr T
      by (auto simp: x1 y1 z1 a1 r1 v1 nth_list_update)
  qed
qed

lemma out_of_bounds_NaN [simp]: "\<not> out_of_bounds n NaN"
  by (simp add: out_of_bounds_def fgt_def)

lemma norm_distance_NaN [simp]: "norm_distance n NaN = NaN"
  by (simp add: norm_distance_def Let_def)

lemma edge_weight_NaN [simp]: "edge_weight NaN b = NaN"
  by (simp add: edge_weight_def)

lemma evaluate_linear3_NaN:
  "z = NaN \<or> y = NaN \<or> x = NaN \<Longrightarrow> evaluate_linear3 points a (z, y, x) = NaN"
  by (cases points) (auto simp: evaluate_linear3_def)

lemma evaluate_linear2_NaN:
  "y = NaN \<or> x = NaN \<Longrightarrow> evaluate_linear2 points a (y, x) = NaN"
  by (cases points) (auto simp: evaluate_linear2_def)

lemma interp_point3_NaN:
  "z = NaN \<or> y = NaN \<or> x = NaN \<Longrightarrow> interp_point3 points a NaN (z, y, x) = NaN"
  by (simp add: interp_point3_def evaluate_linear3_NaN)

lemma interp_point3_all_NaN: "interp_point3 points a fill (NaN, NaN, NaN) = NaN"
  by (cases points) (simp add: interp_point3_def evaluate_linear3_NaN outside_def)

lemma interp_point2_NaN:
  "y = NaN \<or> x = NaN \<Longrightarrow> interp_point2 points a NaN (y, x) = NaN"
  by (simp add: interp_point2_def evaluate_linear2_NaN)

lemma interp_point3_outside: "outside points p \<Longrightarrow> interp_point3 points a fill p = fill"
  by (simp add: interp_point3_def)

lemma horizontal_step_NaN [simp]: "horizontal_step cfg ds NaN = NaN"
  by (simp add: horizontal_step_def)

lemma vertical_step_NaN [simp]: "vertical_step cfg ds NaN = NaN"
  by (simp add: vertical_step_def)

lemma vertical_step_zero [simp]: "vertical_step cfg ds (Fin 0) = Fin 0"
  by (simp add: vertical_step_def)

lemma clip_min0_NaN [simp]: "clip_min0 NaN = NaN"
  by (simp add: clip_min0_def)

lemma clip_min0_idem [simp]: "clip_min0 (clip_min0 x) = clip_min0 x"
  by (cases x) (simp_all add: clip_min0_def)

lemma clip_min0_ge: "clip_min0 x = NaN \<or> fge (clip_min0 x) (Fin 0)"
  by (cases x) (simp_all add: clip_min0_def)

lemma advance_z_NaN:
  "pz = NaN \<or> zs2 = NaN \<or> vr = NaN \<Longrightarrow> advance_z pz pa na zs1 zs2 vr = NaN"
  by (auto simp: advance_z_def)

lemma nth_clip_array:
  "k < length a \<Longrightarrow> i < length (a ! k) \<Longrightarrow> clip_array a ! k ! i = clip_min0 (a ! k ! i)"
  by (simp add: clip_array_def)

lemma wf_state_clip_ground: "wf_state T P s \<Longrightarrow> wf_state T P (clip_ground s)"
  by (auto simp: wf_state_def clip_ground_def clip_array_def)

text \<open>What one pass of the loop leaves for parcel \<open>i\<close>.\<close>

lemma step_parcel:
  assumes st: "step cfg ds vres t s = Inr s'" and wf: "wf_state T P s" and i: "i < P"
  obtains w u v wv field var1 s1 where
    "field_window ds s t = Inr w"
    "fetch (uinterp ds) (loop_time_index cfg t) w = Inr u"
    "fetch (vinterp ds) (loop_time_index cfg t) w = Inr v"
    "fetch (winterp ds) (loop_time_index cfg t) w = Inr wv"
    "get_variable ds (var_name1 cfg) = Inr field"
    "fetch field (loop_time_index cfg t) w = Inr var1"
    "integrate cfg ds vres w u v wv t s = Inr s1"
    "wf_state T P s1" "wf_state T P s'" "t + 1 < T"
    "xpos s' = xpos s1" "ypos s' = ypos s1" "zpos_vert_res s' = zpos_vert_res s1"
    "zpos s' = clip_array (zpos s1)" "zpos_heightASL s' = clip_array (zpos_heightASL s1)"
    "\<forall>k. k \<noteq> t \<longrightarrow> variable1 s' ! k = variable1 s ! k"
    "variable1 s' ! t ! i =
       interp_point3 (fast_axes w) (uniform_filter var1 smooth) NaN
         (coord_fast w (xpos s ! t) (ypos s ! t) (zpos s ! t) ! i)"
proof -
  from st obtain w u v wv field var1 s1 vals where
    a: "field_window ds s t = Inr w"
    "fetch (uinterp ds) (loop_time_index cfg t) w = Inr u"
    "fetch (vinterp ds) (loop_time_index cfg t) w = Inr v"
    "fetch (winterp ds) (loop_time_index cfg t) w = Inr wv"
    "get_variable ds (var_name1 cfg) = Inr field"
    "fetch field (loop_time_index cfg t) w = Inr var1"
    and int: "integrate cfg ds vres w u v wv t s = Inr s1"
    and sv: "sample_var1 w var1 (xpos s ! t) (ypos s ! t) (zpos s ! t) = Inr vals"
    and tv: "t < length (variable1 s)"
    and s': "s' = (clip_ground s1)\<lparr>variable1 := (variable1 s)[t := vals]\<rparr>"
    by (rule step_Inr)
  have wf1: "wf_state T P s1" using integrate_parcel(6) [OF int wf i] .
  from int have "t + 1 < length (xpos s)" by (rule integrate_Inr)
  then have T: "t + 1 < T" using wf by (simp add: wf_state_lengths)
  then have tT: "t < T" by simp
  from int have v1: "variable1 s1 = variable1 s" by (rule integrate_Inr)
  note R = wf_state_rows [OF wf tT]
  from sample_var1_nth [OF sv] R i have lv: "length vals = P"
    and vn: "vals ! i = interp_point3 (fast_axes w) (uniform_filter var1 smooth) NaN
         (coord_fast w (xpos s ! t) (ypos s ! t) (zpos s ! t) ! i)"
    by auto
  have wf': "wf_state T P s'"
  proof (rule wf_stateI)
    fix a assume "a \<in> {xpos s', ypos s', zpos s', zpos_heightASL s', zpos_vert_res s', variable1 s'}"
    then show "length a = T \<and> (\<forall>t<T. length (a ! t) = P)"
      using wf_state_lengths [OF wf1] wf_state_rows [OF wf1] lv v1 tv
      by (auto simp: s' clip_ground_def clip_array_def nth_list_update)
  qed
  show ?thesis
    by (rule that [of w u v wv field var1 s1])
      (use a int wf1 wf' T tv vn in \<open>simp_all add: s' clip_ground_def\<close>)
qed

lemma step_ex:
  assumes "step cfg ds vres t s = Inr s'"
  shows "\<exists>w u v wv field var1 s1.
    field_window ds s t = Inr w \<and>
    fetch (uinterp ds) (loop_time_index cfg t) w = Inr u \<and>
    fetch (vinterp ds) (loop_time_index cfg t) w = Inr v \<and>
    fetch (winterp ds) (loop_time_index cfg t) w = Inr wv \<and>
    get_variable ds (var_name1 cfg) = Inr field \<and>
    fetch field (loop_time_index cfg t) w = Inr var1 \<and>
    integrate cfg ds vres w u v wv t s = Inr s1"
  using assms by (rule step_Inr) blast

text \<open>What one pass of the loop leaves for parcel \<open>i\<close>, in terms of the window, the
  fetched fields and the state \<open>s1\<close> before the clip.\<close>

lemma step_facts:
  assumes st: "step cfg ds vres t s = Inr s'" and wf: "wf_state T P s" and i: "i < P"
    and w: "field_window ds s t = Inr w"
    and u: "fetch (uinterp ds) (loop_time_index cfg t) w = Inr u"
    and v: "fetch (vinterp ds) (loop_time_index cfg t) w = Inr v"
    and wv: "fetch (winterp ds) (loop_time_index cfg t) w = Inr wv"
    and field: "get_variable ds (var_name1 cfg) = Inr field"
    and var1: "fetch field (loop_time_index cfg t) w = Inr var1"
    and int: "integrate cfg ds vres w u v wv t s = Inr s1"
  shows "wf_state T P s'" and "t + 1 < T"
    and "xpos s' ! (t + 1) ! i =
       fadd (xpos s ! t ! i) (horizontal_step cfg ds
         (interp_point3 (fast_axes w) (uniform_filter u smooth) NaN
            (coord_u cfg w (xpos s ! t) (ypos s ! t) (zpos s ! t) ! i)))"
    and "ypos s' ! (t + 1) ! i =
       fadd (ypos s ! t ! i) (horizontal_step cfg ds
         (interp_point3 (fast_axes w) (uniform_filter v smooth) NaN
            (coord_v cfg w (xpos s ! t) (ypos s ! t) (zpos s ! t) ! i)))"
    and "zpos_heightASL s1 ! (t + 1) ! i =
       fadd (zpos_heightASL s ! t ! i) (vertical_step cfg ds
         (interp_point3 (fast_axes w) (uniform_filter wv smooth) (Fin 0)
            (coord_w cfg w (xpos s ! t) (ypos s ! t) (zpos s ! t) ! i)))"
    and "zpos_vert_res s' ! t ! i =
       interp_point3 (nz ds - 1, ny ds, nx ds) vres NaN
         (zpos s ! t ! i, ypos s ! t ! i, xpos s ! t ! i)"
    and "zpos s1 ! (t + 1) ! i =
       advance_z (zpos s ! t ! i) (zpos_heightASL s ! t ! i) (zpos_heightASL s1 ! (t + 1) ! i)
         (interp_point2 (ny ds, nx ds) (surface_height ds) NaN (ypos s ! t ! i, xpos s ! t ! i))
         (interp_point2 (ny ds, nx ds) (surface_height ds) NaN
            (ypos s' ! (t + 1) ! i, xpos s' ! (t + 1) ! i))
         (zpos_vert_res s' ! t ! i)"
    and "zpos s' ! (t + 1) ! i = clip_min0 (zpos s1 ! (t + 1) ! i)"
    and "zpos_heightASL s' ! (t + 1) ! i = clip_min0 (zpos_heightASL s1 ! (t + 1) ! i)"
    and "variable1 s' ! t ! i =
       interp_point3 (fast_axes w) (uniform_filter var1 smooth) NaN
         (coord_fast w (xpos s ! t) (ypos s ! t) (zpos s ! t) ! i)"
    and "xpos s' = xpos s1" and "ypos s' = ypos s1" and "zpos_vert_res s' = zpos_vert_res s1"
    and "zpos s' = clip_array (zpos s1)" and "zpos_heightASL s' = clip_array (zpos_heightASL s1)"
    and "\<And>k. k \<noteq> t \<Longrightarrow> variable1 s' ! k = variable1 s ! k"
proof -
  from st wf i obtain w' u' v' wv' field' var1' s1' where
    a: "field_window ds s t = Inr w'"
    "fetch (uinterp ds) (loop_time_index cfg t) w' = Inr u'"
    "fetch (vinterp ds) (loop_time_index cfg t) w' = Inr v'"
    "fetch (winterp ds) (loop_time_index cfg t) w' = Inr wv'"
    "get_variable ds (var_name1 cfg) = Inr field'"
    "fetch field' (loop_time_index cfg t) w' = Inr var1'"
    and int': "integrate cfg ds vres w' u' v' wv' t s = Inr s1'"
    and wf1': "wf_state T P s1'" and wf': "wf_state T P s'" and T: "t + 1 < T"
    and eq': "xpos s' = xpos s1'" "ypos s' = ypos s1'" "zpos_vert_res s' = zpos_vert_res s1'"
    and cl': "zpos s' = clip_array (zpos s1')" "zpos_heightASL s' = clip_array (zpos_heightASL s1')"
    and fr: "\<forall>k. k \<noteq> t \<longrightarrow> variable1 s' ! k = variable1 s ! k"
    and var': "variable1 s' ! t ! i =
       interp_point3 (fast_axes w') (uniform_filter var1' smooth) NaN
         (coord_fast w' (xpos s ! t) (ypos s ! t) (zpos s ! t) ! i)"
    by (rule step_parcel)
  from a w have [simp]: "w' = w" by simp
  from a u v wv field have [simp]: "u' = u" "v' = v" "wv' = wv" "field' = field" by simp_all
  from a var1 have [simp]: "var1' = var1" by simp
  from int' int have [simp]: "s1' = s1" by simp
  note eq = eq' [simplified] and cl = cl' [simplified] and wf1 = wf1' [simplified]
  note ip = integrate_parcel [OF int wf i]
  show "wf_state T P s'" by (rule wf')
  show "t + 1 < T" by (rule T)
  show "zpos s' ! (t + 1) ! i = clip_min0 (zpos s1 ! (t + 1) ! i)"
    using wf_state_lengths [OF wf1] wf_state_rows [OF wf1 T] i T
    by (simp add: cl nth_clip_array)
  show "zpos_heightASL s' ! (t + 1) ! i = clip_min0 (zpos_heightASL s1 ! (t + 1) ! i)"
    using wf_state_lengths [OF wf1] wf_state_rows [OF wf1 T] i T
    by (simp add: cl nth_clip_array)
  show "xpos s' ! (t + 1) ! i =
       fadd (xpos s ! t ! i) (horizontal_step cfg ds
         (interp_point3 (fast_axes w) (uniform_filter u smooth) NaN
            (coord_u cfg w (xpos s ! t) (ypos s ! t) (zpos s ! t) ! i)))"
    using ip(1) by (simp add: eq)
  show "ypos s' ! (t + 1) ! i =
       fadd (ypos s ! t ! i) (horizontal_step cfg ds
         (interp_point3 (fast_axes w) (uniform_filter v smooth) NaN
            (coord_v cfg w (xpos s ! t) (ypos s ! t) (zpos s ! t) ! i)))"
    using ip(2) by (simp add: eq)
  show "zpos_heightASL s1 ! (t + 1) ! i =
       fadd (zpos_heightASL s ! t ! i) (vertical_step cfg ds
         (interp_point3 (fast_axes w) (uniform_filter wv smooth) (Fin 0)
            (coord_w cfg w (xpos s ! t) (ypos s ! t) (zpos s ! t) ! i)))"
    using ip(3) .
  show "zpos_vert_res s' ! t ! i =
       interp_point3 (nz ds - 1, ny ds, nx ds) vres NaN
         (zpos s ! t ! i, ypos s ! t ! i, xpos s ! t ! i)"
    using ip(4) by (simp add: eq)
  show "zpos s1 ! (t + 1) ! i =
       advance_z (zpos s ! t ! i) (zpos_heightASL s ! t ! i) (zpos_heightASL s1 ! (t + 1) ! i)
         (interp_point2 (ny ds, nx ds) (surface_height ds) NaN (ypos s ! t ! i, xpos s ! t ! i))
         (interp_point2 (ny ds, nx ds) (surface_height ds) NaN
            (ypos s' ! (t + 1) ! i, xpos s' ! (t + 1) ! i))
         (zpos_vert_res s' ! t ! i)"
    using ip(5) by (simp add: eq)
  show "variable1 s' ! t ! i =
       interp_point3 (fast_axes w) (uniform_filter var1 smooth) NaN
         (coord_fast w (xpos s ! t) (ypos s ! t) (zpos s ! t) ! i)"
    using var' by simp
  show "xpos s' = xpos s1" "ypos s' = ypos s1" "zpos_vert_res s' = zpos_vert_res s1"
    "zpos s' = clip_array (zpos s1)" "zpos_heightASL s' = clip_array (zpos_heightASL s1)"
    by (simp_all add: eq cl)
  show "\<And>k. k \<noteq> t \<Longrightarrow> variable1 s' ! k = variable1 s ! k" using fr by simp
qed

lemma outside_window_Inr:
  assumes "outside_window cfg ds s t i" and "field_window ds s t = Inr w"
  shows "outside (fast_axes w) (coord_u cfg w (xpos s ! t) (ypos s ! t) (zpos s ! t) ! i)"
    and "outside (fast_axes w) (coord_v cfg w (xpos s ! t) (ypos s ! t) (zpos s ! t) ! i)"
    and "outside (fast_axes w) (coord_w cfg w (xpos s ! t) (ypos s ! t) (zpos s ! t) ! i)"
    and "outside (fast_axes w) (coord_fast w (xpos s ! t) (ypos s ! t) (zpos s ! t) ! i)"
  using assms by (simp_all add: outside_window_def)

lemma fadd_Fin_zero_clip: "clip_min0 (fadd a (Fin 0)) = clip_min0 a"
  by (cases a) simp_all

text \<open>A parcel outside the window: lost horizontally, held in height.\<close>

lemma step_outside:
  assumes st: "step cfg ds vres t s = Inr s'" and wf: "wf_state T P s" and i: "i < P"
    and out: "outside_window cfg ds s t i"
  shows "xpos s' ! (t + 1) ! i = NaN" and "ypos s' ! (t + 1) ! i = NaN"
    and "zpos s' ! (t + 1) ! i = NaN" and "variable1 s' ! t ! i = NaN"
    and "zpos_heightASL s' ! (t + 1) ! i = clip_min0 (zpos_heightASL s ! t ! i)"
proof -
  from step_ex [OF st] obtain w u v wv field var1 s1 where
    w: "field_window ds s t = Inr w"
    and f: "fetch (uinterp ds) (loop_time_index cfg t) w = Inr u"
      "fetch (vinterp ds) (loop_time_index cfg t) w = Inr v"
      "fetch (winterp ds) (loop_time_index cfg t) w = Inr wv"
      "get_variable ds (var_name1 cfg) = Inr field"
      "fetch field (loop_time_index cfg t) w = Inr var1"
      "integrate cfg ds vres w u v wv t s = Inr s1"
    by blast
  note F = step_facts [OF st wf i w f]
  note o = outside_window_Inr [OF out w]
  show X: "xpos s' ! (t + 1) ! i = NaN" using F(3) by (simp add: interp_point3_outside [OF o(1)])
  show "ypos s' ! (t + 1) ! i = NaN" using F(4) by (simp add: interp_point3_outside [OF o(2)])
  show "variable1 s' ! t ! i = NaN" using F(10) by (simp add: interp_point3_outside [OF o(4)])
  show "zpos_heightASL s' ! (t + 1) ! i = clip_min0 (zpos_heightASL s ! t ! i)"
    using F(9) F(5) by (simp add: interp_point3_outside [OF o(3)] fadd_Fin_zero_clip)
  show "zpos s' ! (t + 1) ! i = NaN"
    using F(8) F(7) X by (simp add: interp_point2_NaN advance_z_NaN)
qed

lemma nth_coord_NaN:
  assumes "i < length xr" "i < length yr" "i < length zr"
    and "xr ! i = NaN" "yr ! i = NaN" "zr ! i = NaN"
  shows "coord_u cfg w xr yr zr ! i = (NaN, NaN, NaN)"
    and "coord_v cfg w xr yr zr ! i = (NaN, NaN, NaN)"
    and "coord_w cfg w xr yr zr ! i = (NaN, NaN, NaN)"
    and "coord_fast w xr yr zr ! i = (NaN, NaN, NaN)"
  using assms
  by (simp_all add: coord_u_def coord_v_def coord_w_def coord_fast_def nth_coords3
      loc_def loc_stag_def)

text \<open>A parcel whose position is not-a-number stays so, in every quantity.\<close>

lemma step_lost:
  assumes st: "step cfg ds vres t s = Inr s'" and wf: "wf_state T P s" and i: "i < P"
    and lost: "xpos s ! t ! i = NaN" "ypos s ! t ! i = NaN" "zpos s ! t ! i = NaN"
  shows "xpos s' ! (t + 1) ! i = NaN" and "ypos s' ! (t + 1) ! i = NaN"
    and "zpos s' ! (t + 1) ! i = NaN" and "variable1 s' ! t ! i = NaN"
    and "zpos_heightASL s' ! (t + 1) ! i = NaN"
proof -
  from step_ex [OF st] obtain w u v wv field var1 s1 where
    w: "field_window ds s t = Inr w"
    and f: "fetch (uinterp ds) (loop_time_index cfg t) w = Inr u"
      "fetch (vinterp ds) (loop_time_index cfg t) w = Inr v"
      "fetch (winterp ds) (loop_time_index cfg t) w = Inr wv"
      "get_variable ds (var_name1 cfg) = Inr field"
      "fetch field (loop_time_index cfg t) w = Inr var1"
      "integrate cfg ds vres w u v wv t s = Inr s1"
    by blast
  note F = step_facts [OF st wf i w f]
  from F(2) have tT: "t < T" by simp
  note R = wf_state_rows [OF wf tT]
  have c: "coord_u cfg w (xpos s ! t) (ypos s ! t) (zpos s ! t) ! i = (NaN, NaN, NaN)"
    "coord_v cfg w (xpos s ! t) (ypos s ! t) (zpos s ! t) ! i = (NaN, NaN, NaN)"
    "coord_w cfg w (xpos s ! t) (ypos s ! t) (zpos s ! t) ! i = (NaN, NaN, NaN)"
    "coord_fast w (xpos s ! t) (ypos s ! t) (zpos s ! t) ! i = (NaN, NaN, NaN)"
    using nth_coord_NaN [of i "xpos s ! t" "ypos s ! t" "zpos s ! t"] R i lost by simp_all
  show "xpos s' ! (t + 1) ! i = NaN" using F(3) by (simp add: lost)
  show "ypos s' ! (t + 1) ! i = NaN" using F(4) by (simp add: lost)
  show "variable1 s' ! t ! i = NaN" using F(10) by (simp add: c interp_point3_all_NaN)
  show "zpos_heightASL s' ! (t + 1) ! i = NaN"
    using F(9) F(5) by (simp add: c interp_point3_all_NaN)
  show "zpos s' ! (t + 1) ! i = NaN" using F(8) F(7) by (simp add: lost advance_z_NaN)
qed

text \<open>What a pass of the loop leaves alone.\<close>

lemma step_frame:
  assumes st: "step cfg ds vres t s = Inr s'" and wf: "wf_state T P s" and i: "i < P"
    and k: "k \<le> t"
  shows "xpos s' ! k ! i = xpos s ! k ! i" and "ypos s' ! k ! i = ypos s ! k ! i"
    and "zpos s' ! k ! i = clip_min0 (zpos s ! k ! i)"
    and "zpos_heightASL s' ! k ! i = clip_min0 (zpos_heightASL s ! k ! i)"
    and "k < t \<Longrightarrow> variable1 s' ! k ! i = variable1 s ! k ! i"
proof -
  from step_ex [OF st] obtain w u v wv field var1 s1 where
    w: "field_window ds s t = Inr w"
    and f: "fetch (uinterp ds) (loop_time_index cfg t) w = Inr u"
      "fetch (vinterp ds) (loop_time_index cfg t) w = Inr v"
      "fetch (winterp ds) (loop_time_index cfg t) w = Inr wv"
      "get_variable ds (var_name1 cfg) = Inr field"
      "fetch field (loop_time_index cfg t) w = Inr var1"
      "integrate cfg ds vres w u v wv t s = Inr s1"
    by blast
  note F = step_facts [OF st wf i w f]
  have x1: "\<exists>r. xpos s1 = (xpos s)[t + 1 := r]" and y1: "\<exists>r. ypos s1 = (ypos s)[t + 1 := r]"
    and a1: "\<exists>r. zpos_heightASL s1 = (zpos_heightASL s)[t + 1 := r]"
    and z1: "\<exists>r. zpos s1 = (zpos s)[t + 1 := r]"
    using f(6) by (auto elim!: integrate_Inr)
  from k F(2) have kT: "k < T" and kt: "k \<noteq> t + 1" by simp_all
  note L = wf_state_lengths [OF wf]
  note R = wf_state_rows [OF wf kT]
  show "xpos s' ! k ! i = xpos s ! k ! i" using kt x1 by (auto simp: F(11))
  show "ypos s' ! k ! i = ypos s ! k ! i" using kt y1 by (auto simp: F(12))
  show "zpos s' ! k ! i = clip_min0 (zpos s ! k ! i)"
    using kt kT L R i z1 by (auto simp: F(14) nth_clip_array)
  show "zpos_heightASL s' ! k ! i = clip_min0 (zpos_heightASL s ! k ! i)"
    using kt kT L R i a1 by (auto simp: F(15) nth_clip_array)
  show "k < t \<Longrightarrow> variable1 s' ! k ! i = variable1 s ! k ! i" using F(16) [of k] by simp
qed

lemma run_loop_wf:
  "run_loop cfg ds vres t n s = Inr s' \<Longrightarrow> wf_state T P s \<Longrightarrow> 0 < P \<Longrightarrow> wf_state T P s'"
proof (induction n arbitrary: t s)
  case 0
  then show ?case by simp
next
  case (Suc n)
  from Suc.prems(1) obtain s1 where st: "step cfg ds vres t s = Inr s1"
    and rest: "run_loop cfg ds vres (Suc t) n s1 = Inr s'"
    by (auto simp: bind_e_eq_Inr)
  from step_ex [OF st] obtain w u v wv field var1 s2 where
    w: "field_window ds s t = Inr w"
    and f: "fetch (uinterp ds) (loop_time_index cfg t) w = Inr u"
      "fetch (vinterp ds) (loop_time_index cfg t) w = Inr v"
      "fetch (winterp ds) (loop_time_index cfg t) w = Inr wv"
      "get_variable ds (var_name1 cfg) = Inr field"
      "fetch field (loop_time_index cfg t) w = Inr var1"
      "integrate cfg ds vres w u v wv t s = Inr s2"
    by blast
  have "wf_state T P s1" using step_facts(1) [OF st Suc.prems(2) Suc.prems(3) w f] .
  then show ?case using Suc.IH [OF rest] Suc.prems(3) by simp
qed

text \<open>Rows at or before the current time index keep their entries, up to the clip.\<close>

lemma run_loop_frame:
  assumes "run_loop cfg ds vres t n s = Inr s'" and "wf_state T P s" and "i < P" and "k \<le> t"
  shows "xpos s' ! k ! i = xpos s ! k ! i \<and> ypos s' ! k ! i = ypos s ! k ! i \<and>
         (\<forall>c. zpos s ! k ! i = clip_min0 c \<longrightarrow> zpos s' ! k ! i = clip_min0 c) \<and>
         (\<forall>c. zpos_heightASL s ! k ! i = clip_min0 c \<longrightarrow> zpos_heightASL s' ! k ! i = clip_min0 c) \<and>
         (k < t \<longrightarrow> variable1 s' ! k ! i = variable1 s ! k ! i)"
  using assms
proof (induction n arbitrary: t s)
  case 0
  then show ?case by simp
next
  case (Suc n)
  from Suc.prems(1) obtain s1 where st: "step cfg ds vres t s = Inr s1"
    and rest: "run_loop cfg ds vres (Suc t) n s1 = Inr s'"
    by (auto simp: bind_e_eq_Inr)
  note fr = step_frame [OF st Suc.prems(2) Suc.prems(3) Suc.prems(4)]
  have P: "0 < P" using Suc.prems(3) by simp
  have wf1: "wf_state T P s1"
    using run_loop_wf [of cfg ds vres t "Suc 0" s s1 T P] st Suc.prems(2) P by simp
  have k: "k \<le> Suc t" using Suc.prems(4) by simp
  note ih = Suc.IH [OF rest wf1 Suc.prems(3) k]
  show ?case
  proof (intro conjI allI impI)
    show "xpos s' ! k ! i = xpos s ! k ! i" using ih fr by simp
    show "ypos s' ! k ! i = ypos s ! k ! i" using ih fr by simp
    show "zpos s' ! k ! i = clip_min0 c" if "zpos s ! k ! i = clip_min0 c" for c
      using ih fr that by simp
    show "zpos_heightASL s' ! k ! i = clip_min0 c" if "zpos_heightASL s ! k ! i = clip_min0 c" for c
      using ih fr that by simp
    show "variable1 s' ! k ! i = variable1 s ! k ! i" if "k < t"
      using ih fr that by simp
  qed
qed

text \<open>A parcel lost at time index \<open>t\<close> is lost in every row the loop writes afterwards.\<close>

lemma run_loop_lost:
  assumes "run_loop cfg ds vres t n s = Inr s'" and "wf_state T P s" and "i < P"
    and "xpos s ! t ! i = NaN" and "ypos s ! t ! i = NaN" and "zpos s ! t ! i = NaN"
  shows "(\<forall>k. t < k \<and> k \<le> t + n \<longrightarrow>
            xpos s' ! k ! i = NaN \<and> ypos s' ! k ! i = NaN \<and> zpos s' ! k ! i = NaN \<and>
            zpos_heightASL s' ! k ! i = NaN) \<and>
         (\<forall>k. t \<le> k \<and> k < t + n \<longrightarrow> variable1 s' ! k ! i = NaN)"
  using assms
proof (induction n arbitrary: t s)
  case 0
  then show ?case by auto
next
  case (Suc n)
  from Suc.prems(1) obtain s1 where st: "step cfg ds vres t s = Inr s1"
    and rest: "run_loop cfg ds vres (Suc t) n s1 = Inr s'"
    by (auto simp: bind_e_eq_Inr)
  note lo = step_lost [OF st Suc.prems(2) Suc.prems(3) Suc.prems(4) Suc.prems(5) Suc.prems(6)]
  have P: "0 < P" using Suc.prems(3) by simp
  have wf1: "wf_state T P s1"
    using run_loop_wf [of cfg ds vres t "Suc 0" s s1 T P] st Suc.prems(2) P by simp
  have l1: "xpos s1 ! Suc t ! i = NaN" "ypos s1 ! Suc t ! i = NaN" "zpos s1 ! Suc t ! i = NaN"
    and a1: "zpos_heightASL s1 ! Suc t ! i = NaN" and v1: "variable1 s1 ! t ! i = NaN"
    using lo by simp_all
  note ih = Suc.IH [OF rest wf1 Suc.prems(3) l1]
  have fr1: "xpos s' ! Suc t ! i = NaN \<and> ypos s' ! Suc t ! i = NaN \<and>
      zpos s' ! Suc t ! i = NaN \<and> zpos_heightASL s' ! Suc t ! i = NaN"
    using run_loop_frame [OF rest wf1 Suc.prems(3), of "Suc t"] l1 a1
      clip_min0_NaN by (metis order_refl)
  have fr2: "variable1 s' ! t ! i = NaN"
    using run_loop_frame [OF rest wf1 Suc.prems(3), of t] v1 by simp
  have A: "xpos s' ! k ! i = NaN \<and> ypos s' ! k ! i = NaN \<and> zpos s' ! k ! i = NaN \<and>
            zpos_heightASL s' ! k ! i = NaN" if k: "t < k \<and> k \<le> t + Suc n" for k
  proof (cases "k = Suc t")
    case True
    then show ?thesis using fr1 by simp
  next
    case False
    with k have "Suc t < k \<and> k \<le> Suc t + n" by simp
    then show ?thesis using ih by blast
  qed
  have B: "variable1 s' ! k ! i = NaN" if k: "t \<le> k \<and> k < t + Suc n" for k
  proof (cases "k = t")
    case True
    then show ?thesis using fr2 by simp
  next
    case False
    with k have "Suc t \<le> k \<and> k < Suc t + n" by simp
    then show ?thesis using ih by blast
  qed
  from A B show ?case by blast
qed

lemma run_loop_add:
  "run_loop cfg ds vres t (m + n) s =
     bind_e (run_loop cfg ds vres t m s) (run_loop cfg ds vres (t + m) n)"
proof (induction m arbitrary: t s)
  case 0
  then show ?case by simp
next
  case (Suc m)
  show ?case
    by (cases "step cfg ds vres t s") (simp_all add: Suc.IH)
qed

lemma py_index_nat:
  "py_index xs (int k) = Inr r \<longleftrightarrow> k < length xs \<and> r = xs ! k"
  by (auto simp: py_index_def Let_def)

lemma final_variable_Inr:
  assumes "final_variable cfg ds s = Inr s'" and "wf_state (time_steps cfg) P s" and "i < P"
    and "0 < time_steps cfg"
  shows "xpos s' = xpos s" and "ypos s' = ypos s" and "zpos s' = zpos s"
    and "zpos_heightASL s' = zpos_heightASL s"
    and "\<forall>k. k \<noteq> time_steps cfg - 1 \<longrightarrow> variable1 s' ! k = variable1 s ! k"
    and "\<exists>var1. variable1 s' ! (time_steps cfg - 1) ! i =
           interp_point3 (nz ds, ny ds, nx ds) var1 NaN
             (fsub (zpos s ! (time_steps cfg - 1) ! i) (Fin (1 / 2)),
              fsub (ypos s ! (time_steps cfg - 1) ! i) (Fin (1 / 2)),
              fsub (xpos s ! (time_steps cfg - 1) ! i) (Fin (1 / 2)))"
proof -
  let ?T = "time_steps cfg"
  have t: "int ?T - 1 = int (?T - 1)" using assms(4) by simp
  note L = wf_state_lengths [OF assms(2)]
  have T1: "?T - 1 < ?T" using assms(4) by simp
  have t': "nat (int ?T - 1) = ?T - 1" by simp
  note R = wf_state_rows [OF assms(2) T1]
  from assms(1) obtain field var1 vals where
    vals: "interpn3 (nz ds, ny ds, nx ds) var1
             (coords3 (map (\<lambda>c. fsub c (Fin (1 / 2))) (zpos s ! (?T - 1)))
                      (map (\<lambda>c. fsub c (Fin (1 / 2))) (ypos s ! (?T - 1)))
                      (map (\<lambda>c. fsub c (Fin (1 / 2))) (xpos s ! (?T - 1)))) NaN = Inr vals"
    and s': "s' = s\<lparr>variable1 := (variable1 s)[?T - 1 := vals]\<rparr>"
    unfolding final_variable_def Let_def bind_e_eq_Inr t py_index_nat
    using L T1 t' by (auto simp: wrap_index_def split: if_splits)
  show "xpos s' = xpos s" "ypos s' = ypos s" "zpos s' = zpos s"
    "zpos_heightASL s' = zpos_heightASL s"
    by (simp_all add: s')
  show "\<forall>k. k \<noteq> ?T - 1 \<longrightarrow> variable1 s' ! k = variable1 s ! k" by (simp add: s')
  from interpn3_Inr [OF vals] R assms(3)
  have "vals ! i = interp_point3 (nz ds, ny ds, nx ds) var1 NaN
             (fsub (zpos s ! (?T - 1) ! i) (Fin (1 / 2)),
              fsub (ypos s ! (?T - 1) ! i) (Fin (1 / 2)),
              fsub (xpos s ! (?T - 1) ! i) (Fin (1 / 2)))"
    by (simp add: nth_coords3)
  then show "\<exists>var1. variable1 s' ! (?T - 1) ! i =
           interp_point3 (nz ds, ny ds, nx ds) var1 NaN
             (fsub (zpos s ! (?T - 1) ! i) (Fin (1 / 2)),
              fsub (ypos s ! (?T - 1) ! i) (Fin (1 / 2)),
              fsub (xpos s ! (?T - 1) ! i) (Fin (1 / 2)))"
    using L T1 by (auto simp: s')
qed


text \<open>
  Claim C2, as the code has it. If at step \<open>t\<close> of a complete run the query points of
  parcel \<open>i\<close> fall outside the field window, then its x position, y position and
  z_grid are not-a-number at every later time index, and so is the sampled variable at
  \<open>t\<close> and at every later index. The height above sea level is not: the vertical
  velocity is interpolated with fill value 0, so at \<open>t + 1\<close> the height is the
  (clipped) height of \<open>t\<close>, and it is not-a-number only from \<open>t + 2\<close> on.
\<close>

theorem lost_parcel_propagation:
  assumes wf: "wf_state (time_steps cfg) P s0" and i: "i < P"
    and before: "run_loop cfg ds vres 0 t s0 = Inr s"
    and t: "t < time_steps cfg - 1"
    and out: "outside_window cfg ds s t i"
    and all: "run cfg ds vres s0 = Inr s'"
  shows "(\<forall>k. t < k \<and> k < time_steps cfg \<longrightarrow>
            xpos s' ! k ! i = NaN \<and> ypos s' ! k ! i = NaN \<and> zpos s' ! k ! i = NaN \<and>
            variable1 s' ! k ! i = NaN \<and> (t + 1 < k \<longrightarrow> zpos_heightASL s' ! k ! i = NaN)) \<and>
         variable1 s' ! t ! i = NaN \<and>
         zpos_heightASL s' ! (t + 1) ! i = clip_min0 (zpos_heightASL s ! t ! i)"
proof -
  let ?T = "time_steps cfg"
  define m where "m = ?T - 2 - t"
  have T: "?T - 1 = t + Suc m" using t by (simp add: m_def)
  have P: "0 < P" using i by simp
  from all obtain s2 where ct: "calculate_trajectories cfg ds vres s0 = Inr s2"
    and fin: "final_variable cfg ds s2 = Inr s'"
    by (auto simp: run_def bind_e_eq_Inr)
  from ct have loop: "run_loop cfg ds vres 0 (t + Suc m) s0 = Inr s2"
    unfolding calculate_trajectories_def T .
  from loop have "bind_e (run_loop cfg ds vres 0 t s0) (run_loop cfg ds vres (0 + t) (Suc m)) = Inr s2"
    by (simp only: run_loop_add)
  then have "run_loop cfg ds vres t (Suc m) s = Inr s2"
    by (simp only: before bind_e_Inr add_0)
  then obtain s1 where st: "step cfg ds vres t s = Inr s1"
    and rest: "run_loop cfg ds vres (Suc t) m s1 = Inr s2"
    by (auto simp: bind_e_eq_Inr)
  have wfs: "wf_state ?T P s" using run_loop_wf [OF before wf P] .
  have wf1: "wf_state ?T P s1"
    using run_loop_wf [of cfg ds vres t "Suc 0" s s1 ?T P] st wfs P by simp
  have wf2: "wf_state ?T P s2" using run_loop_wf [OF rest wf1 P] .
  note o = step_outside [OF st wfs i out]
  have l1: "xpos s1 ! Suc t ! i = NaN" "ypos s1 ! Suc t ! i = NaN" "zpos s1 ! Suc t ! i = NaN"
    and a1: "zpos_heightASL s1 ! Suc t ! i = clip_min0 (zpos_heightASL s ! t ! i)"
    and v1: "variable1 s1 ! t ! i = NaN"
    using o by simp_all
  note lo = run_loop_lost [OF rest wf1 i l1]
  note fr1 = run_loop_frame [OF rest wf1 i, of "Suc t"]
  note fr0 = run_loop_frame [OF rest wf1 i, of t]
  have T0: "0 < ?T" using t by simp
  note fv = final_variable_Inr [OF fin wf2 i T0]
  have x2: "xpos s2 ! k ! i = NaN \<and> ypos s2 ! k ! i = NaN \<and> zpos s2 ! k ! i = NaN"
    if "t < k" "k < ?T" for k
  proof (cases "k = Suc t")
    case True
    then show ?thesis using fr1 l1 clip_min0_NaN by (metis order_refl)
  next
    case False
    with that T have "Suc t < k \<and> k \<le> Suc t + m" by simp
    then show ?thesis using lo by blast
  qed
  have a2: "zpos_heightASL s2 ! k ! i = NaN" if "t + 1 < k" "k < ?T" for k
  proof -
    from that T have "Suc t < k \<and> k \<le> Suc t + m" by simp
    then show ?thesis using lo by blast
  qed
  have a2': "zpos_heightASL s2 ! (t + 1) ! i = clip_min0 (zpos_heightASL s ! t ! i)"
    using fr1 a1 by simp
  have v2: "variable1 s2 ! k ! i = NaN" if "t \<le> k" "k < ?T - 1" for k
  proof (cases "k = t")
    case True
    then show ?thesis using fr0 v1 by simp
  next
    case False
    with that T have "Suc t \<le> k \<and> k < Suc t + m" by simp
    then show ?thesis using lo by blast
  qed
  have vlast: "variable1 s' ! (?T - 1) ! i = NaN"
  proof -
    have "t < ?T - 1" "?T - 1 < ?T" using t by simp_all
    from x2 [OF this] fv(6) show ?thesis by (auto simp: interp_point3_NaN)
  qed
  have v': "variable1 s' ! k ! i = NaN" if "t \<le> k" "k < ?T" for k
  proof (cases "k = ?T - 1")
    case True
    then show ?thesis using vlast by simp
  next
    case False
    with that have "k < ?T - 1" by simp
    then show ?thesis using v2 [OF that(1)] fv(5) False by simp
  qed
  show ?thesis
    using x2 a2 a2' v' t by (simp add: fv(1-4))
qed

text \<open>
  Claim C3. A query point that is out of bounds on some axis of the window gets the
  fill value: not-a-number for the u and v samples and for the tracked variable, exactly
  0 for the w sample that drives the height above sea level.
\<close>

theorem dual_fill_policy:
  assumes "i < length xr" and "length yr = length xr" and "length zr = length xr"
  shows "(sample_u cfg w u xr yr zr = Inr us \<and>
            outside (fast_axes w) (coord_u cfg w xr yr zr ! i) \<longrightarrow> us ! i = NaN) \<and>
         (sample_v cfg w v xr yr zr = Inr vs \<and>
            outside (fast_axes w) (coord_v cfg w xr yr zr ! i) \<longrightarrow> vs ! i = NaN) \<and>
         (sample_var1 w var1 xr yr zr = Inr vals \<and>
            outside (fast_axes w) (coord_fast w xr yr zr ! i) \<longrightarrow> vals ! i = NaN) \<and>
         (sample_w cfg w wv xr yr zr = Inr ws \<and>
            outside (fast_axes w) (coord_w cfg w xr yr zr ! i) \<longrightarrow> ws ! i = Fin 0)"
  using assms
  by (auto dest!: sample_u_nth sample_v_nth sample_w_nth sample_var1_nth
      simp: interp_point3_outside)

lemma clip_min0_NaN_iff: "clip_min0 x = NaN \<longleftrightarrow> x = NaN"
  by (cases x) (simp_all add: clip_min0_def)

text \<open>
  Claim C1, as the code has it. A pass of the loop integrates into the state \<open>s1\<close>,
  which differs from the state before only in the rows it writes, and then clips the
  whole arrays \<open>zpos\<close> and \<open>zpos_heightASL\<close>. So at every time index (the seed row and
  the rows not yet integrated included) and for every parcel, the entry recorded is 0
  where the entry of \<open>s1\<close> is negative and the entry of \<open>s1\<close> otherwise: it is
  not-a-number exactly when that one is, the mark of a lost parcel being left as it is,
  and it is at least 0 in every other case.
\<close>

theorem ground_clip_invariant:
  assumes st: "step cfg ds vres t s = Inr s'" and wf: "wf_state T P s"
    and k: "k < T" and i: "i < P"
  shows "\<exists>w u v wv s1.
     field_window ds s t = Inr w \<and>
     fetch (uinterp ds) (loop_time_index cfg t) w = Inr u \<and>
     fetch (vinterp ds) (loop_time_index cfg t) w = Inr v \<and>
     fetch (winterp ds) (loop_time_index cfg t) w = Inr wv \<and>
     integrate cfg ds vres w u v wv t s = Inr s1 \<and>
     (k \<noteq> t + 1 \<longrightarrow> zpos s1 ! k ! i = zpos s ! k ! i \<and>
        zpos_heightASL s1 ! k ! i = zpos_heightASL s ! k ! i) \<and>
     zpos s' ! k ! i = (if flt (zpos s1 ! k ! i) (Fin 0) then Fin 0 else zpos s1 ! k ! i) \<and>
     zpos_heightASL s' ! k ! i =
       (if flt (zpos_heightASL s1 ! k ! i) (Fin 0) then Fin 0 else zpos_heightASL s1 ! k ! i) \<and>
     (zpos s' ! k ! i = NaN \<longleftrightarrow> zpos s1 ! k ! i = NaN) \<and>
     (zpos_heightASL s' ! k ! i = NaN \<longleftrightarrow> zpos_heightASL s1 ! k ! i = NaN) \<and>
     (zpos s' ! k ! i = NaN \<or> fge (zpos s' ! k ! i) (Fin 0)) \<and>
     (zpos_heightASL s' ! k ! i = NaN \<or> fge (zpos_heightASL s' ! k ! i) (Fin 0))"
proof -
  from step_ex [OF st] obtain w u v wv field var1 s1 where
    w: "field_window ds s t = Inr w"
    and f: "fetch (uinterp ds) (loop_time_index cfg t) w = Inr u"
      "fetch (vinterp ds) (loop_time_index cfg t) w = Inr v"
      "fetch (winterp ds) (loop_time_index cfg t) w = Inr wv"
      "get_variable ds (var_name1 cfg) = Inr field"
      "fetch field (loop_time_index cfg t) w = Inr var1"
      "integrate cfg ds vres w u v wv t s = Inr s1"
    by blast
  note F = step_facts [OF st wf i w f]
  have wf1: "wf_state T P s1" using integrate_parcel(6) [OF f(6) wf i] .
  have z1: "\<exists>r. zpos s1 = (zpos s)[t + 1 := r]"
    and a1: "\<exists>r. zpos_heightASL s1 = (zpos_heightASL s)[t + 1 := r]"
    using f(6) by (auto elim!: integrate_Inr)
  have fr: "zpos s1 ! k ! i = zpos s ! k ! i \<and>
      zpos_heightASL s1 ! k ! i = zpos_heightASL s ! k ! i" if "k \<noteq> t + 1"
    using that z1 a1 by auto
  have z: "zpos s' ! k ! i = clip_min0 (zpos s1 ! k ! i)"
    using wf_state_lengths [OF wf1] wf_state_rows [OF wf1 k] i k
    by (simp add: F(14) nth_clip_array)
  have a: "zpos_heightASL s' ! k ! i = clip_min0 (zpos_heightASL s1 ! k ! i)"
    using wf_state_lengths [OF wf1] wf_state_rows [OF wf1 k] i k
    by (simp add: F(15) nth_clip_array)
  have A: "zpos s' ! k ! i = (if flt (zpos s1 ! k ! i) (Fin 0) then Fin 0 else zpos s1 ! k ! i)"
    using z by (simp add: clip_min0_def)
  have B: "zpos_heightASL s' ! k ! i =
       (if flt (zpos_heightASL s1 ! k ! i) (Fin 0) then Fin 0 else zpos_heightASL s1 ! k ! i)"
    using a by (simp add: clip_min0_def)
  have C: "zpos s' ! k ! i = NaN \<longleftrightarrow> zpos s1 ! k ! i = NaN"
    unfolding z by (rule clip_min0_NaN_iff)
  have D: "zpos_heightASL s' ! k ! i = NaN \<longleftrightarrow> zpos_heightASL s1 ! k ! i = NaN"
    unfolding a by (rule clip_min0_NaN_iff)
  have E: "zpos s' ! k ! i = NaN \<or> fge (zpos s' ! k ! i) (Fin 0)"
    unfolding z by (rule clip_min0_ge)
  have G: "zpos_heightASL s' ! k ! i = NaN \<or> fge (zpos_heightASL s' ! k ! i) (Fin 0)"
    unfolding a by (rule clip_min0_ge)
  from fr A B C D E G w f show ?thesis by blast
qed

text \<open>
  Claim C4, as the code has it. The integration of step \<open>t\<close> leaves in \<open>s1\<close>, for
  every parcel, the new height above sea level (the old one plus the interpolated
  vertical velocity times the step length) and the new level
  \<open>zpos[t] + ((asl[t+1] - asl[t]) - (zs2 - zs1)) / vert_res\<close>, with the surface
  height \<open>zs2\<close> interpolated at the horizontal position of \<open>t + 1\<close> and \<open>zs1\<close> at
  that of \<open>t\<close>, and the vertical grid spacing interpolated at the position of \<open>t\<close>.
  What is recorded at \<open>t + 1\<close> is the clip of the two at 0; the recorded values satisfy
  the equation when the clip leaves both as they are.
\<close>

theorem coordinate_transform_step:
  assumes st: "step cfg ds vres t s = Inr s'" and wf: "wf_state T P s" and i: "i < P"
  shows "\<exists>w u v wv s1.
     field_window ds s t = Inr w \<and>
     fetch (uinterp ds) (loop_time_index cfg t) w = Inr u \<and>
     fetch (vinterp ds) (loop_time_index cfg t) w = Inr v \<and>
     fetch (winterp ds) (loop_time_index cfg t) w = Inr wv \<and>
     integrate cfg ds vres w u v wv t s = Inr s1 \<and>
     zpos_heightASL s1 ! (t + 1) ! i =
       fadd (zpos_heightASL s ! t ! i) (vertical_step cfg ds
         (interp_point3 (fast_axes w) (uniform_filter wv smooth) (Fin 0)
            (coord_w cfg w (xpos s ! t) (ypos s ! t) (zpos s ! t) ! i))) \<and>
     zpos s1 ! (t + 1) ! i =
       fadd (zpos s ! t ! i)
         (fdiv (fsub (fsub (zpos_heightASL s1 ! (t + 1) ! i) (zpos_heightASL s ! t ! i))
                  (fsub (interp_point2 (ny ds, nx ds) (surface_height ds) NaN
                           (ypos s' ! (t + 1) ! i, xpos s' ! (t + 1) ! i))
                        (interp_point2 (ny ds, nx ds) (surface_height ds) NaN
                           (ypos s ! t ! i, xpos s ! t ! i))))
               (interp_point3 (nz ds - 1, ny ds, nx ds) vres NaN
                  (zpos s ! t ! i, ypos s ! t ! i, xpos s ! t ! i))) \<and>
     zpos s' ! (t + 1) ! i =
       (if flt (zpos s1 ! (t + 1) ! i) (Fin 0) then Fin 0 else zpos s1 ! (t + 1) ! i) \<and>
     zpos_heightASL s' ! (t + 1) ! i =
       (if flt (zpos_heightASL s1 ! (t + 1) ! i) (Fin 0) then Fin 0
        else zpos_heightASL s1 ! (t + 1) ! i) \<and>
     (\<not> flt (zpos s1 ! (t + 1) ! i) (Fin 0) \<and> \<not> flt (zpos_heightASL s1 ! (t + 1) ! i) (Fin 0) \<longrightarrow>
        zpos s' ! (t + 1) ! i =
          fadd (zpos s ! t ! i)
            (fdiv (fsub (fsub (zpos_heightASL s' ! (t + 1) ! i) (zpos_heightASL s ! t ! i))
                     (fsub (interp_point2 (ny ds, nx ds) (surface_height ds) NaN
                              (ypos s' ! (t + 1) ! i, xpos s' ! (t + 1) ! i))
                           (interp_point2 (ny ds, nx ds) (surface_height ds) NaN
                              (ypos s ! t ! i, xpos s ! t ! i))))
                  (interp_point3 (nz ds - 1, ny ds, nx ds) vres NaN
                     (zpos s ! t ! i, ypos s ! t ! i, xpos s ! t ! i))))"
proof -
  from step_ex [OF st] obtain w u v wv field var1 s1 where
    w: "field_window ds s t = Inr w"
    and f: "fetch (uinterp ds) (loop_time_index cfg t) w = Inr u"
      "fetch (vinterp ds) (loop_time_index cfg t) w = Inr v"
      "fetch (winterp ds) (loop_time_index cfg t) w = Inr wv"
      "get_variable ds (var_name1 cfg) = Inr field"
      "fetch field (loop_time_index cfg t) w = Inr var1"
      "integrate cfg ds vres w u v wv t s = Inr s1"
    by blast
  note F = step_facts [OF st wf i w f]
  have eq: "zpos s1 ! (t + 1) ! i =
       fadd (zpos s ! t ! i)
         (fdiv (fsub (fsub (zpos_heightASL s1 ! (t + 1) ! i) (zpos_heightASL s ! t ! i))
                  (fsub (interp_point2 (ny ds, nx ds) (surface_height ds) NaN
                           (ypos s' ! (t + 1) ! i, xpos s' ! (t + 1) ! i))
                        (interp_point2 (ny ds, nx ds) (surface_height ds) NaN
                           (ypos s ! t ! i, xpos s ! t ! i))))
               (interp_point3 (nz ds - 1, ny ds, nx ds) vres NaN
                  (zpos s ! t ! i, ypos s ! t ! i, xpos s ! t ! i)))"
    using F(6) F(7) by (simp add: advance_z_def)
  have z: "zpos s' ! (t + 1) ! i =
       (if flt (zpos s1 ! (t + 1) ! i) (Fin 0) then Fin 0 else zpos s1 ! (t + 1) ! i)"
    using F(8) by (simp add: clip_min0_def)
  have a: "zpos_heightASL s' ! (t + 1) ! i =
       (if flt (zpos_heightASL s1 ! (t + 1) ! i) (Fin 0) then Fin 0
        else zpos_heightASL s1 ! (t + 1) ! i)"
    using F(9) by (simp add: clip_min0_def)
  have "zpos s' ! (t + 1) ! i =
          fadd (zpos s ! t ! i)
            (fdiv (fsub (fsub (zpos_heightASL s' ! (t + 1) ! i) (zpos_heightASL s ! t ! i))
                     (fsub (interp_point2 (ny ds, nx ds) (surface_height ds) NaN
                              (ypos s' ! (t + 1) ! i, xpos s' ! (t + 1) ! i))
                           (interp_point2 (ny ds, nx ds) (surface_height ds) NaN
                              (ypos s ! t ! i, xpos s ! t ! i))))
                  (interp_point3 (nz ds - 1, ny ds, nx ds) vres NaN
                     (zpos s ! t ! i, ypos s ! t ! i, xpos s ! t ! i)))"
    if "\<not> flt (zpos s1 ! (t + 1) ! i) (Fin 0)" "\<not> flt (zpos_heightASL s1 ! (t + 1) ! i) (Fin 0)"
  proof -
    have zs: "zpos s' ! (t + 1) ! i = zpos s1 ! (t + 1) ! i" using that z by simp
    have as: "zpos_heightASL s' ! (t + 1) ! i = zpos_heightASL s1 ! (t + 1) ! i"
      using that a by simp
    show ?thesis unfolding zs as by (rule eq)
  qed
  with w f F(5) eq z a show ?thesis by blast
qed

text \<open>
  Claim C7. The value written to \<open>variable1[t]\<close> by step \<open>t\<close> is interpolated at the
  position the parcel has at time index \<open>t\<close> when the step starts (shifted into the
  window), in the variable fetched for that step; the step leaves the positions of row
  \<open>t\<close> as they are and writes the advanced position to row \<open>t + 1\<close>, whose variable
  it does not touch.
\<close>

theorem scalar_alignment:
  assumes st: "step cfg ds vres t s = Inr s'" and wf: "wf_state T P s" and i: "i < P"
  shows "\<exists>w field var1 u.
           field_window ds s t = Inr w \<and>
           get_variable ds (var_name1 cfg) = Inr field \<and>
           fetch field (loop_time_index cfg t) w = Inr var1 \<and>
           fetch (uinterp ds) (loop_time_index cfg t) w = Inr u \<and>
           variable1 s' ! t ! i =
             interp_point3 (fast_axes w) (uniform_filter var1 smooth) NaN
               (fsub (zpos s ! t ! i) (Fin (real_of_int (zmin w))),
                fsub (ypos s ! t ! i) (Fin (real_of_int (ymin w))),
                fsub (xpos s ! t ! i) (Fin (real_of_int (xmin w)))) \<and>
           xpos s' ! t ! i = xpos s ! t ! i \<and> ypos s' ! t ! i = ypos s ! t ! i \<and>
           xpos s' ! (t + 1) ! i =
             fadd (xpos s ! t ! i) (horizontal_step cfg ds
               (interp_point3 (fast_axes w) (uniform_filter u smooth) NaN
                  (coord_u cfg w (xpos s ! t) (ypos s ! t) (zpos s ! t) ! i))) \<and>
           variable1 s' ! (t + 1) = variable1 s ! (t + 1)"
proof -
  from step_ex [OF st] obtain w u v wv field var1 s1 where
    w: "field_window ds s t = Inr w"
    and f: "fetch (uinterp ds) (loop_time_index cfg t) w = Inr u"
      "fetch (vinterp ds) (loop_time_index cfg t) w = Inr v"
      "fetch (winterp ds) (loop_time_index cfg t) w = Inr wv"
      "get_variable ds (var_name1 cfg) = Inr field"
      "fetch field (loop_time_index cfg t) w = Inr var1"
      "integrate cfg ds vres w u v wv t s = Inr s1"
    by blast
  note F = step_facts [OF st wf i w f]
  from F(2) have tT: "t < T" by simp
  note R = wf_state_rows [OF wf tT]
  have c: "coord_fast w (xpos s ! t) (ypos s ! t) (zpos s ! t) ! i =
      (fsub (zpos s ! t ! i) (Fin (real_of_int (zmin w))),
       fsub (ypos s ! t ! i) (Fin (real_of_int (ymin w))),
       fsub (xpos s ! t ! i) (Fin (real_of_int (xmin w))))"
    using R i by (simp add: nth_coord_fast)
  note fr = step_frame [OF st wf i, of t]
  have "field_window ds s t = Inr w \<and>
           get_variable ds (var_name1 cfg) = Inr field \<and>
           fetch field (loop_time_index cfg t) w = Inr var1 \<and>
           fetch (uinterp ds) (loop_time_index cfg t) w = Inr u \<and>
           variable1 s' ! t ! i =
             interp_point3 (fast_axes w) (uniform_filter var1 smooth) NaN
               (fsub (zpos s ! t ! i) (Fin (real_of_int (zmin w))),
                fsub (ypos s ! t ! i) (Fin (real_of_int (ymin w))),
                fsub (xpos s ! t ! i) (Fin (real_of_int (xmin w)))) \<and>
           xpos s' ! t ! i = xpos s ! t ! i \<and> ypos s' ! t ! i = ypos s ! t ! i \<and>
           xpos s' ! (t + 1) ! i =
             fadd (xpos s ! t ! i) (horizontal_step cfg ds
               (interp_point3 (fast_axes w) (uniform_filter u smooth) NaN
                  (coord_u cfg w (xpos s ! t) (ypos s ! t) (zpos s ! t) ! i))) \<and>
           variable1 s' ! (t + 1) = variable1 s ! (t + 1)"
    using w f F(3) F(10) F(16) [of "t + 1"] fr(1,2) c by simp
  then show ?thesis by blast
qed

text \<open>
  Claim C10. The vertical spacing is interpolated over the axes \<^verbatim>\<open>(z[:-1],y,x)\<close>, whose
  first axis ends at \<open>nz - 2\<close>. A parcel above that level at time index \<open>t\<close>, though
  still inside the levels of the velocity fields, gets the fill value not-a-number as its
  vertical spacing, and the division by it makes its z_grid at \<open>t + 1\<close> not-a-number,
  whatever the velocities were.
\<close>

theorem top_of_domain_lost:
  assumes st: "step cfg ds vres t s = Inr s'" and wf: "wf_state T P s" and i: "i < P"
    and top: "fgt (zpos s ! t ! i) (Fin (real (nz ds) - 2))"
  shows "zpos_vert_res s' ! t ! i = NaN \<and> zpos s' ! (t + 1) ! i = NaN"
proof -
  from step_ex [OF st] obtain w u v wv field var1 s1 where
    w: "field_window ds s t = Inr w"
    and f: "fetch (uinterp ds) (loop_time_index cfg t) w = Inr u"
      "fetch (vinterp ds) (loop_time_index cfg t) w = Inr v"
      "fetch (winterp ds) (loop_time_index cfg t) w = Inr wv"
      "get_variable ds (var_name1 cfg) = Inr field"
      "fetch field (loop_time_index cfg t) w = Inr var1"
      "integrate cfg ds vres w u v wv t s = Inr s1"
    by blast
  note F = step_facts [OF st wf i w f]
  from F(2) have tT: "t < T" by simp
  note R = wf_state_rows [OF wf tT]
  from f(6) obtain vr where
    "sample_vert_res ds vres w (xpos s ! t) (ypos s ! t) (zpos s ! t) = Inr vr"
    by (rule integrate_Inr)
  moreover have "coord w (xpos s ! t) (ypos s ! t) (zpos s ! t) \<noteq> []"
    using R i by (auto simp flip: length_greater_0_conv)
  ultimately have "nz ds - 1 \<noteq> 0"
    by (auto simp: sample_vert_res_def interpn3_def split: if_splits)
  then have "real (wrap_index (nz ds - 1) (- 1)) = real (nz ds) - 2"
    by (simp add: wrap_index_def)
  then have "out_of_bounds (nz ds - 1) (zpos s ! t ! i)"
    using top by (simp add: out_of_bounds_def grid_at_def)
  then have vr: "zpos_vert_res s' ! t ! i = NaN"
    using F(6) by (simp add: interp_point3_def outside_def)
  then have "zpos s' ! (t + 1) ! i = NaN"
    using F(7) F(8) by (simp add: advance_z_NaN)
  with vr show ?thesis by simp
qed

text \<open>
  Claim C8: the time index of the final sample. The loop fetches step \<open>t\<close> at
  \<open>start_time_step + t * incre\<close>; the cell after the loop fetches the variable for the
  last row at \<open>start_time_step - (time_steps - 1)\<close>. With the notebook's own settings
  the last row belongs to index 545 by the loop's mapping and is sampled at index 251.
\<close>

theorem final_slice_time_index:
  "loop_time_index notebook_cfg (time_steps notebook_cfg - 1) = 545 \<and>
   final_time_index notebook_cfg = 251"
  by (simp add: loop_time_index_def final_time_index_def notebook_cfg_def)

lemma tabulate3_dims [simp]:
  "d0 (tabulate3 n0 n1 n2 f) = n0" "d1 (tabulate3 n0 n1 n2 f) = n1"
  "d2 (tabulate3 n0 n1 n2 f) = n2"
  by (simp_all add: tabulate3_def)

lemma const3_dims [simp]:
  "d0 (const3 n0 n1 n2 c) = n0" "d1 (const3 n0 n1 n2 c) = n1" "d2 (const3 n0 n1 n2 c) = n2"
  by (simp_all add: const3_def)

lemma concat_replicate_replicate:
  "concat (replicate n (replicate m c)) = replicate (n * m) c"
  by (induction n) (simp_all add: replicate_add)

lemma elems3_const3: "elems3 (const3 n0 n1 n2 c) = replicate (n0 * (n1 * n2)) c"
  by (simp add: const3_def tabulate3_def map_replicate_const concat_replicate_replicate)

lemma index3_less:
  assumes "k < n0" "j < n1" "i < (n2::nat)"
  shows "(k * n1 + j) * n2 + i < n0 * (n1 * n2)"
proof -
  have "k * n1 + j < n0 * n1"
  proof -
    have "k * n1 + j < k * n1 + n1" using assms by simp
    also have "\<dots> = Suc k * n1" by simp
    also have "\<dots> \<le> n0 * n1" using assms by (intro mult_le_mono1) simp
    finally show ?thesis .
  qed
  then have "Suc (k * n1 + j) \<le> n0 * n1" by simp
  then have "Suc (k * n1 + j) * n2 \<le> n0 * n1 * n2" by (rule mult_le_mono1)
  moreover have "(k * n1 + j) * n2 + i < Suc (k * n1 + j) * n2" using assms by simp
  ultimately show ?thesis by (simp add: mult.assoc)
qed

lemma get3_const3:
  "k < n0 \<Longrightarrow> j < n1 \<Longrightarrow> i < n2 \<Longrightarrow> get3 (const3 n0 n1 n2 c) k j i = c"
  by (simp add: get3_def elems3_const3 index3_less)

lemma tabulate3_cong:
  assumes "\<And>k j i. k < n0 \<Longrightarrow> j < n1 \<Longrightarrow> i < n2 \<Longrightarrow> f k j i = g k j i"
  shows "tabulate3 n0 n1 n2 f = tabulate3 n0 n1 n2 g"
  unfolding tabulate3_def using assms
  by (auto intro!: arg_cong [where f = concat] map_cong)

lemma reflect_index_less: "0 < n \<Longrightarrow> reflect_index n j < n"
proof -
  assume n: "0 < n"
  have "0 \<le> j mod (2 * int n)" "j mod (2 * int n) < 2 * int n" using n by simp_all
  then show ?thesis by (auto simp: reflect_index_def Let_def)
qed

lemma window_mean_const:
  assumes "0 < width" and "0 < n" and "\<And>m. m < n \<Longrightarrow> f m = c"
  shows "window_mean width n f i = c"
proof -
  have "map (\<lambda>m. f (reflect_index n (int i - int (width div 2) + int m))) [0..<width] =
        map (\<lambda>m. c) [0..<width]"
    using assms reflect_index_less by (intro map_cong) auto
  then show ?thesis using assms(1) by (simp add: window_mean_def map_replicate_const sum_list_replicate)
qed

lemma uniform_filter_axis_const3:
  assumes "0 < width"
  shows "uniform_filter_axis0 width (const3 n0 n1 n2 c) = const3 n0 n1 n2 c"
    and "uniform_filter_axis1 width (const3 n0 n1 n2 c) = const3 n0 n1 n2 c"
    and "uniform_filter_axis2 width (const3 n0 n1 n2 c) = const3 n0 n1 n2 c"
proof -
  show "uniform_filter_axis0 width (const3 n0 n1 n2 c) = const3 n0 n1 n2 c"
    unfolding uniform_filter_axis0_def const3_dims
    by (subst (2) const3_def, rule tabulate3_cong, rule window_mean_const)
      (use assms in \<open>simp_all add: get3_const3\<close>)
  show "uniform_filter_axis1 width (const3 n0 n1 n2 c) = const3 n0 n1 n2 c"
    unfolding uniform_filter_axis1_def const3_dims
    by (subst (2) const3_def, rule tabulate3_cong, rule window_mean_const)
      (use assms in \<open>simp_all add: get3_const3\<close>)
  show "uniform_filter_axis2 width (const3 n0 n1 n2 c) = const3 n0 n1 n2 c"
    unfolding uniform_filter_axis2_def const3_dims
    by (subst (2) const3_def, rule tabulate3_cong, rule window_mean_const)
      (use assms in \<open>simp_all add: get3_const3\<close>)
qed

lemma uniform_filter_const3 [simp]:
  "uniform_filter (const3 n0 n1 n2 c) smooth = const3 n0 n1 n2 c"
  by (simp add: uniform_filter_def smooth_def uniform_filter_axis_const3)

lemma slice_bound:
  "k < slice_len n lo hi \<Longrightarrow> slice_start n lo + k < n"
  by (auto simp: slice_len_def slice_start_def slice_norm_def split: if_splits)

lemma slice3_const3:
  "slice3 (const3 n0 n1 n2 c) zlo zhi ylo yhi xlo xhi =
     const3 (slice_len n0 zlo zhi) (slice_len n1 ylo yhi) (slice_len n2 xlo xhi) c"
  unfolding slice3_def const3_dims
  by (subst (2) const3_def, rule tabulate3_cong) (simp add: get3_const3 slice_bound)


lemma tabulate2_dims [simp]:
  "e0 (tabulate2 n0 n1 f) = n0" "e1 (tabulate2 n0 n1 f) = n1"
  by (simp_all add: tabulate2_def)

lemma get2_zero:
  "j < n0 \<Longrightarrow> i < n1 \<Longrightarrow> get2 (tabulate2 n0 n1 (\<lambda>j i. c)) j i = c"
proof -
  assume a: "j < n0" "i < n1"
  have "j * n1 + i < Suc j * n1" using a by simp
  also have "\<dots> \<le> n0 * n1" using a by (intro mult_le_mono1) simp
  finally show ?thesis
    by (simp add: get2_def tabulate2_def map_replicate_const concat_replicate_replicate)
qed

lemma find_index_bounds:
  "2 \<le> n \<Longrightarrow> 0 \<le> find_index n x \<and> find_index n x \<le> int n - 2"
  by (auto simp: find_index_def Let_def)

lemma edge_index_less: "2 \<le> n \<Longrightarrow> edge_index n x b < n"
  using find_index_bounds [of n x] by (auto simp: edge_index_def wrap_index_def)

lemma norm_distance_Fin:
  "2 \<le> n \<Longrightarrow> norm_distance n (Fin a) = Fin (a - real_of_int (find_index n (Fin a)))"
  using find_index_bounds [of n "Fin a"]
  by (auto simp: norm_distance_def Let_def grid_at_def wrap_index_def)

text \<open>Interpolating a constant field gives the constant.\<close>

lemma evaluate_linear3_const3:
  assumes "2 \<le> n0" "2 \<le> n1" "2 \<le> n2"
  shows "evaluate_linear3 (n0, n1, n2) (const3 n0 n1 n2 c) (Fin z, Fin y, Fin x) = Fin c"
  using assms
  by (simp add: evaluate_linear3_def get3_const3 edge_index_less norm_distance_Fin
      edge_weight_def algebra_simps)

lemma evaluate_linear2_const:
  assumes "2 \<le> n0" "2 \<le> n1"
  shows "evaluate_linear2 (n0, n1) (tabulate2 n0 n1 (\<lambda>j i. c)) (Fin y, Fin x) = Fin c"
  using assms
  by (simp add: evaluate_linear2_def get2_zero edge_index_less norm_distance_Fin
      edge_weight_def algebra_simps)

lemma out_of_bounds_Fin:
  "0 < n \<Longrightarrow> out_of_bounds n (Fin a) \<longleftrightarrow> a < 0 \<or> real n - 1 < a"
  by (auto simp: out_of_bounds_def grid_at_def wrap_index_def fgt_def)

lemma interp_point3_const3:
  assumes "2 \<le> n0" "2 \<le> n1" "2 \<le> n2"
  shows "interp_point3 (n0, n1, n2) (const3 n0 n1 n2 c) fill (Fin z, Fin y, Fin x) =
     (if z < 0 \<or> real n0 - 1 < z \<or> y < 0 \<or> real n1 - 1 < y \<or> x < 0 \<or> real n2 - 1 < x
      then fill else Fin c)"
  using assms
  by (simp add: interp_point3_def outside_def out_of_bounds_Fin evaluate_linear3_const3)

lemma interp_point2_const:
  assumes "2 \<le> n0" "2 \<le> n1"
  shows "interp_point2 (n0, n1) (tabulate2 n0 n1 (\<lambda>j i. c)) fill (Fin y, Fin x) =
     (if y < 0 \<or> real n0 - 1 < y \<or> x < 0 \<or> real n1 - 1 < x then fill else Fin c)"
  using assms
  by (simp add: interp_point2_def outside2_def out_of_bounds_Fin evaluate_linear2_const)

text \<open>The level heights: their entries, their spacing and their interpolation.\<close>

lemma levels_dims [simp]: "d0 (levels b) = 3" "d1 (levels b) = 3" "d2 (levels b) = 3"
  by (simp_all add: levels_def)

lemma get3_levels:
  assumes "k < 3" "j < 3" "i < 3"
  shows "get3 (levels b) k j i = b + 500 * real k"
proof -
  from assms(1) have "k = 0 \<or> k = 1 \<or> k = 2" by auto
  then show ?thesis using assms(2,3) by (auto simp: get3_def levels_def nth_append)
qed

lemma vert_resolution_levels:
  assumes "zh ds = Some (levels b)"
  shows "vert_resolution ds = Inr (const3 2 3 3 500)"
proof -
  have "tabulate3 2 3 3 (\<lambda>k j i. get3 (levels b) (k + 1) j i - get3 (levels b) k j i) =
      tabulate3 2 3 3 (\<lambda>k j i. 500)"
    by (rule tabulate3_cong) (simp add: get3_levels)
  then show ?thesis using assms by (simp add: vert_resolution_def const3_def)
qed

lemma real_edge_index:
  "2 \<le> n \<Longrightarrow>
   real (edge_index n x b) = real_of_int (find_index n x) + (if b then 1 else 0)"
  using find_index_bounds [of n x] by (auto simp: edge_index_def wrap_index_def)

lemma evaluate_linear3_levels:
  "evaluate_linear3 (3, 3, 3) (levels b) (Fin z, Fin y, Fin x) = Fin (b + 500 * z)"
  by (simp add: evaluate_linear3_def get3_levels edge_index_less real_edge_index
      norm_distance_Fin edge_weight_def algebra_simps)

lemma interp_point3_levels:
  "interp_point3 (3, 3, 3) (levels b) fill (Fin z, Fin y, Fin x) =
     (if z < 0 \<or> 2 < z \<or> y < 0 \<or> 2 < y \<or> x < 0 \<or> 2 < x then fill else Fin (b + 500 * z))"
  by (simp add: interp_point3_def outside_def out_of_bounds_Fin evaluate_linear3_levels)

text \<open>The spacing array of the run is the one the cell "Model output info" builds.\<close>

lemma ex_vert_resolution: "vert_resolution ex_ds = Inr ex_vres"
proof -
  have "zh ex_ds = Some (levels 0)" by (simp add: ex_ds_def)
  from vert_resolution_levels [OF this] show ?thesis by (simp add: ex_vres_def)
qed

text \<open>The heights of the seeds are the ones the cell of the initial heights computes.\<close>

lemma ex_initial_height: "initial_height ex_ds ex_seed = Inr ex_s0"
  by (simp add: initial_height_def ex_ds_def ex_seed_def ex_s0_def row_def set_row_def
      interpn3_def coords3_def interp_point3_levels zero_row_def)

lemma ex_window0: "field_window ex_ds ex_s0 0 = Inr ex_window"
  by (simp add: ex_window_def field_window_def row_def ex_s0_def ex_ds_def window_min_def window_max_def
      nanmin_def nanmax_def fmin_def fmax_def trunc_def)

lemma interp_point3_NaN_z:
  "interp_point3 (n0, n1, n2) a fill (NaN, y, x) =
     (if out_of_bounds n1 y \<or> out_of_bounds n2 x then fill else NaN)"
  by (simp add: interp_point3_def outside_def evaluate_linear3_NaN)

lemma ex_wf0: "wf_state 3 3 ex_s0"
  by (simp add: wf_state_def ex_s0_def zero_row_def)

lemma ex_fields:
  "uinterp ex_ds = replicate 6 (const3 3 3 3 (1 / 2))"
  "vinterp ex_ds = replicate 6 (const3 3 3 3 0)"
  "winterp ex_ds = replicate 6 (const3 3 3 3 (- (1 / 10)))"
  "get_variable ex_ds (var_name1 ex_cfg) = Inr (replicate 6 (const3 3 3 3 300))"
  by (simp_all add: ex_ds_def ex_cfg_def get_variable_def)

lemma ex_fetch0: "fetch (replicate 6 (const3 3 3 3 c)) 0 ex_window = Inr (const3 3 3 3 c)"
  by (simp add: ex_window_def fetch_def py_index_def slice3_const3 slice_len_def slice_norm_def)

lemma ex_proj:
  "nx ex_ds = 3" "ny ex_ds = 3" "nz ex_ds = 3"
  "surface_height ex_ds = tabulate2 3 3 (\<lambda>j i. 0)"
  "horizontal_step ex_cfg ex_ds (Fin a) = Fin a" "horizontal_step ex_cfg ex_ds NaN = NaN"
  "vertical_step ex_cfg ex_ds (Fin a) = Fin (a * 1000)" "vertical_step ex_cfg ex_ds NaN = NaN"
  "staggered ex_cfg = False" "time_steps ex_cfg = 3"
  "xmin ex_window = 0" "ymin ex_window = 0" "zmin ex_window = 0"
  by (simp_all add: ex_ds_def ex_cfg_def ex_window_def horizontal_step_def vertical_step_def
      time_step_length_def surface_height_def)

lemma ex_samples0:
  "sample_u ex_cfg ex_window (const3 3 3 3 (1 / 2))
     [Fin 1, Fin (5 / 2), Fin 1] [Fin 1, Fin 1, Fin 1] [Fin 0, Fin 0, Fin (3 / 2)]
     = Inr [Fin (1 / 2), NaN, Fin (1 / 2)]"
  "sample_v ex_cfg ex_window (const3 3 3 3 0)
     [Fin 1, Fin (5 / 2), Fin 1] [Fin 1, Fin 1, Fin 1] [Fin 0, Fin 0, Fin (3 / 2)]
     = Inr [Fin 0, NaN, Fin 0]"
  "sample_w ex_cfg ex_window (const3 3 3 3 (- (1 / 10)))
     [Fin 1, Fin (5 / 2), Fin 1] [Fin 1, Fin 1, Fin 1] [Fin 0, Fin 0, Fin (3 / 2)]
     = Inr [Fin (- (1 / 10)), Fin 0, Fin (- (1 / 10))]"
  "sample_var1 ex_window (const3 3 3 3 300)
     [Fin 1, Fin (5 / 2), Fin 1] [Fin 1, Fin 1, Fin 1] [Fin 0, Fin 0, Fin (3 / 2)]
     = Inr [Fin 300, NaN, Fin 300]"
  by (simp_all add: sample_u_def sample_v_def sample_w_def sample_var1_def interpn3_def
      fast_axes_def ex_window_def ex_cfg_def coord_u_def coord_v_def coord_w_def
      coord_fast_def coords3_def loc_def interp_point3_const3)

lemma ex_vert_res0:
  "sample_vert_res ex_ds ex_vres ex_window
     [Fin 1, Fin (5 / 2), Fin 1] [Fin 1, Fin 1, Fin 1] [Fin 0, Fin 0, Fin (3 / 2)]
     = Inr [Fin 500, NaN, NaN]"
  by (simp add: sample_vert_res_def interpn3_def ex_proj ex_vres_def coord_def coords3_def
      loc_def interp_point3_const3)

lemma ex_zs:
  "sample_zs ex_ds [Fin 1, Fin (5 / 2), Fin 1] [Fin 1, Fin 1, Fin 1] = Inr [Fin 0, NaN, Fin 0]"
  "sample_zs ex_ds [Fin (3 / 2), NaN, Fin (3 / 2)] [Fin 1, NaN, Fin 1] = Inr [Fin 0, NaN, Fin 0]"
  "sample_zs ex_ds [Fin 2, NaN, NaN] [Fin 1, NaN, NaN] = Inr [Fin 0, NaN, NaN]"
  by (simp_all add: sample_zs_def interpn2_def ex_proj
      interp_point2_const interp_point2_NaN)

lemma ex_integrate0:
  "integrate ex_cfg ex_ds ex_vres ex_window
     (const3 3 3 3 (1 / 2)) (const3 3 3 3 0) (const3 3 3 3 (- (1 / 10))) 0 ex_s0 = Inr ex_i1"
  by (simp add: integrate_def row_def set_row_def ex_s0_def ex_i1_def zero_row_def
      ex_samples0 ex_vert_res0 ex_zs ex_proj map6_def advance_z_def)

lemma ex_step0: "step ex_cfg ex_ds ex_vres 0 ex_s0 = Inr ex_s1"
proof -
  have f: "loop_time_index ex_cfg 0 = 0" "restore_t ex_cfg 0 = Inr 0"
    by (simp_all add: ex_cfg_def loop_time_index_def restore_t_def trunc_def)
  have v: "record_variable ex_window (const3 3 3 3 300) 0 ex_s0 (clip_ground ex_i1) = Inr ex_s1"
    by (simp add: record_variable_def ex_s0_def ex_samples0 set_row_def
        clip_ground_def clip_array_def clip_min0_def ex_i1_def ex_s1_def zero_row_def)
  show ?thesis
    by (simp add: step_def ex_window0 f ex_fields ex_fetch0 ex_integrate0 v)
qed


lemma ceiling_neg_half: "\<lceil>- (1 / 2) :: real\<rceil> = 0"
  by (rule ceiling_unique) simp_all

lemma ex_window1: "field_window ex_ds ex_s1 (Suc 0) = Inr ex_window1"
  by (simp add: ceiling_neg_half ex_window1_def field_window_def row_def ex_s1_def ex_ds_def window_min_def
      window_max_def nanmin_def nanmax_def fmin_def fmax_def trunc_def)

lemma ex_fetch1: "fetch (replicate 6 (const3 3 3 3 c)) 5 ex_window1 = Inr (const3 2 3 3 c)"
  by (simp add: ex_window1_def fetch_def py_index_def slice3_const3 slice_len_def slice_norm_def)

lemma ex_proj1: "xmin ex_window1 = 0" "ymin ex_window1 = 0" "zmin ex_window1 = 0"
  by (simp_all add: ex_window1_def)

lemma ex_samples1:
  "sample_u ex_cfg ex_window1 (const3 2 3 3 (1 / 2))
     [Fin (3 / 2), NaN, Fin (3 / 2)] [Fin 1, NaN, Fin 1] [Fin 0, NaN, NaN]
     = Inr [Fin (1 / 2), NaN, NaN]"
  "sample_v ex_cfg ex_window1 (const3 2 3 3 0)
     [Fin (3 / 2), NaN, Fin (3 / 2)] [Fin 1, NaN, Fin 1] [Fin 0, NaN, NaN]
     = Inr [Fin 0, NaN, NaN]"
  "sample_w ex_cfg ex_window1 (const3 2 3 3 (- (1 / 10)))
     [Fin (3 / 2), NaN, Fin (3 / 2)] [Fin 1, NaN, Fin 1] [Fin 0, NaN, NaN]
     = Inr [Fin (- (1 / 10)), NaN, NaN]"
  "sample_var1 ex_window1 (const3 2 3 3 300)
     [Fin (3 / 2), NaN, Fin (3 / 2)] [Fin 1, NaN, Fin 1] [Fin 0, NaN, NaN]
     = Inr [Fin 300, NaN, NaN]"
  by (simp_all add: sample_u_def sample_v_def sample_w_def sample_var1_def interpn3_def
      fast_axes_def ex_window1_def ex_cfg_def coord_u_def coord_v_def coord_w_def
      coord_fast_def coords3_def loc_def interp_point3_const3 interp_point3_NaN_z
      out_of_bounds_Fin)

lemma ex_vert_res1:
  "sample_vert_res ex_ds ex_vres ex_window1
     [Fin (3 / 2), NaN, Fin (3 / 2)] [Fin 1, NaN, Fin 1] [Fin 0, NaN, NaN]
     = Inr [Fin 500, NaN, NaN]"
  by (simp add: sample_vert_res_def interpn3_def ex_proj ex_proj1 ex_vres_def coord_def
      coords3_def loc_def interp_point3_const3 interp_point3_NaN_z)

lemma ex_integrate1:
  "integrate ex_cfg ex_ds ex_vres ex_window1
     (const3 2 3 3 (1 / 2)) (const3 2 3 3 0) (const3 2 3 3 (- (1 / 10))) (Suc 0) ex_s1 =
   Inr (ex_s2\<lparr>zpos := [[Fin 0, Fin 0, Fin (3 / 2)], [Fin 0, NaN, NaN], [Fin (- (1 / 5)), NaN, NaN]],
          zpos_heightASL := [[Fin 0, Fin 0, Fin 750], [Fin 0, Fin 0, Fin 650], [Fin (- 100), NaN, NaN]],
          variable1 := variable1 ex_s1\<rparr>)"
  by (simp add: integrate_def row_def set_row_def ex_s1_def ex_s2_def zero_row_def
      ex_samples1 ex_vert_res1 ex_zs ex_proj map6_def advance_z_def)

lemma ex_step1: "step ex_cfg ex_ds ex_vres (Suc 0) ex_s1 = Inr ex_s2"
proof -
  have f: "loop_time_index ex_cfg (Suc 0) = 5" "restore_t ex_cfg (Suc 0) = Inr 1"
    by (simp_all add: ex_cfg_def loop_time_index_def restore_t_def trunc_def)
  have v: "record_variable ex_window1 (const3 2 3 3 300) (Suc 0) ex_s1
      (clip_ground (ex_s2\<lparr>zpos := [[Fin 0, Fin 0, Fin (3 / 2)], [Fin 0, NaN, NaN], [Fin (- (1 / 5)), NaN, NaN]],
          zpos_heightASL := [[Fin 0, Fin 0, Fin 750], [Fin 0, Fin 0, Fin 650], [Fin (- 100), NaN, NaN]],
          variable1 := variable1 ex_s1\<rparr>)) = Inr ex_s2"
    by (simp add: record_variable_def ex_s1_def ex_samples1 set_row_def
        clip_ground_def clip_array_def clip_min0_def ex_s2_def zero_row_def)
  show ?thesis
    by (simp add: step_def ex_window1 f ex_fields ex_fetch1 ex_integrate1 v)
qed

lemma ex_loop: "calculate_trajectories ex_cfg ex_ds ex_vres ex_s0 = Inr ex_s2"
  by (simp add: calculate_trajectories_def ex_proj numeral_2_eq_2 ex_step0 ex_step1)

lemma ex_final: "final_variable ex_cfg ex_ds ex_s2 = Inr ex_s3"
proof -
  have "final_time_index ex_cfg = - 2" by (simp add: final_time_index_def ex_cfg_def)
  moreover have "py_index (replicate 6 (const3 3 3 3 300)) (- 2) = Inr (const3 3 3 3 300)"
    by (simp add: py_index_def)
  moreover have "interpn3 (3, 3, 3) (const3 3 3 3 300)
      [(Fin (- (1 / 2)), Fin (1 / 2), Fin (3 / 2)), (NaN, NaN, NaN), (NaN, NaN, NaN)] NaN =
      Inr [NaN, NaN, NaN]"
    by (simp add: interpn3_def interp_point3_const3 interp_point3_all_NaN)
  ultimately show ?thesis
    by (simp add: final_variable_def ex_fields ex_proj py_index_def ex_s2_def ex_s3_def
        coords3_def wrap_index_def zero_row_def)
qed

lemma ex_run: "run ex_cfg ex_ds ex_vres ex_s0 = Inr ex_s3"
  by (simp add: run_def ex_loop ex_final)

lemma ex_outside: "outside_window ex_cfg ex_ds ex_s0 0 (Suc 0)"
  unfolding outside_window_def ex_window0
  by (simp add: ex_s0_def coord_u_def coord_v_def coord_w_def
      coord_fast_def coords3_def loc_def ex_proj fast_axes_def ex_window_def outside_def
      out_of_bounds_Fin)

text \<open>Step 0 over the raised ground.\<close>

lemma ex_terrain_proj:
  "nx ex_terrain = 3" "ny ex_terrain = 3" "nz ex_terrain = 3"
  "surface_height ex_terrain = tabulate2 3 3 (\<lambda>j i. 200)"
  "horizontal_step ex_cfg ex_terrain (Fin a) = Fin a"
  "vertical_step ex_cfg ex_terrain (Fin a) = Fin (a * 1000)"
  "uinterp ex_terrain = replicate 6 (const3 3 3 3 (1 / 2))"
  "vinterp ex_terrain = replicate 6 (const3 3 3 3 0)"
  "winterp ex_terrain = replicate 6 (const3 3 3 3 (- (1 / 10)))"
  "get_variable ex_terrain (var_name1 ex_cfg) = Inr (replicate 6 (const3 3 3 3 300))"
  by (simp_all add: ex_terrain_def ex_ds_def ex_cfg_def horizontal_step_def vertical_step_def
      time_step_length_def surface_height_def get_variable_def)

lemma ex_terrain_vert_resolution: "vert_resolution ex_terrain = Inr ex_vres"
proof -
  have "zh ex_terrain = Some (levels 250)" by (simp add: ex_terrain_def)
  from vert_resolution_levels [OF this] show ?thesis by (simp add: ex_vres_def)
qed

lemma ex_terrain_initial_height: "initial_height ex_terrain ex_tseed = Inr ex_t0"
  by (simp add: initial_height_def ex_terrain_def ex_ds_def ex_tseed_def ex_t0_def row_def
      set_row_def interpn3_def coords3_def interp_point3_levels zero_row_def)

lemma ex_terrain_window: "field_window ex_terrain ex_t0 0 = Inr ex_window1"
  by (simp add: ex_window1_def field_window_def row_def ex_t0_def ex_tseed_def ex_terrain_proj
      window_min_def window_max_def nanmin_def nanmax_def fmin_def fmax_def trunc_def
      zero_row_def)

lemma ex_terrain_fetch: "fetch (replicate 6 (const3 3 3 3 c)) 0 ex_window1 = Inr (const3 2 3 3 c)"
  by (simp add: ex_window1_def fetch_def py_index_def slice3_const3 slice_len_def slice_norm_def)

lemma ex_terrain_samples:
  "sample_u ex_cfg ex_window1 (const3 2 3 3 (1 / 2))
     [Fin 1, Fin 1, Fin 1] [Fin 0, Fin 1, Fin 2] [Fin 0, Fin 0, Fin 0]
     = Inr [Fin (1 / 2), Fin (1 / 2), Fin (1 / 2)]"
  "sample_v ex_cfg ex_window1 (const3 2 3 3 0)
     [Fin 1, Fin 1, Fin 1] [Fin 0, Fin 1, Fin 2] [Fin 0, Fin 0, Fin 0]
     = Inr [Fin 0, Fin 0, Fin 0]"
  "sample_w ex_cfg ex_window1 (const3 2 3 3 (- (1 / 10)))
     [Fin 1, Fin 1, Fin 1] [Fin 0, Fin 1, Fin 2] [Fin 0, Fin 0, Fin 0]
     = Inr [Fin (- (1 / 10)), Fin (- (1 / 10)), Fin (- (1 / 10))]"
  "sample_var1 ex_window1 (const3 2 3 3 300)
     [Fin 1, Fin 1, Fin 1] [Fin 0, Fin 1, Fin 2] [Fin 0, Fin 0, Fin 0]
     = Inr [Fin 300, Fin 300, Fin 300]"
  by (simp_all add: sample_u_def sample_v_def sample_w_def sample_var1_def interpn3_def
      fast_axes_def ex_window1_def ex_cfg_def coord_u_def coord_v_def coord_w_def
      coord_fast_def coords3_def loc_def interp_point3_const3)

lemma ex_terrain_vert_res:
  "sample_vert_res ex_terrain ex_vres ex_window1
     [Fin 1, Fin 1, Fin 1] [Fin 0, Fin 1, Fin 2] [Fin 0, Fin 0, Fin 0]
     = Inr [Fin 500, Fin 500, Fin 500]"
  by (simp add: sample_vert_res_def interpn3_def ex_terrain_proj ex_proj1 ex_vres_def coord_def
      coords3_def loc_def interp_point3_const3)

lemma ex_terrain_zs:
  "sample_zs ex_terrain [Fin 1, Fin 1, Fin 1] [Fin 0, Fin 1, Fin 2]
     = Inr [Fin 200, Fin 200, Fin 200]"
  "sample_zs ex_terrain [Fin (3 / 2), Fin (3 / 2), Fin (3 / 2)] [Fin 0, Fin 1, Fin 2]
     = Inr [Fin 200, Fin 200, Fin 200]"
  by (simp_all add: sample_zs_def interpn2_def ex_terrain_proj interp_point2_const)

lemma ex_terrain_integrate:
  "integrate ex_cfg ex_terrain ex_vres ex_window1
     (const3 2 3 3 (1 / 2)) (const3 2 3 3 0) (const3 2 3 3 (- (1 / 10))) 0 ex_t0 = Inr ex_ti1"
  by (simp add: integrate_def row_def set_row_def ex_t0_def ex_tseed_def ex_ti1_def zero_row_def
      ex_terrain_samples ex_terrain_vert_res ex_terrain_zs ex_terrain_proj map6_def
      advance_z_def)

lemma ex_terrain_step: "step ex_cfg ex_terrain ex_vres 0 ex_t0 = Inr ex_t1"
proof -
  have f: "loop_time_index ex_cfg 0 = 0" "restore_t ex_cfg 0 = Inr 0"
    by (simp_all add: ex_cfg_def loop_time_index_def restore_t_def trunc_def)
  have v: "record_variable ex_window1 (const3 2 3 3 300) 0 ex_t0 (clip_ground ex_ti1) = Inr ex_t1"
    by (simp add: record_variable_def ex_t0_def ex_tseed_def ex_terrain_samples set_row_def
        clip_ground_def clip_array_def clip_min0_def ex_ti1_def ex_t1_def zero_row_def)
  show ?thesis
    by (simp add: step_def ex_terrain_window f ex_terrain_proj ex_terrain_fetch
        ex_terrain_integrate v)
qed

lemma reflect_index_single [simp]: "reflect_index (Suc 0) j = 0"
proof -
  have "j mod 2 = 0 \<or> j mod 2 = 1" by presburger
  then show ?thesis by (auto simp: reflect_index_def Let_def)
qed

lemma window_mean_single: "0 < width \<Longrightarrow> window_mean width (Suc 0) f i = f 0"
  by (simp add: window_mean_def map_replicate_const sum_list_replicate)

lemma window_mean_map:
  "window_mean width n f i =
     sum_list (map f (map (\<lambda>m. reflect_index n (int i - int (width div 2) + int m)) [0..<width]))
       / real width"
  by (simp add: window_mean_def comp_def)

lemma reflect_20_2:
  "map (\<lambda>m. reflect_index 2 (int 0 - int (20 div 2) + int m)) [0..<20] =
     [1, 0, 0, 1, 1, 0, 0, 1, 1, 0, 0, 1, 1, 0, 0, 1, 1, 0, 0, 1]"
  "map (\<lambda>m. reflect_index 2 (int 1 - int (20 div 2) + int m)) [0..<20] =
     [0, 0, 1, 1, 0, 0, 1, 1, 0, 0, 1, 1, 0, 0, 1, 1, 0, 0, 1, 1]"
  by code_simp+

lemma reflect_20_3:
  "map (\<lambda>m. reflect_index 3 (int 0 - int (20 div 2) + int m)) [0..<20] =
     [2, 2, 1, 0, 0, 1, 2, 2, 1, 0, 0, 1, 2, 2, 1, 0, 0, 1, 2, 2]"
  "map (\<lambda>m. reflect_index 3 (int 1 - int (20 div 2) + int m)) [0..<20] =
     [2, 1, 0, 0, 1, 2, 2, 1, 0, 0, 1, 2, 2, 1, 0, 0, 1, 2, 2, 1]"
  "map (\<lambda>m. reflect_index 3 (int 2 - int (20 div 2) + int m)) [0..<20] =
     [1, 0, 0, 1, 2, 2, 1, 0, 0, 1, 2, 2, 1, 0, 0, 1, 2, 2, 1, 0]"
  by code_simp+

lemma window_mean_20_2:
  "window_mean 20 2 g 0 = (g 0 + g 1) / 2"
  "window_mean 20 2 g 1 = (g 0 + g 1) / 2"
  unfolding window_mean_map reflect_20_2 by simp_all

lemma window_mean_20_3:
  "window_mean 20 3 g 0 = (6 * g 0 + 6 * g 1 + 8 * g 2) / 20"
  "window_mean 20 3 g 1 = (6 * g 0 + 7 * g 1 + 7 * g 2) / 20"
  "window_mean 20 3 g 2 = (7 * g 0 + 7 * g 1 + 6 * g 2) / 20"
  unfolding window_mean_map reflect_20_3 by simp_all

lemma tabulate3_row2:
  "tabulate3 1 1 2 f = \<lparr>d0 = 1, d1 = 1, d2 = 2, elems3 = [f 0 0 0, f 0 0 1]\<rparr>"
  by (simp add: tabulate3_def upt_rec)

lemma tabulate3_row3:
  "tabulate3 1 1 3 f = \<lparr>d0 = 1, d1 = 1, d2 = 3, elems3 = [f 0 0 0, f 0 0 1, f 0 0 2]\<rparr>"
  by (simp add: tabulate3_def upt_rec numeral_2_eq_2)

lemma get3_row: "i < n \<Longrightarrow> get3 (tabulate3 1 1 n f) 0 0 i = f 0 0 i"
  by (simp add: get3_def tabulate3_def)

lemma window_mean_cong:
  assumes "0 < n" and "\<And>m. m < n \<Longrightarrow> f m = g m"
  shows "window_mean width n f i = window_mean width n g i"
proof -
  have "map (\<lambda>m. f (reflect_index n (int i - int (width div 2) + int m))) [0..<width] =
        map (\<lambda>m. g (reflect_index n (int i - int (width div 2) + int m))) [0..<width]"
    using assms reflect_index_less by (intro map_cong) auto
  then show ?thesis by (simp only: window_mean_def)
qed

text \<open>Smoothing a single row of cells: only the pass along the row changes it.\<close>

lemma uniform_filter_row:
  "uniform_filter \<lparr>d0 = 1, d1 = 1, d2 = n, elems3 = xs\<rparr> smooth =
     tabulate3 1 1 n (\<lambda>k j i. window_mean 20 n (\<lambda>i'. xs ! i') i)"
proof -
  let ?a = "\<lparr>d0 = 1, d1 = 1, d2 = n, elems3 = xs\<rparr>"
  have a0: "uniform_filter_axis0 20 ?a = tabulate3 1 1 n (\<lambda>k j i. xs ! i)"
    unfolding uniform_filter_axis0_def
    by (simp add: window_mean_single get3_def, rule tabulate3_cong) simp
  have a1: "uniform_filter_axis1 20 (tabulate3 1 1 n (\<lambda>k j i. xs ! i)) =
      tabulate3 1 1 n (\<lambda>k j i. xs ! i)"
    unfolding uniform_filter_axis1_def
    by (simp add: window_mean_single, rule tabulate3_cong) (simp add: get3_row [unfolded One_nat_def])
  have a2: "uniform_filter_axis2 20 (tabulate3 1 1 n (\<lambda>k j i. xs ! i)) =
      tabulate3 1 1 n (\<lambda>k j i. window_mean 20 n (\<lambda>i'. xs ! i') i)"
    unfolding uniform_filter_axis2_def tabulate3_dims
  proof (rule tabulate3_cong)
    fix k j i :: nat assume "k < 1" "j < 1" "i < n"
    then show "window_mean 20 n (\<lambda>i'. get3 (tabulate3 1 1 n (\<lambda>k j i. xs ! i)) k j i') i =
        window_mean 20 n (\<lambda>i'. xs ! i') i"
      by (intro window_mean_cong) (auto simp: get3_row [unfolded One_nat_def])
  qed
  have "(1::nat) < 20" by simp
  then show ?thesis unfolding uniform_filter_def smooth_def by (simp only: if_True a0 a1 a2)
qed

lemma two_cells_smooth:
  "uniform_filter two_cells smooth = \<lparr>d0 = 1, d1 = 1, d2 = 2, elems3 = [3 / 2, 3 / 2]\<rparr>"
  unfolding two_cells_def uniform_filter_row tabulate3_row2 window_mean_20_2 by simp

lemma two_cells_smooth_twice:
  "uniform_filter (uniform_filter two_cells smooth) smooth =
     \<lparr>d0 = 1, d1 = 1, d2 = 2, elems3 = [3 / 2, 3 / 2]\<rparr>"
  unfolding two_cells_smooth uniform_filter_row tabulate3_row2 window_mean_20_2 by simp

lemma three_cells_smooth:
  "uniform_filter three_cells smooth =
     \<lparr>d0 = 1, d1 = 1, d2 = 3, elems3 = [3 / 10, 3 / 10, 7 / 20]\<rparr>"
  unfolding three_cells_def uniform_filter_row tabulate3_row3 window_mean_20_3 by simp

lemma three_cells_smooth_twice:
  "uniform_filter (uniform_filter three_cells smooth) smooth =
     \<lparr>d0 = 1, d1 = 1, d2 = 3, elems3 = [8 / 25, 127 / 400, 63 / 200]\<rparr>"
  unfolding three_cells_smooth uniform_filter_row tabulate3_row3 window_mean_20_3 by simp

lemma three_cells_not_idempotent:
  "uniform_filter (uniform_filter three_cells smooth) smooth \<noteq> uniform_filter three_cells smooth"
  by (subst three_cells_smooth_twice, subst three_cells_smooth) simp

text \<open>
  Claim C9, as the code has it. There is a field that the filter changes again when it
  is applied a second time: a row of three cells holding 1, 0, 0 is smoothed to
  0.3, 0.3, 0.35 and then to 0.32, 0.3175, 0.315. Not every non-constant field is such
  a witness.
\<close>

theorem smoothing_not_idempotent:
  "\<exists>a. uniform_filter (uniform_filter a smooth) smooth \<noteq> uniform_filter a smooth"
  using three_cells_not_idempotent by blast

text \<open>
  A row of two cells holding 1 and 2 is not constant, yet with the reflecting boundary
  every window of width 20 holds each value ten times: one pass gives 1.5 in both cells, and
  a second pass changes nothing.
\<close>

theorem smoothing_two_cells_counterexample:
  "get3 two_cells 0 0 0 \<noteq> get3 two_cells 0 0 1 \<and>
   uniform_filter (uniform_filter two_cells smooth) smooth = uniform_filter two_cells smooth"
  by (subst two_cells_smooth_twice, subst two_cells_smooth) (simp add: two_cells_def get3_def)

lemma ex_rows [simp]:
  "xpos ex_s0 ! 0 = [Fin 1, Fin (5 / 2), Fin 1]" "ypos ex_s0 ! 0 = [Fin 1, Fin 1, Fin 1]"
  "zpos ex_s0 ! 0 = [Fin 0, Fin 0, Fin (3 / 2)]"
  "zpos_heightASL ex_s0 ! 0 = [Fin 0, Fin 0, Fin 750]"
  by (simp_all add: ex_s0_def)

lemma ex_before_clip:
  assumes "field_window ex_ds ex_s0 0 = Inr w"
    and "fetch (uinterp ex_ds) (loop_time_index ex_cfg 0) w = Inr u"
    and "fetch (vinterp ex_ds) (loop_time_index ex_cfg 0) w = Inr v"
    and "fetch (winterp ex_ds) (loop_time_index ex_cfg 0) w = Inr wv"
    and "integrate ex_cfg ex_ds ex_vres w u v wv 0 ex_s0 = Inr s1"
  shows "w = ex_window" and "wv = const3 3 3 3 (- (1 / 10))" and "s1 = ex_i1"
proof -
  have t: "loop_time_index ex_cfg 0 = 0" by (simp add: loop_time_index_def ex_cfg_def)
  from assms(1) show w: "w = ex_window" by (simp add: ex_window0)
  from assms(2-4) have f: "u = const3 3 3 3 (1 / 2)" "v = const3 3 3 3 0"
    "wv = const3 3 3 3 (- (1 / 10))"
    by (simp_all add: w t ex_fields ex_fetch0)
  then show "wv = const3 3 3 3 (- (1 / 10))" by simp
  from assms(5) show "s1 = ex_i1" by (simp add: w f ex_integrate0)
qed

text \<open>
  In the small run the first parcel sits on the ground in sinking air: the integration
  of step 0 gives it the level -0.2 and the height -100 m, and both are recorded as 0.
  The second parcel is lost, and its level stays not-a-number. The height 650 m of the
  third is recorded as it is.
\<close>

theorem ground_clip_invariant_witness:
  "zpos ex_i1 ! 1 ! 0 = Fin (- (1 / 5)) \<and> zpos ex_s1 ! 1 ! 0 = Fin 0 \<and>
   zpos_heightASL ex_i1 ! 1 ! 0 = Fin (- 100) \<and> zpos_heightASL ex_s1 ! 1 ! 0 = Fin 0 \<and>
   zpos ex_i1 ! 1 ! 1 = NaN \<and> zpos ex_s1 ! 1 ! 1 = NaN \<and>
   zpos_heightASL ex_i1 ! 1 ! 2 = Fin 650 \<and> zpos_heightASL ex_s1 ! 1 ! 2 = Fin 650"
proof -
  have r: "zpos ex_s1 ! 1 ! i = (if flt (zpos ex_i1 ! 1 ! i) (Fin 0) then Fin 0 else zpos ex_i1 ! 1 ! i) \<and>
      zpos_heightASL ex_s1 ! 1 ! i =
        (if flt (zpos_heightASL ex_i1 ! 1 ! i) (Fin 0) then Fin 0 else zpos_heightASL ex_i1 ! 1 ! i)"
    if "i < 3" for i
  proof -
    have k: "(1::nat) < 3" by simp
    from ground_clip_invariant [OF ex_step0 ex_wf0 k that] obtain w u v wv s1 where
      a: "field_window ex_ds ex_s0 0 = Inr w"
        "fetch (uinterp ex_ds) (loop_time_index ex_cfg 0) w = Inr u"
        "fetch (vinterp ex_ds) (loop_time_index ex_cfg 0) w = Inr v"
        "fetch (winterp ex_ds) (loop_time_index ex_cfg 0) w = Inr wv"
        "integrate ex_cfg ex_ds ex_vres w u v wv 0 ex_s0 = Inr s1"
      and b: "zpos ex_s1 ! 1 ! i = (if flt (zpos s1 ! 1 ! i) (Fin 0) then Fin 0 else zpos s1 ! 1 ! i)"
        "zpos_heightASL ex_s1 ! 1 ! i =
          (if flt (zpos_heightASL s1 ! 1 ! i) (Fin 0) then Fin 0 else zpos_heightASL s1 ! 1 ! i)"
      by blast
    from ex_before_clip(3) [OF a] b show ?thesis by simp
  qed
  have r0: "zpos ex_s1 ! 1 ! 0 = Fin 0 \<and> zpos_heightASL ex_s1 ! 1 ! 0 = Fin 0"
    using r [of 0] by (simp add: ex_i1_def)
  have r1: "zpos ex_s1 ! 1 ! 1 = NaN" using r [of 1] by (simp add: ex_i1_def)
  have r2: "zpos_heightASL ex_s1 ! 1 ! 2 = Fin 650" using r [of 2] by (simp add: ex_i1_def)
  from r0 r1 r2 show ?thesis by (simp add: ex_i1_def)
qed

text \<open>
  In the small run the level that the integration of step 0 gives the first parcel is
  \<open>0 + ((-100 - 0) - (0 - 0)) / 500 = -0.2\<close>; the level recorded is 0.
\<close>

theorem coordinate_transform_step_witness:
  "zpos_heightASL ex_i1 ! 1 ! 0 = Fin (- 100) \<and>
   zpos ex_i1 ! 1 ! 0 =
     fadd (Fin 0)
       (fdiv (fsub (fsub (zpos_heightASL ex_i1 ! 1 ! 0) (Fin 0))
                (fsub (interp_point2 (3, 3) (surface_height ex_ds) NaN (Fin 1, Fin (3 / 2)))
                      (interp_point2 (3, 3) (surface_height ex_ds) NaN (Fin 1, Fin 1))))
             (interp_point3 (2, 3, 3) ex_vres NaN (Fin 0, Fin 1, Fin 1))) \<and>
   zpos ex_s1 ! 1 ! 0 = Fin 0 \<and> zpos_heightASL ex_s1 ! 1 ! 0 = Fin 0"
proof -
  have i: "(0::nat) < 3" by simp
  from coordinate_transform_step [OF ex_step0 ex_wf0 i] obtain w u v wv s1 where
    a: "field_window ex_ds ex_s0 0 = Inr w"
      "fetch (uinterp ex_ds) (loop_time_index ex_cfg 0) w = Inr u"
      "fetch (vinterp ex_ds) (loop_time_index ex_cfg 0) w = Inr v"
      "fetch (winterp ex_ds) (loop_time_index ex_cfg 0) w = Inr wv"
      "integrate ex_cfg ex_ds ex_vres w u v wv 0 ex_s0 = Inr s1"
    and h: "zpos_heightASL s1 ! (0 + 1) ! 0 =
       fadd (zpos_heightASL ex_s0 ! 0 ! 0) (vertical_step ex_cfg ex_ds
         (interp_point3 (fast_axes w) (uniform_filter wv smooth) (Fin 0)
            (coord_w ex_cfg w (xpos ex_s0 ! 0) (ypos ex_s0 ! 0) (zpos ex_s0 ! 0) ! 0)))"
    and z: "zpos s1 ! (0 + 1) ! 0 =
       fadd (zpos ex_s0 ! 0 ! 0)
         (fdiv (fsub (fsub (zpos_heightASL s1 ! (0 + 1) ! 0) (zpos_heightASL ex_s0 ! 0 ! 0))
                  (fsub (interp_point2 (ny ex_ds, nx ex_ds) (surface_height ex_ds) NaN
                           (ypos ex_s1 ! (0 + 1) ! 0, xpos ex_s1 ! (0 + 1) ! 0))
                        (interp_point2 (ny ex_ds, nx ex_ds) (surface_height ex_ds) NaN
                           (ypos ex_s0 ! 0 ! 0, xpos ex_s0 ! 0 ! 0))))
               (interp_point3 (nz ex_ds - 1, ny ex_ds, nx ex_ds) ex_vres NaN
                  (zpos ex_s0 ! 0 ! 0, ypos ex_s0 ! 0 ! 0, xpos ex_s0 ! 0 ! 0)))"
    and c: "zpos ex_s1 ! (0 + 1) ! 0 =
       (if flt (zpos s1 ! (0 + 1) ! 0) (Fin 0) then Fin 0 else zpos s1 ! (0 + 1) ! 0)"
      "zpos_heightASL ex_s1 ! (0 + 1) ! 0 =
       (if flt (zpos_heightASL s1 ! (0 + 1) ! 0) (Fin 0) then Fin 0
        else zpos_heightASL s1 ! (0 + 1) ! 0)"
    by blast
  note e = ex_before_clip [OF a]
  have x: "ypos ex_s1 ! Suc 0 ! 0 = Fin 1" "xpos ex_s1 ! Suc 0 ! 0 = Fin (3 / 2)"
    by (simp_all add: ex_s1_def)
  have s: "coord_w ex_cfg ex_window [Fin 1, Fin (5 / 2), Fin 1] [Fin 1, Fin 1, Fin 1]
      [Fin 0, Fin 0, Fin (3 / 2)] ! 0 = (Fin 0, Fin 1, Fin 1)"
    by (simp add: coord_w_def ex_proj coords3_def loc_def)
  have fa: "fast_axes ex_window = (3, 3, 3)" by (simp add: fast_axes_def ex_window_def)
  have "zpos_heightASL ex_i1 ! 1 ! 0 = Fin (- 100)"
    using h by (simp add: e s fa ex_proj interp_point3_const3)
  moreover have "zpos ex_i1 ! 1 ! 0 =
     fadd (Fin 0)
       (fdiv (fsub (fsub (zpos_heightASL ex_i1 ! 1 ! 0) (Fin 0))
                (fsub (interp_point2 (3, 3) (surface_height ex_ds) NaN (Fin 1, Fin (3 / 2)))
                      (interp_point2 (3, 3) (surface_height ex_ds) NaN (Fin 1, Fin 1))))
             (interp_point3 (2, 3, 3) ex_vres NaN (Fin 0, Fin 1, Fin 1)))"
    using z by (simp add: e x ex_proj)
  moreover have "zpos ex_s1 ! 1 ! 0 = Fin 0" "zpos_heightASL ex_s1 ! 1 ! 0 = Fin 0"
    using c by (simp_all add: e ex_i1_def)
  ultimately show ?thesis by blast
qed

text \<open>
  Over ground at 200 m a parcel seeded on the lowest level, at 250 m, sinks by 100 m in
  step 0: its height 150 m is recorded as it is, its level -0.2 is recorded as 0. With
  the recorded values the right-hand side of the equation is
  \<open>0 + ((150 - 250) - (200 - 200)) / 500 = -0.2\<close>, not the recorded level 0.
\<close>

theorem coordinate_transform_counterexample:
  "initial_height ex_terrain ex_tseed = Inr ex_t0 \<and>
   vert_resolution ex_terrain = Inr ex_vres \<and>
   step ex_cfg ex_terrain ex_vres 0 ex_t0 = Inr ex_t1 \<and>
   zpos ex_t1 ! 1 ! 0 = Fin 0 \<and>
   fadd (zpos ex_t1 ! 0 ! 0)
     (fdiv (fsub (fsub (zpos_heightASL ex_t1 ! 1 ! 0) (zpos_heightASL ex_t1 ! 0 ! 0))
              (fsub (interp_point2 (3, 3) (surface_height ex_terrain) NaN
                       (ypos ex_t1 ! 1 ! 0, xpos ex_t1 ! 1 ! 0))
                    (interp_point2 (3, 3) (surface_height ex_terrain) NaN
                       (ypos ex_t1 ! 0 ! 0, xpos ex_t1 ! 0 ! 0))))
           (zpos_vert_res ex_t1 ! 0 ! 0)) = Fin (- (1 / 5))"
proof -
  have "zpos ex_t1 ! 1 ! 0 = Fin 0" "zpos ex_t1 ! 0 ! 0 = Fin 0"
    "zpos_heightASL ex_t1 ! 1 ! 0 = Fin 150" "zpos_heightASL ex_t1 ! 0 ! 0 = Fin 250"
    "ypos ex_t1 ! 1 ! 0 = Fin 0" "xpos ex_t1 ! 1 ! 0 = Fin (3 / 2)"
    "ypos ex_t1 ! 0 ! 0 = Fin 0" "xpos ex_t1 ! 0 ! 0 = Fin 1"
    "zpos_vert_res ex_t1 ! 0 ! 0 = Fin 500"
    by (simp_all add: ex_t1_def ex_ti1_def zero_row_def)
  then show ?thesis
    using ex_terrain_initial_height ex_terrain_vert_resolution ex_terrain_step
    by (simp add: ex_terrain_proj interp_point2_const)
qed

text \<open>
  The second parcel of the small run is lost in step 0: its level at time index 1 is
  not-a-number, which is not at least 0, and so is its height at time index 2.
\<close>

theorem ground_clip_counterexample:
  "step ex_cfg ex_ds ex_vres 0 ex_s0 = Inr ex_s1 \<and>
   zpos ex_s1 ! 1 ! 1 = NaN \<and> \<not> fge (zpos ex_s1 ! 1 ! 1) (Fin 0) \<and>
   step ex_cfg ex_ds ex_vres 1 ex_s1 = Inr ex_s2 \<and>
   zpos_heightASL ex_s2 ! 2 ! 1 = NaN \<and> \<not> fge (zpos_heightASL ex_s2 ! 2 ! 1) (Fin 0)"
  using ex_step0 ex_step1 by (simp add: ex_s1_def ex_s2_def)

theorem lost_parcel_propagation_witness:
  "run ex_cfg ex_ds ex_vres ex_s0 = Inr ex_s3 \<and>
   xpos ex_s3 ! 1 ! 1 = NaN \<and> ypos ex_s3 ! 1 ! 1 = NaN \<and> zpos ex_s3 ! 1 ! 1 = NaN \<and>
   xpos ex_s3 ! 2 ! 1 = NaN \<and> ypos ex_s3 ! 2 ! 1 = NaN \<and> zpos ex_s3 ! 2 ! 1 = NaN \<and>
   variable1 ex_s3 ! 0 ! 1 = NaN \<and> variable1 ex_s3 ! 1 ! 1 = NaN \<and>
   variable1 ex_s3 ! 2 ! 1 = NaN \<and>
   zpos_heightASL ex_s3 ! 1 ! 1 = Fin 0 \<and> zpos_heightASL ex_s3 ! 2 ! 1 = NaN"
proof -
  have wf: "wf_state (time_steps ex_cfg) 3 ex_s0" using ex_wf0 by (simp add: ex_proj)
  have b: "run_loop ex_cfg ex_ds ex_vres 0 0 ex_s0 = Inr ex_s0" by simp
  have t: "0 < time_steps ex_cfg - 1" by (simp add: ex_proj)
  have i: "Suc 0 < 3" by simp
  note L = lost_parcel_propagation [OF wf i b t ex_outside ex_run]
  from L have k1: "xpos ex_s3 ! 1 ! 1 = NaN \<and> ypos ex_s3 ! 1 ! 1 = NaN \<and> zpos ex_s3 ! 1 ! 1 = NaN \<and>
      variable1 ex_s3 ! 1 ! 1 = NaN"
    by (simp add: ex_proj)
  from L have k2: "xpos ex_s3 ! 2 ! 1 = NaN \<and> ypos ex_s3 ! 2 ! 1 = NaN \<and> zpos ex_s3 ! 2 ! 1 = NaN \<and>
      variable1 ex_s3 ! 2 ! 1 = NaN \<and> zpos_heightASL ex_s3 ! 2 ! 1 = NaN"
    by (simp add: ex_proj)
  from L have k0: "variable1 ex_s3 ! 0 ! 1 = NaN"
    "zpos_heightASL ex_s3 ! 1 ! 1 = clip_min0 (zpos_heightASL ex_s0 ! 0 ! 1)"
    by simp_all
  from k0 k1 k2 ex_run show ?thesis by (simp add: clip_min0_def)
qed

text \<open>
  The second parcel of the small run is outside the window at step 0 (x = 2.5 on an axis
  that ends at 2). Its height above sea level at time index 1 is 0, not not-a-number:
  the vertical velocity was filled with 0.
\<close>

theorem lost_parcel_counterexample:
  "outside_window ex_cfg ex_ds ex_s0 0 1 \<and> run ex_cfg ex_ds ex_vres ex_s0 = Inr ex_s3 \<and>
   zpos_heightASL ex_s3 ! 1 ! 1 = Fin 0"
  using ex_outside ex_run by (simp add: ex_s3_def ex_s2_def)

theorem dual_fill_policy_witness:
  "sample_u ex_cfg ex_window (const3 3 3 3 (1 / 2)) (xpos ex_s0 ! 0) (ypos ex_s0 ! 0) (zpos ex_s0 ! 0)
     = Inr [Fin (1 / 2), NaN, Fin (1 / 2)] \<and>
   sample_w ex_cfg ex_window (const3 3 3 3 (- (1 / 10))) (xpos ex_s0 ! 0) (ypos ex_s0 ! 0) (zpos ex_s0 ! 0)
     = Inr [Fin (- (1 / 10)), Fin 0, Fin (- (1 / 10))] \<and>
   outside (fast_axes ex_window)
     (coord_u ex_cfg ex_window (xpos ex_s0 ! 0) (ypos ex_s0 ! 0) (zpos ex_s0 ! 0) ! 1) \<and>
   outside (fast_axes ex_window)
     (coord_w ex_cfg ex_window (xpos ex_s0 ! 0) (ypos ex_s0 ! 0) (zpos ex_s0 ! 0) ! 1) \<and>
   [Fin (1 / 2), NaN, Fin (1 / 2)] ! 1 = NaN \<and>
   [Fin 0, NaN, Fin 0] ! 1 = NaN \<and> [Fin 300, NaN, Fin 300] ! 1 = NaN \<and>
   [Fin (- (1 / 10)), Fin 0, Fin (- (1 / 10))] ! 1 = Fin 0"
proof -
  have o: "outside (fast_axes ex_window)
      (coord_u ex_cfg ex_window (xpos ex_s0 ! 0) (ypos ex_s0 ! 0) (zpos ex_s0 ! 0) ! 1)"
    "outside (fast_axes ex_window)
      (coord_v ex_cfg ex_window (xpos ex_s0 ! 0) (ypos ex_s0 ! 0) (zpos ex_s0 ! 0) ! 1)"
    "outside (fast_axes ex_window)
      (coord_w ex_cfg ex_window (xpos ex_s0 ! 0) (ypos ex_s0 ! 0) (zpos ex_s0 ! 0) ! 1)"
    "outside (fast_axes ex_window)
      (coord_fast ex_window (xpos ex_s0 ! 0) (ypos ex_s0 ! 0) (zpos ex_s0 ! 0) ! 1)"
    using outside_window_Inr [OF ex_outside ex_window0] by simp_all
  have s: "sample_u ex_cfg ex_window (const3 3 3 3 (1 / 2)) (xpos ex_s0 ! 0) (ypos ex_s0 ! 0) (zpos ex_s0 ! 0)
       = Inr [Fin (1 / 2), NaN, Fin (1 / 2)]"
    "sample_v ex_cfg ex_window (const3 3 3 3 0) (xpos ex_s0 ! 0) (ypos ex_s0 ! 0) (zpos ex_s0 ! 0)
       = Inr [Fin 0, NaN, Fin 0]"
    "sample_w ex_cfg ex_window (const3 3 3 3 (- (1 / 10))) (xpos ex_s0 ! 0) (ypos ex_s0 ! 0) (zpos ex_s0 ! 0)
       = Inr [Fin (- (1 / 10)), Fin 0, Fin (- (1 / 10))]"
    "sample_var1 ex_window (const3 3 3 3 300) (xpos ex_s0 ! 0) (ypos ex_s0 ! 0) (zpos ex_s0 ! 0)
       = Inr [Fin 300, NaN, Fin 300]"
    by (simp_all add: ex_samples0)
  have l: "1 < length (xpos ex_s0 ! 0)" "length (ypos ex_s0 ! 0) = length (xpos ex_s0 ! 0)"
    "length (zpos ex_s0 ! 0) = length (xpos ex_s0 ! 0)"
    by simp_all
  note D = dual_fill_policy [OF l, of ex_cfg ex_window "const3 3 3 3 (1 / 2)"
      "[Fin (1 / 2), NaN, Fin (1 / 2)]" "const3 3 3 3 0" "[Fin 0, NaN, Fin 0]"
      "const3 3 3 3 300" "[Fin 300, NaN, Fin 300]" "const3 3 3 3 (- (1 / 10))"
      "[Fin (- (1 / 10)), Fin 0, Fin (- (1 / 10))]"]
  from D s o show ?thesis by blast
qed

theorem scalar_alignment_witness:
  "variable1 ex_s1 ! 0 ! 0 =
     interp_point3 (fast_axes ex_window) (uniform_filter (const3 3 3 3 300) smooth) NaN
       (Fin 0, Fin 1, Fin 1) \<and>
   xpos ex_s1 ! 0 ! 0 = Fin 1 \<and> xpos ex_s1 ! 1 ! 0 = Fin (3 / 2) \<and>
   variable1 ex_s1 ! 1 = variable1 ex_s0 ! 1"
proof -
  from scalar_alignment [OF ex_step0 ex_wf0, of 0] obtain w field var1 u where
    w: "field_window ex_ds ex_s0 0 = Inr w"
    and f: "get_variable ex_ds (var_name1 ex_cfg) = Inr field"
    and v: "fetch field (loop_time_index ex_cfg 0) w = Inr var1"
    and r: "variable1 ex_s1 ! 0 ! 0 =
             interp_point3 (fast_axes w) (uniform_filter var1 smooth) NaN
               (fsub (zpos ex_s0 ! 0 ! 0) (Fin (real_of_int (zmin w))),
                fsub (ypos ex_s0 ! 0 ! 0) (Fin (real_of_int (ymin w))),
                fsub (xpos ex_s0 ! 0 ! 0) (Fin (real_of_int (xmin w))))"
      "xpos ex_s1 ! 0 ! 0 = xpos ex_s0 ! 0 ! 0"
      "variable1 ex_s1 ! (0 + 1) = variable1 ex_s0 ! (0 + 1)"
    by auto
  from w have [simp]: "w = ex_window" by (simp add: ex_window0)
  from f have [simp]: "field = replicate 6 (const3 3 3 3 300)" by (simp add: ex_fields)
  from v have [simp]: "var1 = const3 3 3 3 300"
    by (simp add: loop_time_index_def ex_cfg_def ex_fetch0)
  from r show ?thesis by (simp add: ex_proj) (simp add: ex_s1_def)
qed

theorem top_of_domain_lost_witness:
  "fgt (zpos ex_s0 ! 0 ! 2) (Fin (real (nz ex_ds) - 2)) \<and>
   zpos_vert_res ex_s1 ! 0 ! 2 = NaN \<and> zpos ex_s1 ! 1 ! 2 = NaN \<and>
   xpos ex_s1 ! 1 ! 2 = Fin (3 / 2) \<and> zpos_heightASL ex_s1 ! 1 ! 2 = Fin 650"
proof -
  have top: "fgt (zpos ex_s0 ! 0 ! 2) (Fin (real (nz ex_ds) - 2))"
    by (simp add: ex_proj fgt_def)
  from top_of_domain_lost [OF ex_step0 ex_wf0 _ top] top show ?thesis
    by simp (simp add: ex_s1_def)
qed

end
